theory Spec2Isabelle
  imports Main "HOL-Library.Sublist"
begin

section \<open>JavaScript values reaching the logger\<close>

text \<open>
  The model follows the second \<open>Logger\<close> class of \<open>src/index.ts\<close> (the one with
  \<open>logBuffer\<close>, \<open>webhookBuffer\<close>, \<open>sendWebhook\<close>, \<open>generatePaths\<close>,
  \<open>extractBuffer\<close> and the asynchronous \<open>exit\<close>).

  Message and data arguments are typed \<open>any\<close>. A value is one of the runtime
  categories \<open>typeof\<close> distinguishes. \<open>JNumber i\<close> stands for an integer-valued
  number of absolute value below \<open>10^21\<close>, the range in which \<open>toString\<close> and
  \<open>JSON.stringify\<close> print the decimal numeral; from \<open>10^21\<close> on JavaScript prints
  an exponent form, which \<open>showInt\<close> does not, and fractions, \<open>NaN\<close> and the
  infinities have no value here. A function carries its source text, a symbol
  its description. Objects are trees of own enumerable string-keyed properties in
  insertion order.
\<close>

datatype jsval =
    JUndefined
  | JNull
  | JString string
  | JNumber int
  | JBoolean bool
  | JBigInt int
  | JSymbol string
  | JFunction string
  | JArray "jsval list"
  | JObject "(string \<times> jsval) list"

datatype LogLevel = FATAL | FATALRATE | ERROR | WARN | SUCCESS | INFO | DEBUG

text \<open>In the source a level is the string itself.\<close>

fun levelName :: "LogLevel \<Rightarrow> string" where
  "levelName FATAL = ''FATAL''"
| "levelName FATALRATE = ''FATALRATE''"
| "levelName ERROR = ''ERROR''"
| "levelName WARN = ''WARN''"
| "levelName SUCCESS = ''SUCCESS''"
| "levelName INFO = ''INFO''"
| "levelName DEBUG = ''DEBUG''"

abbreviation nl :: string where "nl \<equiv> [CHR 0x0A]"
abbreviation dq :: string where "dq \<equiv> [CHR 0x22]"
abbreviation bsl :: string where "bsl \<equiv> [CHR 0x5C]"
abbreviation fence :: string where "fence \<equiv> [CHR 0x60, CHR 0x60, CHR 0x60]"

subsection \<open>Decimal numerals\<close>

fun showNat :: "nat \<Rightarrow> string" where
  "showNat n =
     (if n < 10 then [''0123456789'' ! n]
      else showNat (n div 10) @ [''0123456789'' ! (n mod 10)])"

declare showNat.simps [simp del]

definition showInt :: "int \<Rightarrow> string" where
  "showInt i = (if i < 0 then ''-'' @ showNat (nat (- i)) else showNat (nat i))"

text \<open>Zero-padded field of at least \<open>w\<close> digits, as the date masks produce.\<close>

definition pad :: "nat \<Rightarrow> nat \<Rightarrow> string" where
  "pad w n = replicate (w - length (showNat n)) (CHR ''0'') @ showNat n"

subsection \<open>\<open>typeof\<close>, \<open>toString\<close> and \<open>JSON.stringify\<close>\<close>

fun typeof_js :: "jsval \<Rightarrow> string" where
  "typeof_js JUndefined = ''undefined''"
| "typeof_js JNull = ''object''"
| "typeof_js (JString _) = ''string''"
| "typeof_js (JNumber _) = ''number''"
| "typeof_js (JBoolean _) = ''boolean''"
| "typeof_js (JBigInt _) = ''bigint''"
| "typeof_js (JSymbol _) = ''symbol''"
| "typeof_js (JFunction _) = ''function''"
| "typeof_js (JArray _) = ''object''"
| "typeof_js (JObject _) = ''object''"

text \<open>\<open>v == undefined\<close> (loose equality) holds for \<open>undefined\<close> and \<open>null\<close> only.\<close>

fun looseUndefined :: "jsval \<Rightarrow> bool" where
  "looseUndefined JUndefined = True"
| "looseUndefined JNull = True"
| "looseUndefined _ = False"

text \<open>
  \<open>toString\<close> of the categories the program calls it on: string, number,
  boolean, bigint, symbol and function. The last four equations only make the
  function total; the program never reaches them (it calls \<open>toString\<close> behind
  the \<open>typeof\<close> test), and the one for arrays is a placeholder, not the
  comma-joined text of JavaScript.
\<close>

fun toString_js :: "jsval \<Rightarrow> string" where
  "toString_js (JString s) = s"
| "toString_js (JNumber i) = showInt i"
| "toString_js (JBoolean b) = (if b then ''true'' else ''false'')"
| "toString_js (JBigInt i) = showInt i"
| "toString_js (JSymbol d) = ''Symbol('' @ d @ '')''"
| "toString_js (JFunction src) = src"
| "toString_js JUndefined = ''undefined''"
| "toString_js JNull = ''null''"
| "toString_js (JArray _) = ''''"
| "toString_js (JObject _) = ''[object Object]''"

text \<open>\<open>QuoteJSONString\<close> of ECMA-262: the escapes of \<open>JSON.stringify\<close>.\<close>

definition hexDigit :: "nat \<Rightarrow> char" where
  "hexDigit n = ''0123456789abcdef'' ! (n mod 16)"

definition quoteChar :: "char \<Rightarrow> string" where
  "quoteChar c =
     (if c = CHR 0x22 then bsl @ dq
      else if c = CHR 0x5C then bsl @ bsl
      else if c = CHR 0x08 then bsl @ ''b''
      else if c = CHR 0x0C then bsl @ ''f''
      else if c = CHR 0x0A then bsl @ ''n''
      else if c = CHR 0x0D then bsl @ ''r''
      else if c = CHR 0x09 then bsl @ ''t''
      else if (of_char c :: nat) < 32
        then bsl @ ''u00'' @ [hexDigit (of_char c div 16), hexDigit (of_char c)]
      else [c])"

definition quoteJSON :: "string \<Rightarrow> string" where
  "quoteJSON s = dq @ concat (map quoteChar s) @ dq"

text \<open>Joining the serialised parts with a separator, as \<open>Array.prototype.join\<close>.\<close>

fun joinWith :: "string \<Rightarrow> string list \<Rightarrow> string" where
  "joinWith sep [] = ''''"
| "joinWith sep [x] = x"
| "joinWith sep (x # y # ys) = x @ sep @ joinWith sep (y # ys)"

text \<open>
  The outcome of serialising one property: an exception (\<open>TypeError\<close>, raised by a
  BigInt), \<open>undefined\<close> (the property is left out of an object and written \<open>null\<close>
  in an array), or the text.
\<close>

datatype ser = Throws | Omitted | Text string

text \<open>
  \<open>SerializeJSONProperty\<close>, \<open>SerializeJSONArray\<close> and \<open>SerializeJSONObject\<close> of
  ECMA-262 with the gap string \<open>gap\<close> and the current indentation \<open>ind\<close>.
\<close>

fun serializeProperty :: "string \<Rightarrow> string \<Rightarrow> jsval \<Rightarrow> ser"
  and serializeElements :: "string \<Rightarrow> string \<Rightarrow> jsval list \<Rightarrow> string list option"
  and serializeMembers :: "string \<Rightarrow> string \<Rightarrow> (string \<times> jsval) list \<Rightarrow> string list option"
where
  "serializeProperty gap ind JUndefined = Omitted"
| "serializeProperty gap ind JNull = Text ''null''"
| "serializeProperty gap ind (JString s) = Text (quoteJSON s)"
| "serializeProperty gap ind (JNumber i) = Text (showInt i)"
| "serializeProperty gap ind (JBoolean b) = Text (if b then ''true'' else ''false'')"
| "serializeProperty gap ind (JBigInt i) = Throws"
| "serializeProperty gap ind (JSymbol d) = Omitted"
| "serializeProperty gap ind (JFunction src) = Omitted"
| "serializeProperty gap ind (JArray vs) =
     (case serializeElements gap (ind @ gap) vs of
        None \<Rightarrow> Throws
      | Some parts \<Rightarrow>
          Text (if parts = [] then ''[]''
                else if gap = '''' then ''['' @ joinWith '','' parts @ '']''
                else ''['' @ nl @ ind @ gap @ joinWith ('','' @ nl @ ind @ gap) parts
                       @ nl @ ind @ '']''))"
| "serializeProperty gap ind (JObject ps) =
     (case serializeMembers gap (ind @ gap) ps of
        None \<Rightarrow> Throws
      | Some parts \<Rightarrow>
          Text (if parts = [] then ''{}''
                else if gap = '''' then ''{'' @ joinWith '','' parts @ ''}''
                else ''{'' @ nl @ ind @ gap @ joinWith ('','' @ nl @ ind @ gap) parts
                       @ nl @ ind @ ''}''))"
| "serializeElements gap ind [] = Some []"
| "serializeElements gap ind (v # vs) =
     (case serializeProperty gap ind v of
        Throws \<Rightarrow> None
      | Omitted \<Rightarrow> map_option ((#) ''null'') (serializeElements gap ind vs)
      | Text t \<Rightarrow> map_option ((#) t) (serializeElements gap ind vs))"
| "serializeMembers gap ind [] = Some []"
| "serializeMembers gap ind ((k, v) # ps) =
     (case serializeProperty gap ind v of
        Throws \<Rightarrow> None
      | Omitted \<Rightarrow> serializeMembers gap ind ps
      | Text t \<Rightarrow>
          map_option ((#) (quoteJSON k @ '':'' @ (if gap = '''' then '''' else '' '') @ t))
            (serializeMembers gap ind ps))"

text \<open>
  \<open>JSON.stringify(value, null, space)\<close> with a numeric \<open>space\<close>: the gap is that
  many blanks (at most ten). \<open>None\<close> is the thrown \<open>TypeError\<close>. A top-level result
  of \<open>undefined\<close> is not a string; the program calls \<open>JSON.stringify\<close> on objects
  only, where it cannot arise (lemma \<open>serializeProperty_object\<close> below), and
  the model writes it as the text \<open>undefined\<close>.
\<close>

definition JSON_stringify :: "jsval \<Rightarrow> nat \<Rightarrow> string option" where
  "JSON_stringify v space =
     (case serializeProperty (replicate (min space 10) (CHR '' '')) '''' v of
        Throws \<Rightarrow> None
      | Omitted \<Rightarrow> Some ''undefined''
      | Text t \<Rightarrow> Some t)"

section \<open>Settings\<close>

record LogFormatSettings =
  stdoutEnable :: bool
  mainProgram :: bool
  subProgram :: bool
  date :: bool
  dateformat :: string
  level :: bool
  show_ignoreLevels :: "LogLevel list"

record LogStorageSettings =
  path :: string
  json :: bool
  "txt" :: bool
  splitBy :: string
  stratagy :: string
  batch :: int
  storage_ignoreLevels :: "LogLevel list"

record LogWebhookSettings =
  enable :: bool
  url :: "string option"
  form :: string

section \<open>Rendering the text line\<close>

text \<open>
  \<open>formTxtLog\<close> reads \<open>this.formatSettings\<close>, \<open>this.mainProcess\<close> and
  \<open>this.subProcess\<close>; they are the first three arguments. Each line of the source
  is one \<open>outMessage += ...\<close>.
\<close>

definition formTxtLog ::
  "LogFormatSettings \<Rightarrow> string \<Rightarrow> string \<Rightarrow> string \<Rightarrow> string \<Rightarrow> string \<Rightarrow> string \<Rightarrow> string"
where
  "formTxtLog fs mainProcess subProcess formattedDate logMessage logLevel logDataString =
     (let outMessage = '''';
          outMessage = outMessage @ (if date fs then ''['' @ formattedDate @ ''] '' else '''');
          outMessage = outMessage @ (if mainProgram fs \<or> subProgram fs then ''<'' else '''');
          outMessage = outMessage @ (if mainProgram fs then mainProcess else '''');
          outMessage = outMessage @ (if mainProgram fs \<and> subProgram fs then ''.'' else '''');
          outMessage = outMessage @ (if subProgram fs then subProcess else '''');
          outMessage = outMessage @ (if mainProgram fs \<or> subProgram fs then ''> '' else '''');
          outMessage = outMessage @ (if level fs then ''['' @ logLevel @ ''] '' else '''');
          outMessage = outMessage @ logMessage;
          outMessage = outMessage @
            (if logDataString \<noteq> '''' then nl @ ''Log Data:'' @ nl @ logDataString else '''')
      in outMessage)"

section \<open>Time\<close>

text \<open>
  A \<open>Date\<close> as the program reads it: the local calendar fields, the time-zone text
  of the \<open>Z\<close> mask, and the UTC rendering \<open>toISOString\<close> gives (which
  \<open>JSON.stringify\<close> writes for a date).
\<close>

record Date =
  fullYear :: nat
  month :: nat
  dayOfMonth :: nat
  hours :: nat
  minutes :: nat
  seconds :: nat
  milliseconds :: nat
  zone :: string
  isoString :: string

text \<open>
  The \<open>dateformat\<close> package, for masks made of the tokens \<open>yyyy mm dd HH MM ss l Z\<close>
  and separators that are no token letters; every mask written in the program
  (the default \<open>dateformat\<close> setting and the masks of \<open>generatePaths\<close>) is of this
  kind. The package has more tokens (\<open>d ddd dddd m mmm mmmm yy h hh H M s L t tt
  T TT W o p S N\<close> and quoted literals); this function copies their letters
  instead of expanding them, so on a mask that contains one it is not the
  package. A user may set such a mask in \<open>show.dateformat\<close>: the results below
  that hold for every setting leave \<open>dateFormat\<close> unevaluated, and those that
  evaluate it do so on the program's own masks.
\<close>

fun dateFormat :: "Date \<Rightarrow> string \<Rightarrow> string" where
  "dateFormat d m =
     (if m = [] then []
      else if take 4 m = ''yyyy'' then pad 4 (fullYear d) @ dateFormat d (drop 4 m)
      else if take 2 m = ''mm'' then pad 2 (month d) @ dateFormat d (drop 2 m)
      else if take 2 m = ''dd'' then pad 2 (dayOfMonth d) @ dateFormat d (drop 2 m)
      else if take 2 m = ''HH'' then pad 2 (hours d) @ dateFormat d (drop 2 m)
      else if take 2 m = ''MM'' then pad 2 (minutes d) @ dateFormat d (drop 2 m)
      else if take 2 m = ''ss'' then pad 2 (seconds d) @ dateFormat d (drop 2 m)
      else if take 1 m = ''l'' then pad 3 (milliseconds d) @ dateFormat d (drop 1 m)
      else if take 1 m = ''Z'' then zone d @ dateFormat d (drop 1 m)
      else hd m # dateFormat d (tl m))"

declare dateFormat.simps [simp del]

section \<open>The logger and its surroundings\<close>

record LogBufferItem =
  logTXT :: string
  logJSONString :: string

text \<open>An embed; its \<open>color\<close> is always \<open>null\<close> and its footer holds one text.\<close>

record WebhookBufferItem =
  title :: string
  description :: string
  footer_text :: string

text \<open>
  What the program does to the outside, in order: a coloured console line (the
  colour is chosen by the level), a plain \<open>console.log\<close> with its extra arguments,
  a \<open>console.error\<close>, \<open>fs.mkdirSync\<close>, one appending write to a file, one
  \<open>fetch\<close> POST (URL, \<open>username\<close>, \<open>embeds\<close>), and the \<open>setTimeout\<close> that
  ends the process.
\<close>

datatype event =
    ConsoleLog LogLevel string
  | ConsolePlain string "jsval list"
  | ConsoleError string
  | MkDir string
  | FileAppend string string
  | HttpPost string string "WebhookBufferItem list"
  | ExitTimer

text \<open>
  The instance fields of the class, followed by the surroundings: \<open>clock\<close> gives
  the reading of the \<open>ticks\<close>-th \<open>new Date()\<close>, \<open>dirs\<close> are the directories that
  exist, \<open>events\<close> is the trace of effects so far.
\<close>

record Logger =
  formatSettings :: LogFormatSettings
  storageSettings :: LogStorageSettings
  webhookSettings :: LogWebhookSettings
  mainProcess :: string
  subProcess :: string
  logBuffer :: "LogBufferItem list"
  webhookBuffer :: "WebhookBufferItem list"
  clock :: "nat \<Rightarrow> Date"
  ticks :: nat
  dirs :: "string set"
  events :: "event list"

definition emitEvent :: "event \<Rightarrow> Logger \<Rightarrow> Logger" where
  "emitEvent e s = s\<lparr>events := events s @ [e]\<rparr>"

definition newDate :: "Logger \<Rightarrow> Date \<times> Logger" where
  "newDate s = (clock s (ticks s), s\<lparr>ticks := Suc (ticks s)\<rparr>)"

text \<open>
  \<open>this.error\<close>, \<open>this.fatalRate\<close> and the other print methods all enter
  \<open>sendLog\<close>, and \<open>sendLog\<close> calls the methods below, which report their own
  problems through \<open>this.error\<close> again. The methods therefore take the nested
  \<open>sendLog\<close> as the argument \<open>emit\<close>; \<open>sendLog\<close> ties the knot.
\<close>

type_synonym emitter = "LogLevel \<Rightarrow> jsval \<Rightarrow> jsval \<Rightarrow> Logger \<Rightarrow> Logger"

definition handleLogDatatype :: "emitter \<Rightarrow> jsval \<Rightarrow> Logger \<Rightarrow> string \<times> Logger" where
  "handleLogDatatype emit logData s =
     (if looseUndefined logData then ('''', s)
      else
        let dataType = typeof_js logData in
        if dataType = ''string'' then (toString_js logData, s)
        else if dataType \<in> set [''bigint'', ''boolean'', ''number'', ''symbol'', ''function'']
          then (toString_js logData, s)
        else if dataType = ''object'' then
          (case JSON_stringify logData 4 of
             Some t \<Rightarrow> (t, s)
           | None \<Rightarrow>
               ('''', emit ERROR (JString ''Datatype of object is not json'')
                      (JObject [(''dataType'', JString dataType), (''data'', logData)]) s))
        else
          (''Datatype error'',
           emit ERROR (JString ''Datatype Error'')
             (JObject [(''dataType'', JString dataType), (''data'', logData)]) s))"

definition generatePaths :: "emitter \<Rightarrow> Date \<Rightarrow> Logger \<Rightarrow> (string \<times> string) \<times> Logger" where
  "generatePaths emit currentTime s =
     (let logLocation = '''';
          dirLocation = path (storageSettings s);
          sb = splitBy (storageSettings s)
      in
      if sb = ''don't split'' then
        (let dirLocation = dirLocation @ ''/'';
             logLocation = logLocation @ dirLocation @ ''logs.''
         in ((dirLocation, logLocation), s))
      else if sb = ''year'' then
        (let dirLocation = dirLocation @ ''/'';
             logLocation = logLocation @ dateFormat currentTime ''yyyy'' @ ''.''
         in ((dirLocation, logLocation), s))
      else if sb = ''month'' then
        (let dirLocation = dirLocation @ ''/'' @ dateFormat currentTime ''yyyy'' @ ''/'';
             logLocation = logLocation @ dirLocation @ dateFormat currentTime ''mm'' @ ''.''
         in ((dirLocation, logLocation), s))
      else if sb = ''day'' then
        (let dirLocation = dirLocation @ ''/'' @ dateFormat currentTime ''yyyy/mm'' @ ''/'';
             logLocation = logLocation @ dirLocation @ dateFormat currentTime ''dd'' @ ''.''
         in ((dirLocation, logLocation), s))
      else if sb = ''hour'' then
        (let dirLocation = dirLocation @ ''/'' @ dateFormat currentTime ''yyyy/mm/dd'' @ ''/'';
             logLocation = logLocation @ dirLocation @ dateFormat currentTime ''HH'' @ ''.''
         in ((dirLocation, logLocation), s))
      else if sb = ''minute'' then
        (let dirLocation = dirLocation @ ''/'' @ dateFormat currentTime ''yyyy/mm/dd/HH'' @ ''/'';
             logLocation = logLocation @ dirLocation @ dateFormat currentTime ''MM'' @ ''.''
         in ((dirLocation, logLocation), s))
      else if sb = ''second'' then
        (let dirLocation = dirLocation @ ''/'' @ dateFormat currentTime ''yyyy/mm/dd/HH/MM'' @ ''/'';
             logLocation = logLocation @ dirLocation @ dateFormat currentTime ''ss'' @ ''.''
         in ((dirLocation, logLocation), s))
      else
        ((dirLocation, logLocation),
         emit ERROR (JString ''Logger split by value is invalid'') (JString sb) s))"

text \<open>\<open>if (!fs.existsSync(dir)) fs.mkdirSync(dir, { recursive: true })\<close>.\<close>

definition ensureDir :: "string \<Rightarrow> Logger \<Rightarrow> Logger" where
  "ensureDir dirLocation s =
     (if dirLocation \<notin> dirs s
      then emitEvent (MkDir dirLocation) (s\<lparr>dirs := insert dirLocation (dirs s)\<rparr>)
      else s)"

text \<open>
  The \<open>for\<close> loop of \<open>extractBuffer\<close>: the bound is the length read before the
  loop, each round takes the first item with \<open>shift()\<close>.
\<close>

fun unpackLoop :: "emitter \<Rightarrow> nat \<Rightarrow> string \<Rightarrow> string \<Rightarrow> Logger \<Rightarrow> string \<times> string \<times> Logger" where
  "unpackLoop emit 0 txtUnpacked jsonUnpacked s = (txtUnpacked, jsonUnpacked, s)"
| "unpackLoop emit (Suc k) txtUnpacked jsonUnpacked s =
     (case logBuffer s of
        [] \<Rightarrow>
          unpackLoop emit k txtUnpacked jsonUnpacked
            (emit ERROR (JString ''Log buffer item is empty whilst trying to read from it'')
               JUndefined s)
      | logItem # rest \<Rightarrow>
          unpackLoop emit k (txtUnpacked @ logTXT logItem @ nl)
            (jsonUnpacked @ logJSONString logItem @ nl) (s\<lparr>logBuffer := rest\<rparr>))"

definition extractBuffer :: "emitter \<Rightarrow> Date \<Rightarrow> Logger \<Rightarrow> Logger" where
  "extractBuffer emit currentTime s =
     (let ((dirLocation, logLocation), s) = generatePaths emit currentTime s;
          s = ensureDir dirLocation s;
          bufferLength = length (logBuffer s);
          (txtUnpacked, jsonUnpacked, s) = unpackLoop emit bufferLength '''' '''' s;
          s = (if txt (storageSettings s)
               then emitEvent (FileAppend (logLocation @ ''txt.log'') txtUnpacked) s else s);
          s = (if json (storageSettings s)
               then emitEvent (FileAppend (logLocation @ ''json.log'') jsonUnpacked) s else s)
      in s)"

definition logJSON :: "Logger \<Rightarrow> Date \<Rightarrow> string \<Rightarrow> string \<Rightarrow> string \<Rightarrow> string \<Rightarrow> jsval" where
  "logJSON s currentTime formattedDate logMessageString logLevel logDataString =
     JObject [(''date'', JString (isoString currentTime)),
              (''formattedDate'', JString formattedDate),
              (''mainProcess'', JString (mainProcess s)),
              (''subProcess'', JString (subProcess s)),
              (''logLevel'', JString logLevel),
              (''logMessage'', JString logMessageString),
              (''logData'', JString logDataString)]"

definition logToFile ::
  "emitter \<Rightarrow> Date \<Rightarrow> string \<Rightarrow> string \<Rightarrow> string \<Rightarrow> string \<Rightarrow> string \<Rightarrow> Logger \<Rightarrow> Logger"
where
  "logToFile emit currentTime formattedDate logMessageString logLevel logDataString logTxt s =
     (let lj = logJSON s currentTime formattedDate logMessageString logLevel logDataString;
          (logJSONString, s) =
            (case JSON_stringify lj 0 of
               Some t \<Rightarrow> (t, s)
             | None \<Rightarrow>
                 ('''', emit ERROR (JString ''Error converting logJSON to string'')
                        (JObject [(''error'', JObject []), (''data'', lj)]) s))
      in
      if stratagy (storageSettings s) = ''batch'' \<and> batch (storageSettings s) > 1 then
        (let s = s\<lparr>logBuffer := logBuffer s @ [\<lparr>logTXT = logTxt, logJSONString = logJSONString\<rparr>]\<rparr>;
             bufferLength = length (logBuffer s)
         in if int bufferLength \<ge> batch (storageSettings s)
            then extractBuffer emit currentTime s else s)
      else
        (let ((dirLocation, logLocation), s) = generatePaths emit currentTime s;
             s = ensureDir dirLocation s;
             s = (if txt (storageSettings s)
                  then emitEvent (FileAppend (logLocation @ ''txt.log'') (logTxt @ nl)) s else s);
             s = (if json (storageSettings s)
                  then emitEvent (FileAppend (logLocation @ ''json.log'') (logJSONString @ nl)) s
                  else s)
         in s))"

text \<open>
  \<open>sendWebhook\<close> up to and including the \<open>fetch\<close> call and the clearing of the
  buffer that follows it in the same turn. The \<open>then\<close> and \<open>catch\<close> callbacks run
  in a later turn; they are \<open>webhookThen\<close> and \<open>webhookCatch\<close> below.
\<close>

definition newEmbed :: "Logger \<Rightarrow> string \<Rightarrow> string \<Rightarrow> LogLevel \<Rightarrow> string \<Rightarrow> WebhookBufferItem" where
  "newEmbed s formattedDate logMessageString logLevel logDataString =
     \<lparr>title = ''<'' @ mainProcess s @ ''.'' @ subProcess s @ ''> ['' @ levelName logLevel
                @ ''] '' @ logMessageString,
      description =
        (if logDataString \<noteq> '''' then
           fence @ ''json'' @ nl @
           (if length logDataString > 4000
            then ''The data provided is too long for an embed. Check file based or stdout based logs.''
            else logDataString) @ nl @ fence
         else ''''),
      footer_text = formattedDate\<rparr>"

definition sendWebhook ::
  "emitter \<Rightarrow> Date \<Rightarrow> string \<Rightarrow> string \<Rightarrow> LogLevel \<Rightarrow> string \<Rightarrow> string \<Rightarrow> Logger \<Rightarrow> Logger"
where
  "sendWebhook emit currentTime formattedDate logMessageString logLevel logDataString logTxt s =
     (if logLevel = FATALRATE then s
      else case url (webhookSettings s) of
        None \<Rightarrow> s
      | Some u \<Rightarrow>
          if form (webhookSettings s) \<noteq> ''discord'' then
            emit ERROR (JString ''Currently only discord webhooks have been implemented'')
              JUndefined s
          else
            (let s = s\<lparr>webhookBuffer := webhookBuffer s @
                        [newEmbed s formattedDate logMessageString logLevel logDataString]\<rparr>
             in
             if length (webhookBuffer s) > 8 then
               (let s = emit FATALRATE
                          (JString ''Webhook Buffer too large to send in one message!'')
                          (JNumber (int (length (webhookBuffer s)))) s
                in s\<lparr>webhookBuffer := []\<rparr>)
             else if length (webhookBuffer s) = 8 then
               (let s = emitEvent
                          (HttpPost u (mainProcess s @ ''.'' @ subProcess s) (webhookBuffer s)) s
                in s\<lparr>webhookBuffer := []\<rparr>)
             else s))"

text \<open>The body of \<open>sendLog\<close> inside its \<open>try\<close>, with the nested \<open>sendLog\<close> as \<open>emit\<close>.\<close>

definition sendLogBody :: "emitter \<Rightarrow> LogLevel \<Rightarrow> jsval \<Rightarrow> jsval \<Rightarrow> Logger \<Rightarrow> Logger" where
  "sendLogBody emit logLevel logMessage logData s =
     (let (currentTime, s) = newDate s;
          formattedDate = dateFormat currentTime (dateformat (formatSettings s));
          (logMessageString, s) = handleLogDatatype emit logMessage s;
          (logDataString, s) = handleLogDatatype emit logData s;
          txtLog = formTxtLog (formatSettings s) (mainProcess s) (subProcess s) formattedDate
                     logMessageString (levelName logLevel) logDataString;
          s = (if stdoutEnable (formatSettings s)
                  \<and> logLevel \<notin> set (show_ignoreLevels (formatSettings s))
               then emitEvent (ConsoleLog logLevel txtLog) s else s);
          s = (if (json (storageSettings s) \<or> txt (storageSettings s))
                  \<and> logLevel \<notin> set (storage_ignoreLevels (storageSettings s))
               then logToFile emit currentTime formattedDate logMessageString
                      (levelName logLevel) logDataString txtLog s
               else s);
          s = (if enable (webhookSettings s)
               then sendWebhook emit currentTime formattedDate logMessageString logLevel
                      logDataString txtLog s
               else s)
      in s)"

text \<open>
  \<open>sendLog\<close> with the number of nested \<open>sendLog\<close> activations the call stack still
  holds. The mutual recursion through \<open>this.error\<close> has no other bound; when the
  stack is used up the \<open>RangeError\<close> is raised inside the \<open>try\<close> of the innermost
  activation, whose \<open>catch\<close> prints with \<open>console.error\<close> and returns.
\<close>

primrec sendLog :: "nat \<Rightarrow> emitter" where
  "sendLog 0 = (\<lambda>logLevel logMessage logData s.
     emitEvent (ConsoleError ''There was an issue logging data'') s)"
| "sendLog (Suc stack) = sendLogBody (sendLog stack)"

subsection \<open>Print methods\<close>

definition fatal :: "nat \<Rightarrow> jsval \<Rightarrow> jsval \<Rightarrow> Logger \<Rightarrow> Logger" where
  "fatal stack message data s = sendLog stack FATAL message data s"

definition fatalRate :: "nat \<Rightarrow> jsval \<Rightarrow> jsval \<Rightarrow> Logger \<Rightarrow> Logger" where
  "fatalRate stack message data s = sendLog stack FATALRATE message data s"

definition error :: "nat \<Rightarrow> jsval \<Rightarrow> jsval \<Rightarrow> Logger \<Rightarrow> Logger" where
  "error stack message data s = sendLog stack ERROR message data s"

definition warn :: "nat \<Rightarrow> jsval \<Rightarrow> jsval \<Rightarrow> Logger \<Rightarrow> Logger" where
  "warn stack message data s = sendLog stack WARN message data s"

definition success :: "nat \<Rightarrow> jsval \<Rightarrow> jsval \<Rightarrow> Logger \<Rightarrow> Logger" where
  "success stack message data s = sendLog stack SUCCESS message data s"

definition info :: "nat \<Rightarrow> jsval \<Rightarrow> jsval \<Rightarrow> Logger \<Rightarrow> Logger" where
  "info stack message data s = sendLog stack INFO message data s"

definition debug :: "nat \<Rightarrow> jsval \<Rightarrow> jsval \<Rightarrow> Logger \<Rightarrow> Logger" where
  "debug stack message data s = sendLog stack DEBUG message data s"

subsection \<open>The callbacks of the request made by \<open>sendWebhook\<close>\<close>

definition webhookThen :: "nat \<Rightarrow> int \<Rightarrow> string \<Rightarrow> Logger \<Rightarrow> Logger" where
  "webhookThen stack status statusText s =
     (let s = (if status \<noteq> 204
               then fatalRate stack (JString ''Unexpected response from webhook'')
                      (JObject [(''status'', JNumber status), (''message'', JString statusText)]) s
               else s)
      in s\<lparr>webhookBuffer := []\<rparr>)"

definition webhookCatch :: "nat \<Rightarrow> jsval \<Rightarrow> Logger \<Rightarrow> Logger" where
  "webhookCatch stack err s =
     fatalRate stack (JString ''Webhook failed to send'') (JObject [(''error'', err)]) s"

subsection \<open>Closing\<close>

text \<open>
  \<open>exit\<close> awaits its request, so the outcome of the \<open>fetch\<close> is an argument: a
  response with its status, or a rejected promise.
\<close>

datatype fetch_outcome = Responded int string | Rejected jsval

definition exit :: "nat \<Rightarrow> jsval \<Rightarrow> fetch_outcome \<Rightarrow> Logger \<Rightarrow> Logger" where
  "exit stack reason outcome s =
     (let s = emitEvent (ConsolePlain ''Shutting down gracefully with reason: '' [reason]) s;
          s = (if stratagy (storageSettings s) = ''batch'' then
                 (let s = emitEvent (ConsolePlain ''Clearing file buffer, length:''
                                       [JNumber (int (length (logBuffer s)))]) s;
                      (currentTime, s) = newDate s
                  in extractBuffer (sendLog stack) currentTime s)
               else s);
          s = (case url (webhookSettings s) of
                 None \<Rightarrow> s
               | Some u \<Rightarrow>
                   if length (webhookBuffer s) > 0 then
                     (let s = emitEvent (ConsolePlain ''Sending last discord message, length: ''
                                           [JNumber (int (length (webhookBuffer s)))]) s;
                          s = emitEvent
                                (HttpPost u (mainProcess s @ ''.'' @ subProcess s)
                                   (webhookBuffer s)) s
                      in case outcome of
                           Responded status statusText \<Rightarrow>
                             (let s = (if status \<noteq> 204
                                       then emitEvent
                                              (ConsoleError ''Unexpected response from webhook'') s
                                       else s);
                                  s = s\<lparr>webhookBuffer := []\<rparr>
                              in emitEvent (ConsolePlain ''ready to shutdown'' []) s)
                         | Rejected err \<Rightarrow>
                             emitEvent (ConsoleError ''Webhook failed to send'') s)
                   else s)
      in emitEvent ExitTimer s)"

subsection \<open>Construction\<close>

text \<open>
  The user's settings are partial: a group or a key may be absent, and the spread
  \<open>{...defaults, ...user}\<close> takes the user's value where there is one.
\<close>

record CustomFormatSettings =
  u_stdoutEnable :: "bool option"
  u_mainProgram :: "bool option"
  u_subProgram :: "bool option"
  u_date :: "bool option"
  u_dateformat :: "string option"
  u_level :: "bool option"
  u_show_ignoreLevels :: "LogLevel list option"

record CustomStorageSettings =
  u_path :: "string option"
  u_json :: "bool option"
  u_txt :: "bool option"
  u_splitBy :: "string option"
  u_stratagy :: "string option"
  u_batch :: "int option"
  u_storage_ignoreLevels :: "LogLevel list option"

record CustomWebhookSettings =
  u_enable :: "bool option"
  u_url :: "string option"
  u_form :: "string option"

record CustomLoggerSettings =
  u_show :: "CustomFormatSettings option"
  u_logStorage :: "CustomStorageSettings option"
  u_logWebook :: "CustomWebhookSettings option"

definition orDefault :: "'a option \<Rightarrow> 'a \<Rightarrow> 'a" where
  "orDefault u d = (case u of None \<Rightarrow> d | Some v \<Rightarrow> v)"

text \<open>\<open>defaultSettings\<close>; the argument is \<open>process.env.ENVIRONMENT\<close>.\<close>

definition default_show :: "string option \<Rightarrow> LogFormatSettings" where
  "default_show env =
     \<lparr>stdoutEnable = True, mainProgram = True, subProgram = True, date = True,
      dateformat = ''yyyy-mm-dd HH:MM:ss:l Z'', level = True,
      show_ignoreLevels = (if env \<noteq> Some ''DEV'' then [DEBUG] else [])\<rparr>"

definition default_logStorage :: "string option \<Rightarrow> LogStorageSettings" where
  "default_logStorage env =
     \<lparr>path = ''./logs'', json = True, txt = True, splitBy = ''day'', stratagy = ''batch'',
      batch = 6, storage_ignoreLevels = (if env \<noteq> Some ''DEV'' then [DEBUG] else [])\<rparr>"

definition default_logWebook :: LogWebhookSettings where
  "default_logWebook = \<lparr>enable = False, url = None, form = ''''\<rparr>"

definition mergeFormat :: "LogFormatSettings \<Rightarrow> CustomFormatSettings option \<Rightarrow> LogFormatSettings" where
  "mergeFormat d uo =
     (case uo of
        None \<Rightarrow> d
      | Some u \<Rightarrow>
          \<lparr>stdoutEnable = orDefault (u_stdoutEnable u) (stdoutEnable d),
           mainProgram = orDefault (u_mainProgram u) (mainProgram d),
           subProgram = orDefault (u_subProgram u) (subProgram d),
           date = orDefault (u_date u) (date d),
           dateformat = orDefault (u_dateformat u) (dateformat d),
           level = orDefault (u_level u) (level d),
           show_ignoreLevels = orDefault (u_show_ignoreLevels u) (show_ignoreLevels d)\<rparr>)"

definition mergeStorage :: "LogStorageSettings \<Rightarrow> CustomStorageSettings option \<Rightarrow> LogStorageSettings" where
  "mergeStorage d uo =
     (case uo of
        None \<Rightarrow> d
      | Some u \<Rightarrow>
          \<lparr>path = orDefault (u_path u) (path d),
           json = orDefault (u_json u) (json d),
           txt = orDefault (u_txt u) (txt d),
           splitBy = orDefault (u_splitBy u) (splitBy d),
           stratagy = orDefault (u_stratagy u) (stratagy d),
           batch = orDefault (u_batch u) (batch d),
           storage_ignoreLevels =
             orDefault (u_storage_ignoreLevels u) (storage_ignoreLevels d)\<rparr>)"

definition mergeWebhook :: "LogWebhookSettings \<Rightarrow> CustomWebhookSettings option \<Rightarrow> LogWebhookSettings" where
  "mergeWebhook d uo =
     (case uo of
        None \<Rightarrow> d
      | Some u \<Rightarrow>
          \<lparr>enable = orDefault (u_enable u) (enable d),
           url = (case u_url u of None \<Rightarrow> url d | Some v \<Rightarrow> Some v),
           form = orDefault (u_form u) (form d)\<rparr>)"

text \<open>The settings objects as \<open>JSON.stringify\<close> sees them, keys in the order of the defaults.\<close>

definition levels_js :: "LogLevel list \<Rightarrow> jsval" where
  "levels_js ls = JArray (map (\<lambda>l. JString (levelName l)) ls)"

definition formatSettings_js :: "LogFormatSettings \<Rightarrow> jsval" where
  "formatSettings_js fs =
     JObject [(''stdoutEnable'', JBoolean (stdoutEnable fs)),
              (''mainProgram'', JBoolean (mainProgram fs)),
              (''subProgram'', JBoolean (subProgram fs)),
              (''date'', JBoolean (date fs)),
              (''dateformat'', JString (dateformat fs)),
              (''level'', JBoolean (level fs)),
              (''ignoreLevels'', levels_js (show_ignoreLevels fs))]"

definition storageSettings_js :: "LogStorageSettings \<Rightarrow> jsval" where
  "storageSettings_js ss =
     JObject [(''path'', JString (path ss)),
              (''json'', JBoolean (json ss)),
              (''txt'', JBoolean (txt ss)),
              (''splitBy'', JString (splitBy ss)),
              (''stratagy'', JString (stratagy ss)),
              (''batch'', JNumber (batch ss)),
              (''ignoreLevels'', levels_js (storage_ignoreLevels ss))]"

definition webhookSettings_js :: "LogWebhookSettings \<Rightarrow> jsval" where
  "webhookSettings_js ws =
     JObject [(''enable'', JBoolean (enable ws)),
              (''url'', (case url ws of None \<Rightarrow> JUndefined | Some u \<Rightarrow> JString u)),
              (''form'', JString (form ws))]"

text \<open>
  The constructor. The arguments after the user's are the surroundings at the
  time of the call: the environment variable, the clock and the existing
  directories. \<open>Inl\<close> is \<open>process.exit(1)\<close> from the \<open>catch\<close> around the first
  log lines, \<open>Inr\<close> the constructed instance. Registering the \<open>process.on\<close>
  handlers changes no field.
\<close>

definition "constructor" ::
  "nat \<Rightarrow> string \<Rightarrow> string \<Rightarrow> CustomLoggerSettings \<Rightarrow> string option \<Rightarrow> (nat \<Rightarrow> Date) \<Rightarrow> string set
     \<Rightarrow> Logger + Logger"
where
  "constructor stack mainP subP userSettings env clk existing =
     (let s = \<lparr>formatSettings = mergeFormat (default_show env) (u_show userSettings),
               storageSettings = mergeStorage (default_logStorage env) (u_logStorage userSettings),
               webhookSettings = mergeWebhook default_logWebook (u_logWebook userSettings),
               mainProcess = mainP, subProcess = subP,
               logBuffer = [], webhookBuffer = [],
               clock = clk, ticks = 0, dirs = existing, events = []\<rparr>;
          s = success stack (JString ''Initialised Logger'') JUndefined s
      in
      case JSON_stringify (formatSettings_js (formatSettings s)) 4 of
        None \<Rightarrow> Inl (emitEvent (ConsoleError ''There was an issue with logging settings'') s)
      | Some f \<Rightarrow>
          (let s = debug stack (JString (''Settings:'' @ nl @ f)) JUndefined s in
           case JSON_stringify (storageSettings_js (storageSettings s)) 4 of
             None \<Rightarrow> Inl (emitEvent (ConsoleError ''There was an issue with logging settings'') s)
           | Some g \<Rightarrow>
               (let s = debug stack (JString (nl @ g)) JUndefined s in
                case JSON_stringify (webhookSettings_js (webhookSettings s)) 4 of
                  None \<Rightarrow>
                    Inl (emitEvent (ConsoleError ''There was an issue with logging settings'') s)
                | Some h \<Rightarrow> Inr (debug stack (JString (nl @ h @ nl)) JUndefined s))))"

section \<open>Observations and side conditions\<close>

text \<open>
  The definitions of this section are not part of the program. They name what
  the statements below observe in a trace and the conditions under which a
  dispatch raises no internal error record.
\<close>

subsection \<open>What stays fixed\<close>

text \<open>The settings, the process names and the clock: no method assigns them.\<close>

definition config ::
  "Logger \<Rightarrow> LogFormatSettings \<times> LogStorageSettings \<times> LogWebhookSettings \<times> string \<times> string \<times> (nat \<Rightarrow> Date)"
where
  "config s = (formatSettings s, storageSettings s, webhookSettings s, mainProcess s,
               subProcess s, clock s)"

definition keepsConfig :: "emitter \<Rightarrow> bool" where
  "keepsConfig emit \<longleftrightarrow> (\<forall>l m d s. config (emit l m d s) = config s)"

subsection \<open>Conditions\<close>

text \<open>The \<open>splitBy\<close> values that have a \<open>case\<close> in \<open>generatePaths\<close>.\<close>

definition recognisedSplit :: "string \<Rightarrow> bool" where
  "recognisedSplit sb \<longleftrightarrow>
     sb \<in> set [''don't split'', ''year'', ''month'', ''day'', ''hour'', ''minute'', ''second'']"

text \<open>A value \<open>handleLogDatatype\<close> converts without entering its \<open>catch\<close>.\<close>

definition convertible :: "jsval \<Rightarrow> bool" where
  "convertible v \<longleftrightarrow>
     (typeof_js v = ''object'' \<and> \<not> looseUndefined v \<longrightarrow> JSON_stringify v 4 \<noteq> None)"

text \<open>The string \<open>handleLogDatatype\<close> returns, whatever else it does.\<close>

definition valueText :: "jsval \<Rightarrow> string" where
  "valueText v =
     (if looseUndefined v then ''''
      else if typeof_js v = ''object''
        then (case JSON_stringify v 4 of Some t \<Rightarrow> t | None \<Rightarrow> '''')
      else toString_js v)"

text \<open>The guards of \<open>sendLog\<close> and \<open>sendWebhook\<close> under which a sink is entered.\<close>

definition fileActive :: "LogLevel \<Rightarrow> Logger \<Rightarrow> bool" where
  "fileActive lvl s \<longleftrightarrow>
     (json (storageSettings s) \<or> txt (storageSettings s)) \<and>
     lvl \<notin> set (storage_ignoreLevels (storageSettings s))"

definition webhookActive :: "LogLevel \<Rightarrow> Logger \<Rightarrow> bool" where
  "webhookActive lvl s \<longleftrightarrow>
     enable (webhookSettings s) \<and> lvl \<noteq> FATALRATE \<and> url (webhookSettings s) \<noteq> None"

text \<open>
  A dispatch that reports no problem of its own through \<open>this.error\<close> or
  \<open>this.fatalRate\<close>: both arguments convert, the file sink (if entered) knows
  the \<open>splitBy\<close> value, and the webhook sink (if entered) is a discord webhook
  whose buffer will not overflow.
\<close>

definition quietDispatch :: "LogLevel \<Rightarrow> jsval \<Rightarrow> jsval \<Rightarrow> Logger \<Rightarrow> bool" where
  "quietDispatch lvl msg data s \<longleftrightarrow>
     convertible msg \<and> convertible data \<and>
     (fileActive lvl s \<longrightarrow> recognisedSplit (splitBy (storageSettings s))) \<and>
     (webhookActive lvl s \<longrightarrow>
        form (webhookSettings s) = ''discord'' \<and> length (webhookBuffer s) < 8)"

text \<open>Batch mode with both formats written and a known \<open>splitBy\<close>.\<close>

definition batchMode :: "nat \<Rightarrow> Logger \<Rightarrow> bool" where
  "batchMode B s \<longleftrightarrow>
     stratagy (storageSettings s) = ''batch'' \<and> batch (storageSettings s) = int B \<and> 1 < B \<and>
     recognisedSplit (splitBy (storageSettings s)) \<and>
     txt (storageSettings s) \<and> json (storageSettings s)"

subsection \<open>Traces\<close>

fun isConsoleLog :: "event \<Rightarrow> bool" where
  "isConsoleLog (ConsoleLog l x) = True"
| "isConsoleLog e = False"

fun isFileOp :: "event \<Rightarrow> bool" where
  "isFileOp (MkDir p) = True"
| "isFileOp (FileAppend p c) = True"
| "isFileOp e = False"

fun isPost :: "event \<Rightarrow> bool" where
  "isPost (HttpPost u n b) = True"
| "isPost e = False"

text \<open>
  The contents appended, in order, to the files whose name ends in \<open>ext\<close>
  (\<open>txt.log\<close> or \<open>json.log\<close>): one entry for each write.
\<close>

fun written :: "string \<Rightarrow> event list \<Rightarrow> string list" where
  "written ext [] = []"
| "written ext (FileAppend p c # es) =
     (if suffix ext p then c # written ext es else written ext es)"
| "written ext (e # es) = written ext es"

text \<open>The text a flush writes for a buffer: every item followed by a newline.\<close>

definition bufferTxt :: "LogBufferItem list \<Rightarrow> string" where
  "bufferTxt b = concat (map (\<lambda>i. logTXT i @ nl) b)"

definition bufferJson :: "LogBufferItem list \<Rightarrow> string" where
  "bufferJson b = concat (map (\<lambda>i. logJSONString i @ nl) b)"

text \<open>
  The file operations of one flush or one direct write at the paths \<open>p\<close>: the
  directory when it is missing, then the text file, then the JSON file.
\<close>

definition writeEvents :: "Logger \<Rightarrow> string \<times> string \<Rightarrow> string \<Rightarrow> string \<Rightarrow> event list" where
  "writeEvents s p txtText jsonText =
     (if fst p \<notin> dirs s then [MkDir (fst p)] else []) @
     (if txt (storageSettings s) then [FileAppend (snd p @ ''txt.log'') txtText] else []) @
     (if json (storageSettings s) then [FileAppend (snd p @ ''json.log'') jsonText] else [])"

text \<open>The JSON line of a record, as \<open>JSON.stringify(logJSON)\<close> writes it.\<close>

definition jsonLine :: "Logger \<Rightarrow> Date \<Rightarrow> string \<Rightarrow> string \<Rightarrow> string \<Rightarrow> string \<Rightarrow> string" where
  "jsonLine s t fd m l d =
     ''{'' @ quoteJSON ''date'' @ '':'' @ quoteJSON (isoString t) @ '','' @
     quoteJSON ''formattedDate'' @ '':'' @ quoteJSON fd @ '','' @
     quoteJSON ''mainProcess'' @ '':'' @ quoteJSON (mainProcess s) @ '','' @
     quoteJSON ''subProcess'' @ '':'' @ quoteJSON (subProcess s) @ '','' @
     quoteJSON ''logLevel'' @ '':'' @ quoteJSON l @ '','' @
     quoteJSON ''logMessage'' @ '':'' @ quoteJSON m @ '','' @
     quoteJSON ''logData'' @ '':'' @ quoteJSON d @ ''}''"

subsection \<open>A sequence of records handed to the file sink\<close>

text \<open>
  One submission is the argument list of one \<open>logToFile\<close> call: the time, the
  formatted date, the message, the level, the data string and the text line.
\<close>

type_synonym submission = "Date \<times> string \<times> string \<times> string \<times> string \<times> string"

definition logAllToFile :: "emitter \<Rightarrow> submission list \<Rightarrow> Logger \<Rightarrow> Logger" where
  "logAllToFile emit rs s = fold (\<lambda>(t, fd, m, l, d, x). logToFile emit t fd m l d x) rs s"

definition txtLineOf :: "submission \<Rightarrow> string" where
  "txtLineOf r = (case r of (t, fd, m, l, d, x) \<Rightarrow> x @ nl)"

definition jsonLineOf :: "Logger \<Rightarrow> submission \<Rightarrow> string" where
  "jsonLineOf s r = (case r of (t, fd, m, l, d, x) \<Rightarrow> jsonLine s t fd m l d @ nl)"

subsection \<open>Concrete instances\<close>

text \<open>
  The date of the README example, a clock that always reads it, and the logger
  the constructor builds from the defaults (before its first log lines).
\<close>

definition demoDate :: Date where
  "demoDate = \<lparr>fullYear = 2024, month = 6, dayOfMonth = 20, hours = 17, minutes = 39,
     seconds = 5, milliseconds = 514, zone = ''GMT+0100'',
     isoString = ''2024-06-20T16:39:05.514Z''\<rparr>"

definition constClock :: "Date \<Rightarrow> nat \<Rightarrow> Date" where
  "constClock d n = d"

definition demoLogger :: Logger where
  "demoLogger =
     \<lparr>formatSettings = default_show None, storageSettings = default_logStorage None,
      webhookSettings = default_logWebook, mainProcess = ''Testing'', subProcess = ''sub'',
      logBuffer = [], webhookBuffer = [], clock = constClock demoDate, ticks = 0, dirs = {},
      events = []\<rparr>"

definition demoBatch :: "int \<Rightarrow> Logger" where
  "demoBatch B = demoLogger\<lparr>storageSettings := (default_logStorage None)\<lparr>batch := B\<rparr>\<rparr>"

text \<open>
  The same logger with a discord webhook switched on, and with \<open>k\<close> embeds
  already waiting in the webhook buffer.
\<close>

definition demoWebhook :: Logger where
  "demoWebhook =
     demoLogger\<lparr>webhookSettings :=
       \<lparr>enable = True, url = Some ''https://discord.invalid/api/webhooks/1'', form = ''discord''\<rparr>\<rparr>"

definition demoEmbed :: "nat \<Rightarrow> WebhookBufferItem" where
  "demoEmbed k = \<lparr>title = ''<Testing.sub> [INFO] earlier'', description = '''',
                  footer_text = showNat k\<rparr>"

definition demoFull :: "nat \<Rightarrow> Logger" where
  "demoFull k = demoWebhook\<lparr>webhookBuffer := map demoEmbed [0..<k]\<rparr>"

text \<open>One record as the file sink receives it; the text line is \<open>x\<close> itself.\<close>

definition demoSubmission :: "string \<Rightarrow> submission" where
  "demoSubmission x = (demoDate, ''2024-06-20'', x, ''INFO'', '''', x)"

text \<open>The default logger splitting by year and writing every record at once.\<close>

definition demoYear :: Logger where
  "demoYear = demoLogger\<lparr>storageSettings :=
     (default_logStorage None)\<lparr>splitBy := ''year'', stratagy := ''single''\<rparr>\<rparr>"

text \<open>The default logger (it splits by day) writing every record at once.\<close>

definition demoDay :: Logger where
  "demoDay = demoLogger\<lparr>storageSettings := (default_logStorage None)\<lparr>stratagy := ''single''\<rparr>\<rparr>"

text \<open>User settings that ask for batches of one record, and the logger holding them.\<close>

definition contradictory :: CustomLoggerSettings where
  "contradictory =
     \<lparr>u_show = None,
      u_logStorage = Some \<lparr>u_path = None, u_json = None, u_txt = None, u_splitBy = None,
        u_stratagy = Some ''batch'', u_batch = Some 1, u_storage_ignoreLevels = None\<rparr>,
      u_logWebook = None\<rparr>"

definition demoPassThrough :: Logger where
  "demoPassThrough = demoBatch 1"

subsection \<open>The path table of the specification\<close>

text \<open>
  Section 4.1 of the specification, written out for comparison with
  \<open>generatePaths\<close>: the granularities, the \<open>splitBy\<close> string of each in the
  program (\<open>none\<close> is \<open>don't split\<close>), the pair of directory and file stem, and
  the two files \<open>{fileStem}txt.log\<close> and \<open>{fileStem}json.log\<close> under the
  directory.
\<close>

datatype SplitBy = SplitNone | SplitYear | SplitMonth | SplitDay | SplitHour | SplitMinute
  | SplitSecond

fun splitName :: "SplitBy \<Rightarrow> string" where
  "splitName SplitNone = ''don't split''"
| "splitName SplitYear = ''year''"
| "splitName SplitMonth = ''month''"
| "splitName SplitDay = ''day''"
| "splitName SplitHour = ''hour''"
| "splitName SplitMinute = ''minute''"
| "splitName SplitSecond = ''second''"

fun bucketPaths_spec :: "string \<Rightarrow> Date \<Rightarrow> SplitBy \<Rightarrow> string \<times> string" where
  "bucketPaths_spec base t SplitNone = (base, ''logs.'')"
| "bucketPaths_spec base t SplitYear = (base, pad 4 (fullYear t) @ ''.'')"
| "bucketPaths_spec base t SplitMonth =
     (base @ ''/'' @ pad 4 (fullYear t), pad 2 (month t) @ ''.'')"
| "bucketPaths_spec base t SplitDay =
     (base @ ''/'' @ pad 4 (fullYear t) @ ''/'' @ pad 2 (month t), pad 2 (dayOfMonth t) @ ''.'')"
| "bucketPaths_spec base t SplitHour =
     (base @ ''/'' @ pad 4 (fullYear t) @ ''/'' @ pad 2 (month t) @ ''/'' @ pad 2 (dayOfMonth t),
      pad 2 (hours t) @ ''.'')"
| "bucketPaths_spec base t SplitMinute =
     (base @ ''/'' @ pad 4 (fullYear t) @ ''/'' @ pad 2 (month t) @ ''/'' @ pad 2 (dayOfMonth t)
        @ ''/'' @ pad 2 (hours t),
      pad 2 (minutes t) @ ''.'')"
| "bucketPaths_spec base t SplitSecond =
     (base @ ''/'' @ pad 4 (fullYear t) @ ''/'' @ pad 2 (month t) @ ''/'' @ pad 2 (dayOfMonth t)
        @ ''/'' @ pad 2 (hours t) @ ''/'' @ pad 2 (minutes t),
      pad 2 (seconds t) @ ''.'')"

definition files_spec :: "string \<Rightarrow> Date \<Rightarrow> SplitBy \<Rightarrow> string \<times> string" where
  "files_spec base t g =
     (fst (bucketPaths_spec base t g) @ ''/'' @ snd (bucketPaths_spec base t g) @ ''txt.log'',
      fst (bucketPaths_spec base t g) @ ''/'' @ snd (bucketPaths_spec base t g) @ ''json.log'')"

subsection \<open>Reports of a failed serialisation\<close>

text \<open>
  The data \<open>handleLogDatatype\<close> attaches to its own error record: an object
  holding the value that did not serialise.
\<close>

definition errorReport :: "jsval \<Rightarrow> jsval" where
  "errorReport v = JObject [(''dataType'', JString ''object''), (''data'', v)]"

text \<open>
  A logger on which an \<open>ERROR\<close> record is printed and raises no further record
  in the file or webhook sink.
\<close>

definition errorShown :: "Logger \<Rightarrow> bool" where
  "errorShown s \<longleftrightarrow>
     stdoutEnable (formatSettings s) \<and> ERROR \<notin> set (show_ignoreLevels (formatSettings s)) \<and>
     \<not> webhookActive ERROR s \<and>
     (fileActive ERROR s \<longrightarrow> recognisedSplit (splitBy (storageSettings s)))"

subsection \<open>Failure reports and records without data\<close>

text \<open>
  A logger on which every file write reports an unknown \<open>splitBy\<close> value: the
  file sink takes \<open>ERROR\<close> and \<open>FATALRATE\<close> records and writes each at once,
  \<open>splitBy\<close> has no \<open>case\<close> in \<open>generatePaths\<close>, and a discord webhook is
  switched on.
\<close>

definition splitUnknown :: "Logger \<Rightarrow> bool" where
  "splitUnknown s \<longleftrightarrow>
     \<not> recognisedSplit (splitBy (storageSettings s)) \<and>
     \<not> (stratagy (storageSettings s) = ''batch'' \<and> 1 < batch (storageSettings s)) \<and>
     fileActive ERROR s \<and> fileActive FATALRATE s \<and>
     enable (webhookSettings s) \<and> url (webhookSettings s) \<noteq> None \<and>
     form (webhookSettings s) = ''discord''"

text \<open>The number of requests made so far.\<close>

definition posts :: "Logger \<Rightarrow> nat" where
  "posts s = length (filter isPost (events s))"

text \<open>The webhook logger with \<open>splitBy: "week"\<close>, writing every record at once.\<close>

definition demoWeek :: Logger where
  "demoWeek = demoWebhook\<lparr>storageSettings :=
     (default_logStorage None)\<lparr>splitBy := ''week'', stratagy := ''single''\<rparr>\<rparr>"

text \<open>
  The print method of each level: \<open>logger.info\<close> for \<open>INFO\<close>, and so on
  (\<open>log\<close> and \<open>info\<close> do the same).
\<close>

definition printCall :: "LogLevel \<Rightarrow> nat \<Rightarrow> jsval \<Rightarrow> jsval \<Rightarrow> Logger \<Rightarrow> Logger" where
  "printCall lvl =
     (case lvl of FATAL \<Rightarrow> fatal | FATALRATE \<Rightarrow> fatalRate | ERROR \<Rightarrow> error | WARN \<Rightarrow> warn
      | SUCCESS \<Rightarrow> success | INFO \<Rightarrow> info | DEBUG \<Rightarrow> debug)"

text \<open>
  The formatted date of the next record, and the text line of a record of
  level \<open>lvl\<close> with message text \<open>m\<close> and an empty data string.
\<close>

definition stamp :: "Logger \<Rightarrow> string" where
  "stamp s = dateFormat (clock s (ticks s)) (dateformat (formatSettings s))"

definition plainLine :: "Logger \<Rightarrow> LogLevel \<Rightarrow> string \<Rightarrow> string" where
  "plainLine s lvl m =
     formTxtLog (formatSettings s) (mainProcess s) (subProcess s) (stamp s) m (levelName lvl) ''''"

section \<open>Basic facts\<close>

lemma config_updates [simp]:
  "config (s\<lparr>logBuffer := b\<rparr>) = config s"
  "config (s\<lparr>webhookBuffer := w\<rparr>) = config s"
  "config (s\<lparr>ticks := n\<rparr>) = config s"
  "config (s\<lparr>dirs := ds\<rparr>) = config s"
  "config (s\<lparr>events := es\<rparr>) = config s"
  by (simp_all add: config_def)

lemma emitEvent_fields [simp]:
  "formatSettings (emitEvent e s) = formatSettings s"
  "storageSettings (emitEvent e s) = storageSettings s"
  "webhookSettings (emitEvent e s) = webhookSettings s"
  "mainProcess (emitEvent e s) = mainProcess s"
  "subProcess (emitEvent e s) = subProcess s"
  "logBuffer (emitEvent e s) = logBuffer s"
  "webhookBuffer (emitEvent e s) = webhookBuffer s"
  "clock (emitEvent e s) = clock s"
  "ticks (emitEvent e s) = ticks s"
  "dirs (emitEvent e s) = dirs s"
  "events (emitEvent e s) = events s @ [e]"
  by (simp_all add: emitEvent_def)

lemma config_emitEvent [simp]: "config (emitEvent e s) = config s"
  by (simp add: emitEvent_def)

lemma config_fields:
  assumes "config s' = config s"
  shows "formatSettings s' = formatSettings s" "storageSettings s' = storageSettings s"
    "webhookSettings s' = webhookSettings s" "mainProcess s' = mainProcess s"
    "subProcess s' = subProcess s" "clock s' = clock s"
  using assms by (simp_all add: config_def)

lemma keepsConfigD: "keepsConfig emit \<Longrightarrow> config (emit l m d s) = config s"
  by (simp add: keepsConfig_def)

lemma handleLogDatatype_config:
  "keepsConfig emit \<Longrightarrow> config (snd (handleLogDatatype emit v s)) = config s"
  by (simp add: handleLogDatatype_def Let_def keepsConfigD split: option.splits)

lemma generatePaths_config:
  "keepsConfig emit \<Longrightarrow> config (snd (generatePaths emit t s)) = config s"
  by (simp add: generatePaths_def Let_def keepsConfigD)

lemma ensureDir_config [simp]: "config (ensureDir d s) = config s"
  by (simp add: ensureDir_def)

lemma unpackLoop_config:
  "keepsConfig emit \<Longrightarrow> config (snd (snd (unpackLoop emit k a b s))) = config s"
  by (induction k arbitrary: a b s) (simp_all add: keepsConfigD split: list.splits)

lemma extractBuffer_config:
  assumes "keepsConfig emit"
  shows "config (extractBuffer emit t s) = config s"
proof -
  obtain dl ll s1 where g: "generatePaths emit t s = ((dl, ll), s1)"
    by (metis prod.exhaust)
  have c1: "config s1 = config s"
    using generatePaths_config [OF assms, of t s] g by simp
  obtain a b s2 where u: "unpackLoop emit (length (logBuffer (ensureDir dl s1))) '''' '''' (ensureDir dl s1) = (a, b, s2)"
    by (metis prod.exhaust)
  have c2: "config s2 = config s1"
    using unpackLoop_config [OF assms, of "length (logBuffer (ensureDir dl s1))" "''''" "''''" "ensureDir dl s1"] u
    by simp
  show ?thesis
    by (simp add: extractBuffer_def Let_def g u c1 c2)
qed

lemma logToFile_config:
  assumes "keepsConfig emit"
  shows "config (logToFile emit t fd m l d x s) = config s"
proof -
  let ?lj = "logJSON s t fd m l d"
  obtain js s0 where j: "(case JSON_stringify ?lj 0 of Some t \<Rightarrow> (t, s)
     | None \<Rightarrow> ('''', emit ERROR (JString ''Error converting logJSON to string'')
                        (JObject [(''error'', JObject []), (''data'', ?lj)]) s)) = (js, s0)"
    by (metis prod.exhaust)
  have c0: "config s0 = config s"
    using j keepsConfigD [OF assms] by (auto split: option.splits)
  obtain dl ll s1 where g: "generatePaths emit t s0 = ((dl, ll), s1)"
    by (metis prod.exhaust)
  have c1: "config s1 = config s0"
    using generatePaths_config [OF assms, of t s0] g by simp
  show ?thesis
    unfolding logToFile_def Let_def j
    by (simp add: g c0 c1 extractBuffer_config [OF assms])
qed

lemma sendWebhook_config:
  "keepsConfig emit \<Longrightarrow> config (sendWebhook emit t fd m l d x s) = config s"
  by (simp add: sendWebhook_def Let_def keepsConfigD split: option.splits)

lemma sendLogBody_config:
  assumes "keepsConfig emit"
  shows "keepsConfig (sendLogBody emit)"
proof -
  have "config (sendLogBody emit l m d s) = config s" for l m d s
  proof -
    obtain t s1 where n: "newDate s = (t, s1)" by (metis prod.exhaust)
    have c1: "config s1 = config s" using n by (auto simp: newDate_def)
    obtain ms s2 where h1: "handleLogDatatype emit m s1 = (ms, s2)" by (metis prod.exhaust)
    have c2: "config s2 = config s1" using handleLogDatatype_config [OF assms, of m s1] h1 by simp
    obtain ds s3 where h2: "handleLogDatatype emit d s2 = (ds, s3)" by (metis prod.exhaust)
    have c3: "config s3 = config s2" using handleLogDatatype_config [OF assms, of d s2] h2 by simp
    show ?thesis
      by (simp add: sendLogBody_def Let_def n h1 h2 c1 c2 c3
          sendWebhook_config [OF assms] logToFile_config [OF assms])
  qed
  then show ?thesis by (simp add: keepsConfig_def)
qed

lemma sendLog_keepsConfig: "keepsConfig (sendLog n)"
proof (induction n)
  case 0
  show ?case by (simp add: keepsConfig_def)
next
  case (Suc n)
  then show ?case by (simp add: sendLogBody_config)
qed

lemma sendLog_config [simp]: "config (sendLog n l m d s) = config s"
  using sendLog_keepsConfig by (simp add: keepsConfig_def)

lemma generatePaths_recognised:
  assumes "recognisedSplit (splitBy (storageSettings s))"
  shows "snd (generatePaths emit t s) = s"
    and "fst (generatePaths emit t s) = fst (generatePaths emit' t s)"
  using assms by (auto simp: generatePaths_def recognisedSplit_def Let_def)

lemma generatePaths_only_storage:
  "storageSettings s' = storageSettings s \<Longrightarrow>
   fst (generatePaths emit t s') = fst (generatePaths emit t s)"
  by (simp add: generatePaths_def Let_def)

lemma unpackLoop_exact:
  "logBuffer s = b \<Longrightarrow>
   unpackLoop emit (length b) x y s =
     (x @ bufferTxt b, y @ bufferJson b, s\<lparr>logBuffer := []\<rparr>)"
proof (induction b arbitrary: x y s)
  case Nil
  then show ?case by (simp add: bufferTxt_def bufferJson_def)
next
  case (Cons i b)
  have "unpackLoop emit (length b) (x @ logTXT i @ nl) (y @ logJSONString i @ nl)
          (s\<lparr>logBuffer := b\<rparr>)
        = ((x @ logTXT i @ nl) @ bufferTxt b, (y @ logJSONString i @ nl) @ bufferJson b,
           s\<lparr>logBuffer := b\<rparr>\<lparr>logBuffer := []\<rparr>)"
    by (rule Cons.IH) simp
  then show ?case using Cons.prems by (simp add: bufferTxt_def bufferJson_def)
qed

lemma extractBuffer_exact:
  assumes "recognisedSplit (splitBy (storageSettings s))"
  shows "extractBuffer emit t s =
     s\<lparr>logBuffer := [],
       dirs := insert (fst (fst (generatePaths emit t s))) (dirs s),
       events := events s @
         writeEvents s (fst (generatePaths emit t s)) (bufferTxt (logBuffer s))
           (bufferJson (logBuffer s))\<rparr>"
proof -
  obtain dl ll where p: "fst (generatePaths emit t s) = (dl, ll)" by (metis prod.exhaust)
  have g: "generatePaths emit t s = ((dl, ll), s)"
    using generatePaths_recognised(1) [OF assms, of emit t] p by (metis prod.collapse)
  have e: "logBuffer (ensureDir dl s) = logBuffer s"
    by (simp add: ensureDir_def emitEvent_def)
  have u: "unpackLoop emit (length (logBuffer s)) [] [] (ensureDir dl s)
             = (bufferTxt (logBuffer s), bufferJson (logBuffer s),
                (ensureDir dl s)\<lparr>logBuffer := []\<rparr>)"
    using unpackLoop_exact [OF e, of emit "[]" "[]"] by simp
  have "extractBuffer emit t s =
          (let s1 = (ensureDir dl s)\<lparr>logBuffer := []\<rparr>;
               s2 = (if txt (storageSettings s1)
                     then emitEvent (FileAppend (ll @ ''txt.log'') (bufferTxt (logBuffer s))) s1
                     else s1)
           in if json (storageSettings s2)
              then emitEvent (FileAppend (ll @ ''json.log'') (bufferJson (logBuffer s))) s2
              else s2)"
    by (simp add: extractBuffer_def g e u Let_def)
  then show ?thesis
    by (simp add: p writeEvents_def ensureDir_def emitEvent_def insert_absorb Let_def)
qed

lemma JSON_stringify_logJSON:
  "JSON_stringify (logJSON s t fd m l d) 0 = Some (jsonLine s t fd m l d)"
  by (simp add: JSON_stringify_def logJSON_def jsonLine_def)

lemma written_append [simp]: "written ext (a @ b) = written ext a @ written ext b"
  by (induction ext a rule: written.induct) simp_all

lemma written_writeEvents_txt:
  "written ''txt.log'' (writeEvents s p a b) = (if txt (storageSettings s) then [a] else [])"
  by (simp add: writeEvents_def suffix_to_prefix)

lemma written_writeEvents_json:
  "written ''json.log'' (writeEvents s p a b) = (if json (storageSettings s) then [b] else [])"
  by (simp add: writeEvents_def suffix_to_prefix)

lemma logToFile_batch:
  assumes "stratagy (storageSettings s) = ''batch''" "1 < batch (storageSettings s)"
    and "recognisedSplit (splitBy (storageSettings s))"
  shows "logToFile emit t fd m l d x s =
     (let b = logBuffer s @ [\<lparr>logTXT = x, logJSONString = jsonLine s t fd m l d\<rparr>] in
      if batch (storageSettings s) \<le> int (length b)
      then s\<lparr>logBuffer := [],
             dirs := insert (fst (fst (generatePaths emit t s))) (dirs s),
             events := events s @
               writeEvents s (fst (generatePaths emit t s)) (bufferTxt b) (bufferJson b)\<rparr>
      else s\<lparr>logBuffer := b\<rparr>)"
proof -
  let ?b = "logBuffer s @ [\<lparr>logTXT = x, logJSONString = jsonLine s t fd m l d\<rparr>]"
  let ?s1 = "s\<lparr>logBuffer := ?b\<rparr>"
  have r: "recognisedSplit (splitBy (storageSettings ?s1))" using assms(3) by simp
  have g: "fst (generatePaths emit t ?s1) = fst (generatePaths emit t s)"
    by (rule generatePaths_only_storage) simp
  have w: "writeEvents ?s1 = writeEvents s"
    by (simp add: writeEvents_def fun_eq_iff)
  show ?thesis
    using assms(1,2)
    by (simp add: logToFile_def JSON_stringify_logJSON Let_def extractBuffer_exact [OF r] g w)
qed

lemma logToFile_single:
  assumes "\<not> (stratagy (storageSettings s) = ''batch'' \<and> 1 < batch (storageSettings s))"
    and "recognisedSplit (splitBy (storageSettings s))"
  shows "logToFile emit t fd m l d x s =
     s\<lparr>dirs := insert (fst (fst (generatePaths emit t s))) (dirs s),
       events := events s @
         writeEvents s (fst (generatePaths emit t s)) (x @ nl) (jsonLine s t fd m l d @ nl)\<rparr>"
proof -
  obtain dl ll where p: "fst (generatePaths emit t s) = (dl, ll)" by (metis prod.exhaust)
  have g: "generatePaths emit t s = ((dl, ll), s)"
    using generatePaths_recognised(1) [OF assms(2), of emit t] p by (metis prod.collapse)
  have "logToFile emit t fd m l d x s =
          (let s1 = ensureDir dl s;
               s2 = (if txt (storageSettings s1)
                     then emitEvent (FileAppend (ll @ ''txt.log'') (x @ nl)) s1 else s1)
           in if json (storageSettings s2)
              then emitEvent (FileAppend (ll @ ''json.log'') (jsonLine s t fd m l d @ nl)) s2
              else s2)"
    using assms(1)
    by (cases "stratagy (storageSettings s) = ''batch''")
       (simp_all add: logToFile_def JSON_stringify_logJSON Let_def g)
  then show ?thesis
    by (simp add: p writeEvents_def ensureDir_def emitEvent_def insert_absorb Let_def)
qed

lemma batchMode_config: "config s' = config s \<Longrightarrow> batchMode B s' = batchMode B s"
  by (simp add: batchMode_def config_def)

lemma jsonLineOf_config: "config s' = config s \<Longrightarrow> jsonLineOf s' = jsonLineOf s"
  by (auto simp: jsonLineOf_def jsonLine_def config_def fun_eq_iff)

lemma bufferTxt_append [simp]: "bufferTxt (a @ b) = bufferTxt a @ bufferTxt b"
  by (simp add: bufferTxt_def)

lemma bufferJson_append [simp]: "bufferJson (a @ b) = bufferJson a @ bufferJson b"
  by (simp add: bufferJson_def)

lemma bufferTxt_empty [simp]: "bufferTxt b = [] \<longleftrightarrow> b = []"
  by (cases b) (simp_all add: bufferTxt_def)

lemma bufferJson_empty [simp]: "bufferJson b = [] \<longleftrightarrow> b = []"
  by (cases b) (simp_all add: bufferJson_def)

text \<open>One submission in batch mode: either it is buffered, or it fills the batch and
  the whole buffer is written by one flush.\<close>

lemma logToFile_batch_step:
  fixes t :: Date and fd m l d x :: string and emit :: emitter and r s1
  assumes bm: "batchMode B s" and k: "length (logBuffer s) < B"
  defines "r \<equiv> (t, fd, m, l, d, x)"
  defines "s1 \<equiv> logToFile emit t fd m l d x s"
  shows "config s1 = config s"
    and "Suc (length (logBuffer s)) < B \<Longrightarrow>
           written ext (events s1) = written ext (events s) \<and>
           logBuffer s1 = logBuffer s @ [\<lparr>logTXT = x, logJSONString = jsonLine s t fd m l d\<rparr>]"
    and "Suc (length (logBuffer s)) = B \<Longrightarrow>
           written ''txt.log'' (events s1) =
             written ''txt.log'' (events s) @ [bufferTxt (logBuffer s) @ txtLineOf r] \<and>
           written ''json.log'' (events s1) =
             written ''json.log'' (events s) @ [bufferJson (logBuffer s) @ jsonLineOf s r] \<and>
           logBuffer s1 = []"
proof -
  have a: "stratagy (storageSettings s) = ''batch''" "1 < batch (storageSettings s)"
    "recognisedSplit (splitBy (storageSettings s))" "batch (storageSettings s) = int B"
    "txt (storageSettings s)" "json (storageSettings s)"
    using bm by (simp_all add: batchMode_def)
  note e = logToFile_batch [OF a(1,2,3), of emit t fd m l d x]
  show "config s1 = config s"
    unfolding s1_def e by (simp add: Let_def config_def)
  show "written ext (events s1) = written ext (events s) \<and>
        logBuffer s1 = logBuffer s @ [\<lparr>logTXT = x, logJSONString = jsonLine s t fd m l d\<rparr>]"
    if "Suc (length (logBuffer s)) < B"
    unfolding s1_def e using that a(4) by (simp add: Let_def)
  show "written ''txt.log'' (events s1) =
             written ''txt.log'' (events s) @ [bufferTxt (logBuffer s) @ txtLineOf r] \<and>
           written ''json.log'' (events s1) =
             written ''json.log'' (events s) @ [bufferJson (logBuffer s) @ jsonLineOf s r] \<and>
           logBuffer s1 = []"
    if "Suc (length (logBuffer s)) = B"
    unfolding s1_def e using that a(4,5,6)
    by (simp add: Let_def written_writeEvents_txt written_writeEvents_json r_def
        txtLineOf_def jsonLineOf_def bufferTxt_def bufferJson_def)
qed

lemma logAllToFile_batch:
  assumes "batchMode B s" and "length (logBuffer s) < B"
  shows "\<exists>ft fj.
     written ''txt.log'' (events (logAllToFile emit rs s)) = written ''txt.log'' (events s) @ ft \<and>
     written ''json.log'' (events (logAllToFile emit rs s)) = written ''json.log'' (events s) @ fj \<and>
     length ft = (length (logBuffer s) + length rs) div B \<and>
     length fj = (length (logBuffer s) + length rs) div B \<and>
     [] \<notin> set ft \<and> [] \<notin> set fj \<and>
     concat ft @ bufferTxt (logBuffer (logAllToFile emit rs s))
       = bufferTxt (logBuffer s) @ concat (map txtLineOf rs) \<and>
     concat fj @ bufferJson (logBuffer (logAllToFile emit rs s))
       = bufferJson (logBuffer s) @ concat (map (jsonLineOf s) rs) \<and>
     length (logBuffer (logAllToFile emit rs s)) = (length (logBuffer s) + length rs) mod B \<and>
     config (logAllToFile emit rs s) = config s"
  using assms
proof (induction rs arbitrary: s)
  case Nil
  then show ?case by (simp add: logAllToFile_def)
next
  case (Cons r rs)
  obtain t fd m l d x where r: "r = (t, fd, m, l, d, x)" by (cases r) auto
  define s1 where "s1 = logToFile emit t fd m l d x s"
  have unfold: "logAllToFile emit (r # rs) s = logAllToFile emit rs s1"
    by (simp add: logAllToFile_def r s1_def)
  note st = logToFile_batch_step [OF Cons.prems, where emit = emit and t = t and fd = fd
      and m = m and l = l and d = d and x = x, folded s1_def r]
  have bm1: "batchMode B s1" using batchMode_config [OF st(1), of B] Cons.prems(1) by simp
  have jl: "jsonLineOf s1 = jsonLineOf s" using st(1) by (rule jsonLineOf_config)
  have B: "1 < B" using Cons.prems(1) by (simp add: batchMode_def)
  consider (buffered) "Suc (length (logBuffer s)) < B" | (flush) "Suc (length (logBuffer s)) = B"
    using Cons.prems(2) by linarith
  then show ?case
  proof cases
    case buffered
    have b1: "logBuffer s1 = logBuffer s @ [\<lparr>logTXT = x, logJSONString = jsonLine s t fd m l d\<rparr>]"
      and w1: "\<And>ext. written ext (events s1) = written ext (events s)"
      using st(2) [OF buffered] by simp_all
    have k1: "length (logBuffer s1) < B" using b1 buffered by simp
    from Cons.IH [OF bm1 k1] obtain ft fj where ih:
      "written ''txt.log'' (events (logAllToFile emit rs s1)) = written ''txt.log'' (events s1) @ ft"
      "written ''json.log'' (events (logAllToFile emit rs s1)) = written ''json.log'' (events s1) @ fj"
      "length ft = (length (logBuffer s1) + length rs) div B"
      "length fj = (length (logBuffer s1) + length rs) div B"
      "[] \<notin> set ft" "[] \<notin> set fj"
      "concat ft @ bufferTxt (logBuffer (logAllToFile emit rs s1))
         = bufferTxt (logBuffer s1) @ concat (map txtLineOf rs)"
      "concat fj @ bufferJson (logBuffer (logAllToFile emit rs s1))
         = bufferJson (logBuffer s1) @ concat (map (jsonLineOf s1) rs)"
      "length (logBuffer (logAllToFile emit rs s1)) = (length (logBuffer s1) + length rs) mod B"
      "config (logAllToFile emit rs s1) = config s1"
      by blast
    have len: "length (logBuffer s1) + length rs = length (logBuffer s) + length (r # rs)"
      using b1 by simp
    have lines: "bufferTxt (logBuffer s1) = bufferTxt (logBuffer s) @ txtLineOf r"
      "bufferJson (logBuffer s1) = bufferJson (logBuffer s) @ jsonLineOf s r"
      using b1 by (simp_all add: r txtLineOf_def jsonLineOf_def bufferTxt_def bufferJson_def)
    show ?thesis
      unfolding unfold
    proof (rule exI [of _ ft], rule exI [of _ fj], intro conjI)
      show "written ''txt.log'' (events (logAllToFile emit rs s1)) = written ''txt.log'' (events s) @ ft"
        using ih(1) w1 by simp
      show "written ''json.log'' (events (logAllToFile emit rs s1)) = written ''json.log'' (events s) @ fj"
        using ih(2) w1 by simp
      show "length ft = (length (logBuffer s) + length (r # rs)) div B"
        using ih(3) len by simp
      show "length fj = (length (logBuffer s) + length (r # rs)) div B"
        using ih(4) len by simp
      show "[] \<notin> set ft" by (rule ih(5))
      show "[] \<notin> set fj" by (rule ih(6))
      show "concat ft @ bufferTxt (logBuffer (logAllToFile emit rs s1))
              = bufferTxt (logBuffer s) @ concat (map txtLineOf (r # rs))"
        using ih(7) lines(1) by simp
      show "concat fj @ bufferJson (logBuffer (logAllToFile emit rs s1))
              = bufferJson (logBuffer s) @ concat (map (jsonLineOf s) (r # rs))"
        using ih(8) lines(2) jl by simp
      show "length (logBuffer (logAllToFile emit rs s1)) = (length (logBuffer s) + length (r # rs)) mod B"
        using ih(9) len by simp
      show "config (logAllToFile emit rs s1) = config s"
        using ih(10) st(1) by simp
    qed
  next
    case flush
    have b1: "logBuffer s1 = []"
      and w1: "written ''txt.log'' (events s1) =
                 written ''txt.log'' (events s) @ [bufferTxt (logBuffer s) @ txtLineOf r]"
              "written ''json.log'' (events s1) =
                 written ''json.log'' (events s) @ [bufferJson (logBuffer s) @ jsonLineOf s r]"
      using st(3) [OF flush] by simp_all
    have k1: "length (logBuffer s1) < B" using b1 B by simp
    from Cons.IH [OF bm1 k1] obtain ft fj where ih:
      "written ''txt.log'' (events (logAllToFile emit rs s1)) = written ''txt.log'' (events s1) @ ft"
      "written ''json.log'' (events (logAllToFile emit rs s1)) = written ''json.log'' (events s1) @ fj"
      "length ft = (length (logBuffer s1) + length rs) div B"
      "length fj = (length (logBuffer s1) + length rs) div B"
      "[] \<notin> set ft" "[] \<notin> set fj"
      "concat ft @ bufferTxt (logBuffer (logAllToFile emit rs s1))
         = bufferTxt (logBuffer s1) @ concat (map txtLineOf rs)"
      "concat fj @ bufferJson (logBuffer (logAllToFile emit rs s1))
         = bufferJson (logBuffer s1) @ concat (map (jsonLineOf s1) rs)"
      "length (logBuffer (logAllToFile emit rs s1)) = (length (logBuffer s1) + length rs) mod B"
      "config (logAllToFile emit rs s1) = config s1"
      by blast
    have len: "length (logBuffer s) + length (r # rs) = B + length rs"
      using flush by simp
    have ne: "txtLineOf r \<noteq> []" "jsonLineOf s r \<noteq> []"
      by (simp_all add: r txtLineOf_def jsonLineOf_def)
    have dv: "(B + length rs) div B = Suc (length rs div B)" "(B + length rs) mod B = length rs mod B"
    proof -
      have B0: "B \<noteq> 0" using B by simp
      show "(B + length rs) div B = Suc (length rs div B)"
        using div_add_self1 [OF B0, of "length rs"] by simp
      show "(B + length rs) mod B = length rs mod B" by simp
    qed
    show ?thesis
      unfolding unfold
    proof (rule exI [of _ "(bufferTxt (logBuffer s) @ txtLineOf r) # ft"],
        rule exI [of _ "(bufferJson (logBuffer s) @ jsonLineOf s r) # fj"], intro conjI)
      show "written ''txt.log'' (events (logAllToFile emit rs s1))
              = written ''txt.log'' (events s) @ (bufferTxt (logBuffer s) @ txtLineOf r) # ft"
        using ih(1) w1(1) by simp
      show "written ''json.log'' (events (logAllToFile emit rs s1))
              = written ''json.log'' (events s) @ (bufferJson (logBuffer s) @ jsonLineOf s r) # fj"
        using ih(2) w1(2) by simp
      show "length ((bufferTxt (logBuffer s) @ txtLineOf r) # ft)
              = (length (logBuffer s) + length (r # rs)) div B"
        unfolding len dv using ih(3) b1 by simp
      show "length ((bufferJson (logBuffer s) @ jsonLineOf s r) # fj)
              = (length (logBuffer s) + length (r # rs)) div B"
        unfolding len dv using ih(4) b1 by simp
      show "[] \<notin> set ((bufferTxt (logBuffer s) @ txtLineOf r) # ft)"
        using ih(5) ne(1) by simp
      show "[] \<notin> set ((bufferJson (logBuffer s) @ jsonLineOf s r) # fj)"
        using ih(6) ne(2) by simp
      show "concat ((bufferTxt (logBuffer s) @ txtLineOf r) # ft)
              @ bufferTxt (logBuffer (logAllToFile emit rs s1))
              = bufferTxt (logBuffer s) @ concat (map txtLineOf (r # rs))"
        using ih(7) b1 by (simp add: bufferTxt_def)
      show "concat ((bufferJson (logBuffer s) @ jsonLineOf s r) # fj)
              @ bufferJson (logBuffer (logAllToFile emit rs s1))
              = bufferJson (logBuffer s) @ concat (map (jsonLineOf s) (r # rs))"
        using ih(8) b1 jl by (simp add: bufferJson_def)
      show "length (logBuffer (logAllToFile emit rs s1))
              = (length (logBuffer s) + length (r # rs)) mod B"
        unfolding len dv using ih(9) b1 by simp
      show "config (logAllToFile emit rs s1) = config s"
        using ih(10) st(1) by simp
    qed
  qed
qed

lemma written_no_file [simp]:
  "written ext [ConsolePlain a b] = []" "written ext [ConsoleError c] = []"
  "written ext [HttpPost u n w] = []" "written ext [ExitTimer] = []"
  "written ext [ConsoleLog l x] = []" "written ext [MkDir p] = []"
  by simp_all

lemma exit_batch_files:
  assumes "stratagy (storageSettings s) = ''batch''"
    and "recognisedSplit (splitBy (storageSettings s))"
  shows "written ext (events (exit stack reason outcome s)) =
           written ext (events s) @
           written ext (writeEvents s (fst (generatePaths emit (clock s (ticks s)) s))
             (bufferTxt (logBuffer s)) (bufferJson (logBuffer s)))"
    and "logBuffer (exit stack reason outcome s) = []"
proof -
  let ?s3 = "(emitEvent (ConsolePlain ''Clearing file buffer, length:''
                 [JNumber (int (length (logBuffer s)))])
               (emitEvent (ConsolePlain ''Shutting down gracefully with reason: '' [reason]) s))
             \<lparr>ticks := Suc (ticks s)\<rparr>"
  have r: "recognisedSplit (splitBy (storageSettings ?s3))"
    using assms(2) by (simp add: emitEvent_def)
  have g: "fst (generatePaths (sendLog stack) (clock s (ticks s)) ?s3)
          = fst (generatePaths emit (clock s (ticks s)) s)"
    using generatePaths_only_storage [of ?s3 s "sendLog stack" "clock s (ticks s)"]
      generatePaths_recognised(2) [OF assms(2), of "sendLog stack" "clock s (ticks s)" emit]
    by (simp add: emitEvent_def)
  have w: "writeEvents ?s3 = writeEvents s"
    by (simp add: writeEvents_def fun_eq_iff emitEvent_def)
  have x: "extractBuffer (sendLog stack) (clock s (ticks s)) ?s3 =
      ?s3\<lparr>logBuffer := [],
          dirs := insert (fst (fst (generatePaths emit (clock s (ticks s)) s))) (dirs ?s3),
          events := events ?s3 @
            writeEvents s (fst (generatePaths emit (clock s (ticks s)) s))
              (bufferTxt (logBuffer s)) (bufferJson (logBuffer s))\<rparr>"
    unfolding extractBuffer_exact [OF r] g w by simp
  show "written ext (events (exit stack reason outcome s)) =
           written ext (events s) @
           written ext (writeEvents s (fst (generatePaths emit (clock s (ticks s)) s))
             (bufferTxt (logBuffer s)) (bufferJson (logBuffer s)))"
    using assms(1)
    by (simp add: exit_def Let_def newDate_def x
        split: option.splits fetch_outcome.splits)
  show "logBuffer (exit stack reason outcome s) = []"
    using assms(1)
    by (simp add: exit_def Let_def newDate_def x
        split: option.splits fetch_outcome.splits)
qed

lemma typeof_js_cases:
  "typeof_js v \<in> set [''undefined'', ''object'', ''string'', ''number'', ''boolean'', ''bigint'',
     ''symbol'', ''function'']"
  by (cases v) simp_all

lemma handleLogDatatype_text: "fst (handleLogDatatype emit v s) = valueText v"
  by (cases v) (simp_all add: handleLogDatatype_def valueText_def split: option.splits)

lemma handleLogDatatype_convertible:
  "convertible v \<Longrightarrow> handleLogDatatype emit v s = (valueText v, s)"
  by (cases v) (auto simp: handleLogDatatype_def valueText_def convertible_def split: option.splits)

lemma sendWebhook_FATALRATE [simp]: "sendWebhook emit t fd m FATALRATE d x s = s"
  by (simp add: sendWebhook_def)

lemma sendWebhook_no_url [simp]:
  "url (webhookSettings s) = None \<Longrightarrow> sendWebhook emit t fd m l d x s = s"
  by (simp add: sendWebhook_def)

lemma sendWebhook_cases:
  fixes fd m d :: string and b
  assumes "l \<noteq> FATALRATE" "url (webhookSettings s) = Some u"
    "form (webhookSettings s) = ''discord''"
  defines "b \<equiv> webhookBuffer s @ [newEmbed s fd m l d]"
  shows "length b < 8 \<Longrightarrow> sendWebhook emit t fd m l d x s = s\<lparr>webhookBuffer := b\<rparr>"
    and "length b = 8 \<Longrightarrow> sendWebhook emit t fd m l d x s =
           (emitEvent (HttpPost u (mainProcess s @ ''.'' @ subProcess s) b) s)
             \<lparr>webhookBuffer := []\<rparr>"
    and "8 < length b \<Longrightarrow> sendWebhook emit t fd m l d x s =
           (emit FATALRATE (JString ''Webhook Buffer too large to send in one message!'')
              (JNumber (int (length b))) (s\<lparr>webhookBuffer := b\<rparr>))\<lparr>webhookBuffer := []\<rparr>"
  using assms(1-3) by (simp_all add: sendWebhook_def b_def Let_def newEmbed_def emitEvent_def)

section \<open>The sinks one at a time\<close>

lemma writeEvents_fileOps: "\<forall>e \<in> set (writeEvents s p a b). isFileOp e"
  by (auto simp: writeEvents_def)

lemma filter_none: "\<forall>e \<in> set es. \<not> P e \<Longrightarrow> filter P es = []"
  by (induction es) simp_all

lemma fileOp_exclusive: "isFileOp e \<Longrightarrow> \<not> isConsoleLog e \<and> \<not> isPost e"
  by (cases e) simp_all

lemma post_exclusive: "isPost e \<Longrightarrow> \<not> isConsoleLog e \<and> \<not> isFileOp e"
  by (cases e) simp_all

text \<open>With a known \<open>splitBy\<close> the file sink only adds file operations.\<close>

lemma logToFile_frame:
  assumes "recognisedSplit (splitBy (storageSettings s))"
  shows "\<exists>fe. events (logToFile emit t fd m l d x s) = events s @ fe \<and>
              (\<forall>e \<in> set fe. isFileOp e) \<and>
              webhookBuffer (logToFile emit t fd m l d x s) = webhookBuffer s \<and>
              webhookSettings (logToFile emit t fd m l d x s) = webhookSettings s \<and>
              mainProcess (logToFile emit t fd m l d x s) = mainProcess s \<and>
              subProcess (logToFile emit t fd m l d x s) = subProcess s"
proof (cases "stratagy (storageSettings s) = ''batch'' \<and> 1 < batch (storageSettings s)")
  case True
  then have a: "stratagy (storageSettings s) = ''batch''" "1 < batch (storageSettings s)"
    by simp_all
  show ?thesis
    unfolding logToFile_batch [OF a assms] Let_def
    using writeEvents_fileOps by (cases "batch (storageSettings s)
        \<le> int (length (logBuffer s @ [\<lparr>logTXT = x, logJSONString = jsonLine s t fd m l d\<rparr>]))")
      auto
next
  case False
  show ?thesis
    unfolding logToFile_single [OF False assms]
    using writeEvents_fileOps by auto
qed

text \<open>A webhook sink that is not entered, or entered quietly, only adds requests.\<close>

lemma sendWebhook_frame:
  assumes "webhookActive l s \<longrightarrow> form (webhookSettings s) = ''discord'' \<and> length (webhookBuffer s) < 8"
    and "enable (webhookSettings s)"
  shows "\<exists>pe. events (sendWebhook emit t fd m l d x s) = events s @ pe \<and>
              (\<forall>e \<in> set pe. isPost e) \<and>
              logBuffer (sendWebhook emit t fd m l d x s) = logBuffer s \<and>
              dirs (sendWebhook emit t fd m l d x s) = dirs s \<and>
              (\<not> webhookActive l s \<longrightarrow>
                 pe = [] \<and> webhookBuffer (sendWebhook emit t fd m l d x s) = webhookBuffer s)"
proof (cases "webhookActive l s")
  case False
  then have "sendWebhook emit t fd m l d x s = s"
    using assms(2) by (auto simp: webhookActive_def)
  then show ?thesis using False by simp
next
  case True
  then obtain u where u: "l \<noteq> FATALRATE" "url (webhookSettings s) = Some u"
    by (auto simp: webhookActive_def)
  have f: "form (webhookSettings s) = ''discord''" and k: "length (webhookBuffer s) < 8"
    using assms(1) True by simp_all
  let ?b = "webhookBuffer s @ [newEmbed s fd m l d]"
  consider "length ?b < 8" | "length ?b = 8" using k by fastforce
  then show ?thesis
  proof cases
    case 1
    show ?thesis unfolding sendWebhook_cases(1) [OF u f 1] using True by simp
  next
    case 2
    show ?thesis unfolding sendWebhook_cases(2) [OF u f 2] using True by simp
  qed
qed

lemma logToFile_observe:
  assumes "recognisedSplit (splitBy (storageSettings s))"
  shows "filter isConsoleLog (events (logToFile emit t fd m l d x s)) = filter isConsoleLog (events s)"
    and "filter isPost (events (logToFile emit t fd m l d x s)) = filter isPost (events s)"
    and "webhookBuffer (logToFile emit t fd m l d x s) = webhookBuffer s"
    and "webhookSettings (logToFile emit t fd m l d x s) = webhookSettings s"
    and "mainProcess (logToFile emit t fd m l d x s) = mainProcess s"
    and "subProcess (logToFile emit t fd m l d x s) = subProcess s"
proof -
  from logToFile_frame [OF assms, of emit t fd m l d x] obtain fe where
    fe: "events (logToFile emit t fd m l d x s) = events s @ fe" "\<forall>e \<in> set fe. isFileOp e"
    and rest: "webhookBuffer (logToFile emit t fd m l d x s) = webhookBuffer s"
      "webhookSettings (logToFile emit t fd m l d x s) = webhookSettings s"
      "mainProcess (logToFile emit t fd m l d x s) = mainProcess s"
      "subProcess (logToFile emit t fd m l d x s) = subProcess s"
    by blast
  have "filter isConsoleLog fe = []" "filter isPost fe = []"
    using fe(2) fileOp_exclusive by (auto intro!: filter_none)
  then show "filter isConsoleLog (events (logToFile emit t fd m l d x s)) = filter isConsoleLog (events s)"
    and "filter isPost (events (logToFile emit t fd m l d x s)) = filter isPost (events s)"
    using fe(1) by simp_all
  show "webhookBuffer (logToFile emit t fd m l d x s) = webhookBuffer s"
    and "webhookSettings (logToFile emit t fd m l d x s) = webhookSettings s"
    and "mainProcess (logToFile emit t fd m l d x s) = mainProcess s"
    and "subProcess (logToFile emit t fd m l d x s) = subProcess s"
    by (rule rest)+
qed

lemma sendWebhook_observe:
  assumes "webhookActive l s \<longrightarrow> form (webhookSettings s) = ''discord'' \<and> length (webhookBuffer s) < 8"
    and "enable (webhookSettings s)"
  shows "filter isConsoleLog (events (sendWebhook emit t fd m l d x s)) = filter isConsoleLog (events s)"
    and "filter isFileOp (events (sendWebhook emit t fd m l d x s)) = filter isFileOp (events s)"
    and "logBuffer (sendWebhook emit t fd m l d x s) = logBuffer s"
    and "dirs (sendWebhook emit t fd m l d x s) = dirs s"
    and "\<not> webhookActive l s \<Longrightarrow> sendWebhook emit t fd m l d x s = s"
proof -
  from sendWebhook_frame [OF assms, of emit t fd m d x] obtain pe where
    pe: "events (sendWebhook emit t fd m l d x s) = events s @ pe" "\<forall>e \<in> set pe. isPost e"
    and rest: "logBuffer (sendWebhook emit t fd m l d x s) = logBuffer s"
      "dirs (sendWebhook emit t fd m l d x s) = dirs s"
    by blast
  have "filter isConsoleLog pe = []" "filter isFileOp pe = []"
    using pe(2) post_exclusive by (auto intro!: filter_none)
  then show "filter isConsoleLog (events (sendWebhook emit t fd m l d x s)) = filter isConsoleLog (events s)"
    and "filter isFileOp (events (sendWebhook emit t fd m l d x s)) = filter isFileOp (events s)"
    using pe(1) by simp_all
  show "logBuffer (sendWebhook emit t fd m l d x s) = logBuffer s"
    and "dirs (sendWebhook emit t fd m l d x s) = dirs s"
    by (rule rest)+
  show "sendWebhook emit t fd m l d x s = s" if "\<not> webhookActive l s"
    using that assms(2) by (auto simp: webhookActive_def)
qed

text \<open>The body of \<open>sendLog\<close> when both arguments convert: the four steps.\<close>

lemma sendLogBody_steps:
  assumes "convertible msg" "convertible data"
  shows "sendLogBody emit lvl msg data s =
    (let s1 = s\<lparr>ticks := Suc (ticks s)\<rparr>;
         t = clock s (ticks s);
         fd = dateFormat t (dateformat (formatSettings s1));
         x = formTxtLog (formatSettings s1) (mainProcess s1) (subProcess s1) fd (valueText msg)
               (levelName lvl) (valueText data);
         s2 = (if stdoutEnable (formatSettings s1)
                  \<and> lvl \<notin> set (show_ignoreLevels (formatSettings s1))
               then emitEvent (ConsoleLog lvl x) s1 else s1);
         s3 = (if (json (storageSettings s2) \<or> txt (storageSettings s2))
                  \<and> lvl \<notin> set (storage_ignoreLevels (storageSettings s2))
               then logToFile emit t fd (valueText msg) (levelName lvl) (valueText data) x s2
               else s2)
     in if enable (webhookSettings s3)
        then sendWebhook emit t fd (valueText msg) lvl (valueText data) x s3 else s3)"
  by (simp only: sendLogBody_def newDate_def Let_def prod.case
      handleLogDatatype_convertible [OF assms(1)] handleLogDatatype_convertible [OF assms(2)])

lemma sendLog_quiet:
  fixes n :: nat and s'
  assumes q: "quietDispatch lvl msg data s"
  defines "s' \<equiv> sendLog (Suc n) lvl msg data s"
  shows "filter isConsoleLog (events s') =
           filter isConsoleLog (events s) @
           (if stdoutEnable (formatSettings s) \<and> lvl \<notin> set (show_ignoreLevels (formatSettings s))
            then [ConsoleLog lvl
                    (formTxtLog (formatSettings s) (mainProcess s) (subProcess s)
                       (dateFormat (clock s (ticks s)) (dateformat (formatSettings s)))
                       (valueText msg) (levelName lvl) (valueText data))]
            else [])"
    and "\<not> fileActive lvl s \<Longrightarrow>
           filter isFileOp (events s') = filter isFileOp (events s) \<and>
           logBuffer s' = logBuffer s \<and> dirs s' = dirs s"
    and "\<not> webhookActive lvl s \<Longrightarrow>
           filter isPost (events s') = filter isPost (events s) \<and>
           webhookBuffer s' = webhookBuffer s"
proof -
  have cm: "convertible msg" and cd: "convertible data"
    and fq: "fileActive lvl s \<Longrightarrow> recognisedSplit (splitBy (storageSettings s))"
    and wq: "webhookActive lvl s \<Longrightarrow>
               form (webhookSettings s) = ''discord'' \<and> length (webhookBuffer s) < 8"
    using q by (simp_all add: quietDispatch_def)
  define s1 where "s1 = s\<lparr>ticks := Suc (ticks s)\<rparr>"
  define t where "t = clock s (ticks s)"
  define fd where "fd = dateFormat t (dateformat (formatSettings s1))"
  define x where "x = formTxtLog (formatSettings s1) (mainProcess s1) (subProcess s1) fd
                        (valueText msg) (levelName lvl) (valueText data)"
  define s2 where "s2 = (if stdoutEnable (formatSettings s1)
                           \<and> lvl \<notin> set (show_ignoreLevels (formatSettings s1))
                         then emitEvent (ConsoleLog lvl x) s1 else s1)"
  define s3 where "s3 = (if (json (storageSettings s2) \<or> txt (storageSettings s2))
                           \<and> lvl \<notin> set (storage_ignoreLevels (storageSettings s2))
                         then logToFile (sendLog n) t fd (valueText msg) (levelName lvl)
                                (valueText data) x s2
                         else s2)"
  define s4 where "s4 = (if enable (webhookSettings s3)
                         then sendWebhook (sendLog n) t fd (valueText msg) lvl (valueText data) x s3
                         else s3)"
  have run: "s' = s4"
    unfolding s'_def sendLog.simps sendLogBody_steps [OF cm cd]
    by (simp only: Let_def s4_def s3_def s2_def x_def fd_def t_def s1_def)
  have f1: "formatSettings s1 = formatSettings s" "mainProcess s1 = mainProcess s"
    "subProcess s1 = subProcess s" "events s1 = events s" "logBuffer s1 = logBuffer s"
    "dirs s1 = dirs s" "webhookBuffer s1 = webhookBuffer s"
    by (simp_all add: s1_def)
  have f2: "storageSettings s2 = storageSettings s" "webhookSettings s2 = webhookSettings s"
    "logBuffer s2 = logBuffer s" "dirs s2 = dirs s" "webhookBuffer s2 = webhookBuffer s"
    by (simp_all add: s2_def s1_def)
  have e2: "events s2 = events s @
      (if stdoutEnable (formatSettings s) \<and> lvl \<notin> set (show_ignoreLevels (formatSettings s))
       then [ConsoleLog lvl x] else [])"
    by (simp add: s2_def f1)
  have fa: "((json (storageSettings s2) \<or> txt (storageSettings s2))
              \<and> lvl \<notin> set (storage_ignoreLevels (storageSettings s2))) = fileActive lvl s"
    by (simp add: f2 fileActive_def)
  have r2: "fileActive lvl s \<Longrightarrow> recognisedSplit (splitBy (storageSettings s2))"
    using fq by (simp add: f2)
  have c3: "filter isConsoleLog (events s3) = filter isConsoleLog (events s2)"
    and p3: "filter isPost (events s3) = filter isPost (events s2)"
    and w3: "webhookBuffer s3 = webhookBuffer s" "webhookSettings s3 = webhookSettings s"
    unfolding s3_def fa using logToFile_observe [OF r2] f2 by (simp_all split: if_splits)
  have n3: "\<not> fileActive lvl s \<Longrightarrow> s3 = s2"
    unfolding s3_def fa by simp
  have a3: "webhookActive lvl s3 = webhookActive lvl s"
    by (simp add: webhookActive_def w3)
  have q3: "webhookActive lvl s3 \<longrightarrow>
              form (webhookSettings s3) = ''discord'' \<and> length (webhookBuffer s3) < 8"
    using wq by (simp add: a3 w3)
  have c4: "filter isConsoleLog (events s4) = filter isConsoleLog (events s3)"
    and f4: "filter isFileOp (events s4) = filter isFileOp (events s3)"
    and l4: "logBuffer s4 = logBuffer s3" "dirs s4 = dirs s3"
    unfolding s4_def using sendWebhook_observe(1-4) [OF q3] by (simp_all split: if_splits)
  have n4: "\<not> webhookActive lvl s \<Longrightarrow> s4 = s3"
    unfolding s4_def using sendWebhook_observe(5) [OF q3] a3 by (simp split: if_splits)
  show "filter isConsoleLog (events s') =
           filter isConsoleLog (events s) @
           (if stdoutEnable (formatSettings s) \<and> lvl \<notin> set (show_ignoreLevels (formatSettings s))
            then [ConsoleLog lvl
                    (formTxtLog (formatSettings s) (mainProcess s) (subProcess s)
                       (dateFormat (clock s (ticks s)) (dateformat (formatSettings s)))
                       (valueText msg) (levelName lvl) (valueText data))]
            else [])"
    unfolding run c4 c3 e2 by (simp add: x_def fd_def t_def f1)
  show "filter isFileOp (events s') = filter isFileOp (events s) \<and>
           logBuffer s' = logBuffer s \<and> dirs s' = dirs s" if "\<not> fileActive lvl s"
    unfolding run f4 l4 n3 [OF that] by (simp add: e2 f2)
  show "filter isPost (events s') = filter isPost (events s) \<and>
           webhookBuffer s' = webhookBuffer s" if "\<not> webhookActive lvl s"
    unfolding run n4 [OF that] p3 w3 by (simp add: e2)
qed

lemma sendLog_zero [simp]:
  "sendLog 0 lvl msg data s = emitEvent (ConsoleError ''There was an issue logging data'') s"
  by simp

lemma sendLog_quiet_any_stack:
  assumes q: "quietDispatch lvl msg data s"
  shows "\<not> (stdoutEnable (formatSettings s) \<and> lvl \<notin> set (show_ignoreLevels (formatSettings s))) \<Longrightarrow>
           filter isConsoleLog (events (sendLog stack lvl msg data s)) = filter isConsoleLog (events s)"
    and "\<not> fileActive lvl s \<Longrightarrow>
           filter isFileOp (events (sendLog stack lvl msg data s)) = filter isFileOp (events s) \<and>
           logBuffer (sendLog stack lvl msg data s) = logBuffer s \<and>
           dirs (sendLog stack lvl msg data s) = dirs s"
    and "\<not> webhookActive lvl s \<Longrightarrow>
           filter isPost (events (sendLog stack lvl msg data s)) = filter isPost (events s) \<and>
           webhookBuffer (sendLog stack lvl msg data s) = webhookBuffer s"
proof -
  show "filter isConsoleLog (events (sendLog stack lvl msg data s)) = filter isConsoleLog (events s)"
    if "\<not> (stdoutEnable (formatSettings s) \<and> lvl \<notin> set (show_ignoreLevels (formatSettings s)))"
  proof (cases stack)
    case 0
    then show ?thesis by simp
  next
    case (Suc n)
    show ?thesis unfolding Suc sendLog_quiet(1) [OF q] using that by simp
  qed
  show "filter isFileOp (events (sendLog stack lvl msg data s)) = filter isFileOp (events s) \<and>
           logBuffer (sendLog stack lvl msg data s) = logBuffer s \<and>
           dirs (sendLog stack lvl msg data s) = dirs s"
    if "\<not> fileActive lvl s"
  proof (cases stack)
    case 0
    then show ?thesis by simp
  next
    case (Suc n)
    show ?thesis unfolding Suc using sendLog_quiet(2) [OF q that] by simp
  qed
  show "filter isPost (events (sendLog stack lvl msg data s)) = filter isPost (events s) \<and>
           webhookBuffer (sendLog stack lvl msg data s) = webhookBuffer s"
    if "\<not> webhookActive lvl s"
  proof (cases stack)
    case 0
    then show ?thesis by simp
  next
    case (Suc n)
    show ?thesis unfolding Suc using sendLog_quiet(3) [OF q that] by simp
  qed
qed


lemma demo_quiet_fatalrate: "quietDispatch FATALRATE (JString ''m'') (JNumber 9) demoWebhook"
  by (simp add: quietDispatch_def convertible_def fileActive_def webhookActive_def demoLogger_def
      demoWebhook_def default_logStorage_def recognisedSplit_def)

lemma convertible_primitive [simp]:
  "convertible (JString a)" "convertible (JNumber i)" "convertible JUndefined" "convertible JNull"
  "convertible (JBoolean b)"
  by (simp_all add: convertible_def)

lemma fileActive_webhookBuffer [simp]:
  "fileActive lvl (s\<lparr>webhookBuffer := b\<rparr>) = fileActive lvl s"
  by (simp add: fileActive_def)

lemma convertible_status:
  "convertible (JObject [(''status'', JNumber st), (''message'', JString tx)])"
  by (simp add: convertible_def JSON_stringify_def)

lemma demo_quiet_failed:
  "quietDispatch FATALRATE (JString ''Webhook failed to send'')
     (JObject [(''error'', JObject [])]) demoWebhook"
  by (simp add: quietDispatch_def convertible_def fileActive_def webhookActive_def demoLogger_def
      demoWebhook_def default_logStorage_def recognisedSplit_def JSON_stringify_def)

lemma demo_fileActive_fatalrate:
  "fileActive FATALRATE demoWebhook \<and> recognisedSplit (splitBy (storageSettings demoWebhook))"
  by (simp add: fileActive_def demoLogger_def demoWebhook_def default_logStorage_def
      recognisedSplit_def)

lemma demoFull_fields:
  "url (webhookSettings (demoFull k)) = Some ''https://discord.invalid/api/webhooks/1''"
  "form (webhookSettings (demoFull k)) = ''discord''"
  "length (webhookBuffer (demoFull k)) = k"
  "events (demoFull k) = []"
  "mainProcess (demoFull k) = ''Testing''" "subProcess (demoFull k) = ''sub''"
  "fileActive FATALRATE (demoFull k)"
  "recognisedSplit (splitBy (storageSettings (demoFull k)))"
  by (simp_all add: demoFull_def demoWebhook_def demoLogger_def fileActive_def
      default_logStorage_def recognisedSplit_def)

section \<open>Batches, shutdown, paths, construction and failed conversions\<close>

lemma batch_flushes_lemma:
  assumes bm: "batchMode B s" and empty: "logBuffer s = []"
  shows "\<exists>ft fj rt rj.
     written ''txt.log'' (events (logAllToFile emit rs s)) = written ''txt.log'' (events s) @ ft \<and>
     written ''json.log'' (events (logAllToFile emit rs s)) = written ''json.log'' (events s) @ fj \<and>
     length ft = length rs div B \<and> length fj = length rs div B \<and>
     [] \<notin> set ft \<and> [] \<notin> set fj \<and>
     written ''txt.log'' (events (exit stack reason outcome (logAllToFile emit rs s)))
       = written ''txt.log'' (events s) @ ft @ [rt] \<and>
     written ''json.log'' (events (exit stack reason outcome (logAllToFile emit rs s)))
       = written ''json.log'' (events s) @ fj @ [rj] \<and>
     (rt = [] \<longleftrightarrow> length rs mod B = 0) \<and> (rj = [] \<longleftrightarrow> length rs mod B = 0) \<and>
     concat (ft @ [rt]) = concat (map txtLineOf rs) \<and>
     concat (fj @ [rj]) = concat (map (jsonLineOf s) rs) \<and>
     logBuffer (exit stack reason outcome (logAllToFile emit rs s)) = []"
proof -
  define s' where "s' = logAllToFile emit rs s"
  have B: "1 < B" using bm by (simp add: batchMode_def)
  have k: "length (logBuffer s) < B" using empty B by simp
  from logAllToFile_batch [OF bm k, of emit rs, folded s'_def] obtain ft fj where inv:
    "written ''txt.log'' (events s') = written ''txt.log'' (events s) @ ft"
    "written ''json.log'' (events s') = written ''json.log'' (events s) @ fj"
    "length ft = (length (logBuffer s) + length rs) div B"
    "length fj = (length (logBuffer s) + length rs) div B"
    "[] \<notin> set ft" "[] \<notin> set fj"
    "concat ft @ bufferTxt (logBuffer s') = bufferTxt (logBuffer s) @ concat (map txtLineOf rs)"
    "concat fj @ bufferJson (logBuffer s') = bufferJson (logBuffer s) @ concat (map (jsonLineOf s) rs)"
    "length (logBuffer s') = (length (logBuffer s) + length rs) mod B"
    "config s' = config s"
    by blast
  have bm': "batchMode B s'" using batchMode_config [OF inv(10), of B] bm by simp
  then have a: "stratagy (storageSettings s') = ''batch''"
    "recognisedSplit (splitBy (storageSettings s'))" "txt (storageSettings s')"
    "json (storageSettings s')"
    by (simp_all add: batchMode_def)
  note ex = exit_batch_files(1) [OF a(1,2), where stack = stack and reason = reason
      and outcome = outcome and emit = emit]
    exit_batch_files(2) [OF a(1,2), where stack = stack and reason = reason
      and outcome = outcome]
  have xt: "written ''txt.log'' (events (exit stack reason outcome s'))
              = written ''txt.log'' (events s) @ ft @ [bufferTxt (logBuffer s')]"
    unfolding ex(1) by (simp add: written_writeEvents_txt a(3) inv(1))
  have xj: "written ''json.log'' (events (exit stack reason outcome s'))
              = written ''json.log'' (events s) @ fj @ [bufferJson (logBuffer s')]"
    unfolding ex(1) by (simp add: written_writeEvents_json a(4) inv(2))
  have z: "logBuffer s' = [] \<longleftrightarrow> length rs mod B = 0"
  proof -
    have "length (logBuffer s') = length rs mod B" using inv(9) empty by simp
    then show ?thesis by auto
  qed
  show ?thesis
    unfolding s'_def [symmetric]
  proof (rule exI [of _ ft], rule exI [of _ fj], rule exI [of _ "bufferTxt (logBuffer s')"],
      rule exI [of _ "bufferJson (logBuffer s')"], intro conjI)
    show "written ''txt.log'' (events s') = written ''txt.log'' (events s) @ ft" by (rule inv(1))
    show "written ''json.log'' (events s') = written ''json.log'' (events s) @ fj" by (rule inv(2))
    show "length ft = length rs div B" using inv(3) empty by simp
    show "length fj = length rs div B" using inv(4) empty by simp
    show "[] \<notin> set ft" by (rule inv(5))
    show "[] \<notin> set fj" by (rule inv(6))
    show "written ''txt.log'' (events (exit stack reason outcome s'))
            = written ''txt.log'' (events s) @ ft @ [bufferTxt (logBuffer s')]" by (rule xt)
    show "written ''json.log'' (events (exit stack reason outcome s'))
            = written ''json.log'' (events s) @ fj @ [bufferJson (logBuffer s')]" by (rule xj)
    show "(bufferTxt (logBuffer s') = []) = (length rs mod B = 0)" using z by simp
    show "(bufferJson (logBuffer s') = []) = (length rs mod B = 0)" using z by simp
    show "concat (ft @ [bufferTxt (logBuffer s')]) = concat (map txtLineOf rs)"
      using inv(7) empty by (simp add: bufferTxt_def)
    show "concat (fj @ [bufferJson (logBuffer s')]) = concat (map (jsonLineOf s) rs)"
      using inv(8) empty by (simp add: bufferJson_def)
    show "logBuffer (exit stack reason outcome s') = []" by (rule ex(2))
  qed
qed

lemma demoBatch_two: "batchMode 2 (demoBatch 2)" "logBuffer (demoBatch 2) = []"
  "events (demoBatch 2) = []"
  by (simp_all add: batchMode_def demoBatch_def demoLogger_def default_logStorage_def
      recognisedSplit_def)

lemma exit_webhook:
  assumes r: "stratagy (storageSettings s) = ''batch'' \<longrightarrow>
              recognisedSplit (splitBy (storageSettings s))"
  shows "url (webhookSettings s) = Some u \<Longrightarrow> webhookBuffer s \<noteq> [] \<Longrightarrow>
           filter isPost (events (exit stack reason (Rejected e) s))
             = filter isPost (events s) @
               [HttpPost u (mainProcess s @ ''.'' @ subProcess s) (webhookBuffer s)] \<and>
           webhookBuffer (exit stack reason (Rejected e) s) = webhookBuffer s"
    and "url (webhookSettings s) = Some u \<Longrightarrow> webhookBuffer s \<noteq> [] \<Longrightarrow>
           filter isPost (events (exit stack reason (Responded st tx) s))
             = filter isPost (events s) @
               [HttpPost u (mainProcess s @ ''.'' @ subProcess s) (webhookBuffer s)] \<and>
           webhookBuffer (exit stack reason (Responded st tx) s) = []"
    and "url (webhookSettings s) = None \<or> webhookBuffer s = [] \<Longrightarrow>
           filter isPost (events (exit stack reason outcome s)) = filter isPost (events s) \<and>
           webhookBuffer (exit stack reason outcome s) = webhookBuffer s"
    and "config (exit stack reason outcome s) = config s"
proof -
  let ?s3 = "(emitEvent (ConsolePlain ''Clearing file buffer, length:''
                 [JNumber (int (length (logBuffer s)))])
               (emitEvent (ConsolePlain ''Shutting down gracefully with reason: '' [reason]) s))
             \<lparr>ticks := Suc (ticks s)\<rparr>"
  define sa where "sa = emitEvent (ConsolePlain ''Shutting down gracefully with reason: '' [reason]) s"
  define sb where "sb = emitEvent (ConsolePlain ''Clearing file buffer, length:''
                          [JNumber (int (length (logBuffer sa)))]) sa"
  define sd where "sd = (if stratagy (storageSettings sa) = ''batch''
      then extractBuffer (sendLog stack) (clock sb (ticks sb)) (sb\<lparr>ticks := Suc (ticks sb)\<rparr>)
      else sa)"
  have s3: "sb\<lparr>ticks := Suc (ticks sb)\<rparr> = ?s3" "clock sb (ticks sb) = clock s (ticks s)"
    "stratagy (storageSettings sa) = stratagy (storageSettings s)"
    by (simp_all add: sa_def sb_def)
  have d: "filter isPost (events sd) = filter isPost (events s)"
    "webhookBuffer sd = webhookBuffer s" "webhookSettings sd = webhookSettings s"
    "mainProcess sd = mainProcess s" "subProcess sd = subProcess s" "config sd = config s"
  proof -
    show "config sd = config s"
      by (simp add: sd_def sa_def sb_def extractBuffer_config [OF sendLog_keepsConfig])
    then show "webhookSettings sd = webhookSettings s" "mainProcess sd = mainProcess s"
      "subProcess sd = subProcess s"
      by (simp_all add: config_def)
    show "filter isPost (events sd) = filter isPost (events s)"
      "webhookBuffer sd = webhookBuffer s"
    proof -
      have "filter isPost (events sd) = filter isPost (events s) \<and>
            webhookBuffer sd = webhookBuffer s"
      proof (cases "stratagy (storageSettings s) = ''batch''")
        case True
        then have rr: "recognisedSplit (splitBy (storageSettings ?s3))" using r by simp
        have "filter isPost (writeEvents ?s3 p a b) = []" for p a b
          using writeEvents_fileOps [of ?s3 p a b] fileOp_exclusive
          by (auto intro!: filter_none)
        then show ?thesis
          unfolding sd_def s3 extractBuffer_exact [OF rr] using True by simp
      next
        case False
        then show ?thesis by (simp add: sd_def s3 sa_def)
      qed
      then show "filter isPost (events sd) = filter isPost (events s)"
        "webhookBuffer sd = webhookBuffer s" by simp_all
    qed
  qed
  have run: "exit stack reason outcome s =
      emitEvent ExitTimer
        (case url (webhookSettings sd) of
           None \<Rightarrow> sd
         | Some u \<Rightarrow>
             if length (webhookBuffer sd) > 0 then
               (let s = emitEvent (ConsolePlain ''Sending last discord message, length: ''
                                     [JNumber (int (length (webhookBuffer sd)))]) sd;
                    s = emitEvent
                          (HttpPost u (mainProcess s @ ''.'' @ subProcess s) (webhookBuffer s)) s
                in case outcome of
                     Responded status statusText \<Rightarrow>
                       (let s = (if status \<noteq> 204
                                 then emitEvent
                                        (ConsoleError ''Unexpected response from webhook'') s
                                 else s);
                            s = s\<lparr>webhookBuffer := []\<rparr>
                        in emitEvent (ConsolePlain ''ready to shutdown'' []) s)
                   | Rejected err \<Rightarrow>
                       emitEvent (ConsoleError ''Webhook failed to send'') s)
             else sd)" for outcome
    by (simp only: exit_def Let_def newDate_def prod.case sd_def sb_def sa_def)
  show "filter isPost (events (exit stack reason (Rejected e) s))
             = filter isPost (events s) @
               [HttpPost u (mainProcess s @ ''.'' @ subProcess s) (webhookBuffer s)] \<and>
           webhookBuffer (exit stack reason (Rejected e) s) = webhookBuffer s"
    if "url (webhookSettings s) = Some u" "webhookBuffer s \<noteq> []"
    unfolding run using that by (simp add: d Let_def)
  show "filter isPost (events (exit stack reason (Responded st tx) s))
             = filter isPost (events s) @
               [HttpPost u (mainProcess s @ ''.'' @ subProcess s) (webhookBuffer s)] \<and>
           webhookBuffer (exit stack reason (Responded st tx) s) = []"
    if "url (webhookSettings s) = Some u" "webhookBuffer s \<noteq> []"
    unfolding run using that by (simp add: d Let_def)
  show "filter isPost (events (exit stack reason outcome s)) = filter isPost (events s) \<and>
           webhookBuffer (exit stack reason outcome s) = webhookBuffer s"
    if "url (webhookSettings s) = None \<or> webhookBuffer s = []"
    unfolding run using that by (auto simp: d Let_def split: option.splits)
  show "config (exit stack reason outcome s) = config s"
    unfolding run by (simp add: d Let_def split: option.splits fetch_outcome.splits)
qed

lemma written_empty_flush: "concat (written ext (writeEvents s p [] [])) = []"
  by (simp add: writeEvents_def)

lemma dateFormat_masks:
  "dateFormat t ''yyyy'' = pad 4 (fullYear t)"
  "dateFormat t ''mm'' = pad 2 (month t)"
  "dateFormat t ''dd'' = pad 2 (dayOfMonth t)"
  "dateFormat t ''HH'' = pad 2 (hours t)"
  "dateFormat t ''MM'' = pad 2 (minutes t)"
  "dateFormat t ''ss'' = pad 2 (seconds t)"
  "dateFormat t ''yyyy/mm'' = pad 4 (fullYear t) @ ''/'' @ pad 2 (month t)"
  "dateFormat t ''yyyy/mm/dd'' =
     pad 4 (fullYear t) @ ''/'' @ pad 2 (month t) @ ''/'' @ pad 2 (dayOfMonth t)"
  "dateFormat t ''yyyy/mm/dd/HH'' =
     pad 4 (fullYear t) @ ''/'' @ pad 2 (month t) @ ''/'' @ pad 2 (dayOfMonth t) @ ''/''
       @ pad 2 (hours t)"
  "dateFormat t ''yyyy/mm/dd/HH/MM'' =
     pad 4 (fullYear t) @ ''/'' @ pad 2 (month t) @ ''/'' @ pad 2 (dayOfMonth t) @ ''/''
       @ pad 2 (hours t) @ ''/'' @ pad 2 (minutes t)"
  by (simp_all add: dateFormat.simps)

text \<open>
  For the six \<open>splitBy\<close> values other than \<open>year\<close> the paths of \<open>generatePaths\<close>
  are the ones of the table: the directory (with a closing slash) and, as the
  prefix of both file names, the directory followed by the stem.
\<close>

lemma generatePaths_table:
  assumes "g \<noteq> SplitYear" and "splitBy (storageSettings s) = splitName g"
  shows "generatePaths emit t s =
     ((fst (bucketPaths_spec (path (storageSettings s)) t g) @ ''/'',
       fst (bucketPaths_spec (path (storageSettings s)) t g) @ ''/''
         @ snd (bucketPaths_spec (path (storageSettings s)) t g)), s)"
  using assms by (cases g) (simp_all add: generatePaths_def dateFormat_masks Let_def)

lemma generatePaths_year:
  assumes "splitBy (storageSettings s) = ''year''"
  shows "generatePaths emit t s =
     ((path (storageSettings s) @ ''/'', pad 4 (fullYear t) @ ''.''), s)"
  using assms by (simp add: generatePaths_def dateFormat_masks Let_def)

lemma demoYear_fields:
  "splitBy (storageSettings demoYear) = ''year''" "path (storageSettings demoYear) = ''./logs''"
  "recognisedSplit (splitBy (storageSettings demoYear))"
  "\<not> (stratagy (storageSettings demoYear) = ''batch'' \<and> 1 < batch (storageSettings demoYear))"
  "dirs demoYear = {}" "events demoYear = []" "txt (storageSettings demoYear)"
  "json (storageSettings demoYear)"
  by (simp_all add: demoYear_def demoLogger_def default_logStorage_def recognisedSplit_def)

lemma pad_2024: "pad 4 (fullYear demoDate) = ''2024''"
  by (simp add: pad_def demoDate_def showNat.simps)

lemma serializeElements_levels:
  "serializeElements gap ind (map (\<lambda>l. JString (levelName l)) ls)
     = Some (map (\<lambda>l. quoteJSON (levelName l)) ls)"
  by (induction ls) simp_all

lemma settings_stringify:
  "\<exists>f. JSON_stringify (formatSettings_js fs) 4 = Some f"
  "\<exists>g. JSON_stringify (storageSettings_js ss) 4 = Some g"
  "\<exists>h. JSON_stringify (webhookSettings_js ws) 4 = Some h"
  by (simp_all add: JSON_stringify_def formatSettings_js_def storageSettings_js_def
      webhookSettings_js_def levels_js_def serializeElements_levels split: option.splits)

lemma print_config [simp]:
  "config (success stack m d s) = config s" "config (debug stack m d s) = config s"
  by (simp_all add: success_def debug_def)

lemma constructor_completes:
  "\<exists>s. constructor stack mainP subP userSettings env clk existing = Inr s \<and>
       formatSettings s = mergeFormat (default_show env) (u_show userSettings) \<and>
       storageSettings s = mergeStorage (default_logStorage env) (u_logStorage userSettings) \<and>
       webhookSettings s = mergeWebhook default_logWebook (u_logWebook userSettings)"
proof -
  define s0 where "s0 = \<lparr>formatSettings = mergeFormat (default_show env) (u_show userSettings),
               storageSettings = mergeStorage (default_logStorage env) (u_logStorage userSettings),
               webhookSettings = mergeWebhook default_logWebook (u_logWebook userSettings),
               mainProcess = mainP, subProcess = subP,
               logBuffer = [], webhookBuffer = [],
               clock = clk, ticks = 0, dirs = existing, events = []\<rparr>"
  define s1 where "s1 = success stack (JString ''Initialised Logger'') JUndefined s0"
  obtain f where f: "JSON_stringify (formatSettings_js (formatSettings s1)) 4 = Some f"
    using settings_stringify(1) by blast
  define s2 where "s2 = debug stack (JString (''Settings:'' @ nl @ f)) JUndefined s1"
  obtain g where g: "JSON_stringify (storageSettings_js (storageSettings s2)) 4 = Some g"
    using settings_stringify(2) by blast
  define s3 where "s3 = debug stack (JString (nl @ g)) JUndefined s2"
  obtain h where h: "JSON_stringify (webhookSettings_js (webhookSettings s3)) 4 = Some h"
    using settings_stringify(3) by blast
  define s4 where "s4 = debug stack (JString (nl @ h @ nl)) JUndefined s3"
  have run: "constructor stack mainP subP userSettings env clk existing = Inr s4"
    unfolding constructor_def Let_def s0_def [symmetric] s1_def [symmetric]
    by (simp only: f option.case s2_def [symmetric] g s3_def [symmetric] h s4_def [symmetric])
  have "config s4 = config s0"
    by (simp add: s4_def s3_def s2_def s1_def)
  then have "formatSettings s4 = formatSettings s0" "storageSettings s4 = storageSettings s0"
    "webhookSettings s4 = webhookSettings s0"
    by (simp_all add: config_def)
  then show ?thesis
    unfolding run by (simp add: s0_def)
qed

lemma contradictory_storage:
  "stratagy (mergeStorage (default_logStorage None) (u_logStorage contradictory)) = ''batch''"
  "batch (mergeStorage (default_logStorage None) (u_logStorage contradictory)) = 1"
  by (simp_all add: mergeStorage_def contradictory_def orDefault_def default_logStorage_def)

lemma demoPassThrough_fields:
  "stratagy (storageSettings demoPassThrough) = ''batch''"
  "batch (storageSettings demoPassThrough) \<le> 1"
  "recognisedSplit (splitBy (storageSettings demoPassThrough))"
  "logBuffer demoPassThrough = []"
  by (simp_all add: demoPassThrough_def demoBatch_def demoLogger_def default_logStorage_def
      recognisedSplit_def)

lemma serialize_throws_any_indent:
  "\<forall>ind'. (serializeProperty gap ind v = Throws) = (serializeProperty gap ind' v = Throws)"
  "\<forall>ind'. (serializeElements gap ind vs = None) = (serializeElements gap ind' vs = None)"
  "\<forall>ind'. (serializeMembers gap ind ps = None) = (serializeMembers gap ind' ps = None)"
proof (induction gap ind v and gap ind vs and gap ind ps
    rule: serializeProperty_serializeElements_serializeMembers.induct)
  case (9 gap ind vs)
  show ?case
  proof
    fix ind'
    have "(serializeElements gap (ind @ gap) vs = None)
        = (serializeElements gap (ind' @ gap) vs = None)"
      using 9 by (rule spec)
    then show "(serializeProperty gap ind (JArray vs) = Throws)
        = (serializeProperty gap ind' (JArray vs) = Throws)"
      by (cases "serializeElements gap (ind @ gap) vs";
          cases "serializeElements gap (ind' @ gap) vs") simp_all
  qed
next
  case (10 gap ind ps)
  show ?case
  proof
    fix ind'
    have "(serializeMembers gap (ind @ gap) ps = None)
        = (serializeMembers gap (ind' @ gap) ps = None)"
      using 10 by (rule spec)
    then show "(serializeProperty gap ind (JObject ps) = Throws)
        = (serializeProperty gap ind' (JObject ps) = Throws)"
      by (cases "serializeMembers gap (ind @ gap) ps";
          cases "serializeMembers gap (ind' @ gap) ps") simp_all
  qed
next
  case (12 gap ind v vs)
  show ?case
  proof
    fix ind'
    have a: "(serializeProperty gap ind v = Throws) = (serializeProperty gap ind' v = Throws)"
      using 12(1) by (rule spec)
    show "(serializeElements gap ind (v # vs) = None) = (serializeElements gap ind' (v # vs) = None)"
    proof (cases "serializeProperty gap ind v = Throws")
      case True
      then show ?thesis using a by simp
    next
      case False
      then have "serializeProperty gap ind v = Omitted \<or> (\<exists>x. serializeProperty gap ind v = Text x)"
        by (cases "serializeProperty gap ind v") simp_all
      then have "\<forall>ind'. (serializeElements gap ind vs = None) = (serializeElements gap ind' vs = None)"
        using 12(2,3) by blast
      then have b: "(serializeElements gap ind vs = None) = (serializeElements gap ind' vs = None)"
        by (rule spec)
      from False a have "serializeProperty gap ind' v \<noteq> Throws" by simp
      with False b show ?thesis
        by (cases "serializeProperty gap ind v"; cases "serializeProperty gap ind' v") simp_all
    qed
  qed
next
  case (14 gap ind k v ps)
  show ?case
  proof
    fix ind'
    have a: "(serializeProperty gap ind v = Throws) = (serializeProperty gap ind' v = Throws)"
      using 14(1) by (rule spec)
    show "(serializeMembers gap ind ((k, v) # ps) = None)
        = (serializeMembers gap ind' ((k, v) # ps) = None)"
    proof (cases "serializeProperty gap ind v = Throws")
      case True
      then show ?thesis using a by simp
    next
      case False
      then have "serializeProperty gap ind v = Omitted \<or> (\<exists>x. serializeProperty gap ind v = Text x)"
        by (cases "serializeProperty gap ind v") simp_all
      then have "\<forall>ind'. (serializeMembers gap ind ps = None) = (serializeMembers gap ind' ps = None)"
        using 14(2,3) by blast
      then have b: "(serializeMembers gap ind ps = None) = (serializeMembers gap ind' ps = None)"
        by (rule spec)
      from False a have "serializeProperty gap ind' v \<noteq> Throws" by simp
      with False b show ?thesis
        by (cases "serializeProperty gap ind v"; cases "serializeProperty gap ind' v") simp_all
    qed
  qed
qed simp_all

lemma serialize_throws_indent:
  "(serializeProperty gap ind v = Throws) = (serializeProperty gap ind' v = Throws)"
  using serialize_throws_any_indent(1) by (rule spec)

lemma errorReport_not_convertible:
  assumes "\<not> convertible v"
  shows "\<not> convertible (errorReport v)"
proof -
  let ?g = "replicate (min 4 10) (CHR '' '')"
  have "serializeProperty ?g '''' v = Throws"
    using assms by (auto simp: convertible_def JSON_stringify_def split: ser.splits)
  then have "serializeProperty ?g ('''' @ ?g) v = Throws"
    using serialize_throws_indent [of ?g "''''" v "'''' @ ?g"] by simp
  then show ?thesis
    by (simp add: convertible_def errorReport_def JSON_stringify_def)
qed

lemma handleLogDatatype_fails:
  assumes "\<not> convertible v"
  shows "handleLogDatatype emit v s =
           ('''', emit ERROR (JString ''Datatype of object is not json'') (errorReport v) s)"
  using assms by (auto simp: handleLogDatatype_def convertible_def errorReport_def)

lemma errorShown_config: "config s' = config s \<Longrightarrow> errorShown s' = errorShown s"
  by (simp add: errorShown_def config_def webhookActive_def fileActive_def)

text \<open>
  An \<open>ERROR\<close> record whose data does not serialise is reported by another
  \<open>ERROR\<close> record holding the same data, and so on down the stack: every
  activation prints its line on the way back.
\<close>

lemma error_report_chain:
  assumes "errorShown s" and "\<not> convertible v" and "convertible m"
  shows "length (filter isConsoleLog (events (sendLog k ERROR m v s)))
           = length (filter isConsoleLog (events s)) + k"
  using assms
proof (induction k arbitrary: s v m)
  case 0
  show ?case by simp
next
  case (Suc k)
  define s1 where "s1 = s\<lparr>ticks := Suc (ticks s)\<rparr>"
  define t where "t = clock s (ticks s)"
  define fd where "fd = dateFormat t (dateformat (formatSettings s1))"
  define s2 where "s2 = sendLog k ERROR (JString ''Datatype of object is not json'')
                          (errorReport v) s1"
  define x where "x = formTxtLog (formatSettings s2) (mainProcess s2) (subProcess s2) fd
                        (valueText m) (levelName ERROR) ''''"
  define s3 where "s3 = (if stdoutEnable (formatSettings s2)
                           \<and> ERROR \<notin> set (show_ignoreLevels (formatSettings s2))
                         then emitEvent (ConsoleLog ERROR x) s2 else s2)"
  define s4 where "s4 = (if (json (storageSettings s3) \<or> txt (storageSettings s3))
                           \<and> ERROR \<notin> set (storage_ignoreLevels (storageSettings s3))
                         then logToFile (sendLog k) t fd (valueText m) (levelName ERROR) '''' x s3
                         else s3)"
  define s5 where "s5 = (if enable (webhookSettings s4)
                         then sendWebhook (sendLog k) t fd (valueText m) ERROR '''' x s4
                         else s4)"
  have run: "sendLog (Suc k) ERROR m v s = s5"
    unfolding sendLog.simps
    by (simp only: sendLogBody_def newDate_def Let_def prod.case
        handleLogDatatype_convertible [OF Suc.prems(3)] handleLogDatatype_fails [OF Suc.prems(2)]
        s5_def s4_def s3_def x_def s2_def fd_def t_def s1_def)
  have c1: "config s1 = config s" by (simp add: s1_def)
  have c2: "config s2 = config s" by (simp add: s2_def c1)
  have e1: "errorShown s1" using errorShown_config [OF c1] Suc.prems(1) by simp
  have n2: "length (filter isConsoleLog (events s2))
              = length (filter isConsoleLog (events s1)) + k"
    unfolding s2_def
    by (rule Suc.IH [OF e1 errorReport_not_convertible [OF Suc.prems(2)]]) simp
  have v2: "stdoutEnable (formatSettings s2)"
    "ERROR \<notin> set (show_ignoreLevels (formatSettings s2))"
    using Suc.prems(1) c2 by (simp_all add: errorShown_def config_def)
  have n3: "length (filter isConsoleLog (events s3))
              = length (filter isConsoleLog (events s2)) + 1"
    by (simp add: s3_def v2)
  have c3: "config s3 = config s" by (simp add: s3_def c2)
  have r3: "fileActive ERROR s3 \<Longrightarrow> recognisedSplit (splitBy (storageSettings s3))"
    using Suc.prems(1) c3 by (simp add: errorShown_def fileActive_def config_def)
  have fa: "((json (storageSettings s3) \<or> txt (storageSettings s3))
              \<and> ERROR \<notin> set (storage_ignoreLevels (storageSettings s3))) = fileActive ERROR s3"
    by (simp add: fileActive_def)
  have n4: "filter isConsoleLog (events s4) = filter isConsoleLog (events s3)"
    unfolding s4_def fa using logToFile_observe(1) [OF r3] by (simp split: if_splits)
  have c4: "config s4 = config s"
    by (simp add: s4_def c3 logToFile_config [OF sendLog_keepsConfig])
  have "\<not> webhookActive ERROR s4"
    using Suc.prems(1) c4 by (simp add: errorShown_def webhookActive_def config_def)
  then have "enable (webhookSettings s4) \<Longrightarrow> url (webhookSettings s4) = None"
    by (simp add: webhookActive_def)
  then have n5: "s5 = s4"
    by (simp add: s5_def)
  show ?case
    unfolding run n5 using n4 n3 n2 by (simp add: s1_def)
qed

lemma demo_errorShown: "errorShown demoLogger"
  by (simp add: errorShown_def demoLogger_def default_show_def default_logStorage_def
      default_logWebook_def webhookActive_def fileActive_def recognisedSplit_def)

lemma bigint_not_convertible: "\<not> convertible (JObject [(''a'', JBigInt 1)])"
  by (simp add: convertible_def JSON_stringify_def)

lemma demoDay_fields:
  "splitBy (storageSettings demoDay) = splitName SplitDay"
  "\<not> (stratagy (storageSettings demoDay) = ''batch'' \<and> 1 < batch (storageSettings demoDay))"
  "txt (storageSettings demoDay)" "json (storageSettings demoDay)"
  "path (storageSettings demoDay) = ''./logs''" "events demoDay = []" "dirs demoDay = {}"
  by (simp_all add: demoDay_def demoLogger_def default_logStorage_def)

lemma demoDate_pads:
  "pad 4 (fullYear demoDate) = ''2024''" "pad 2 (month demoDate) = ''06''"
  "pad 2 (dayOfMonth demoDate) = ''20''"
  by (simp_all add: pad_def demoDate_def showNat.simps)

lemma splitUnknown_config:
  "config s' = config s \<Longrightarrow> splitUnknown s' = splitUnknown s"
  by (simp add: splitUnknown_def fileActive_def config_def)

lemma posts_simps [simp]:
  "posts (emitEvent e s) = posts s + (if isPost e then 1 else 0)"
  "posts (s\<lparr>webhookBuffer := w\<rparr>) = posts s"
  "posts (s\<lparr>ticks := k\<rparr>) = posts s"
  "posts (s\<lparr>dirs := ds\<rparr>) = posts s"
  by (simp_all add: posts_def)

lemma ensureDir_webhook [simp]:
  "posts (ensureDir d s) = posts s"
  "webhookBuffer (ensureDir d s) = webhookBuffer s"
  "storageSettings (ensureDir d s) = storageSettings s"
  by (simp_all add: ensureDir_def)

lemma generatePaths_unknown:
  "\<not> recognisedSplit (splitBy (storageSettings s)) \<Longrightarrow>
   generatePaths emit t s =
     ((path (storageSettings s), ''''),
      emit ERROR (JString ''Logger split by value is invalid'')
        (JString (splitBy (storageSettings s))) s)"
  by (simp add: generatePaths_def recognisedSplit_def Let_def)

lemma logToFile_unknown:
  assumes k: "keepsConfig emit"
    and u: "\<not> recognisedSplit (splitBy (storageSettings s))"
    and b: "\<not> (stratagy (storageSettings s) = ''batch'' \<and> 1 < batch (storageSettings s))"
  defines "r \<equiv> emit ERROR (JString ''Logger split by value is invalid'')
                  (JString (splitBy (storageSettings s))) s"
  shows "posts (logToFile emit t fd m l d x s) = posts r"
    and "webhookBuffer (logToFile emit t fd m l d x s) = webhookBuffer r"
proof -
  have c: "storageSettings r = storageSettings s"
    unfolding r_def using keepsConfigD [OF k] by (rule config_fields)
  have g: "generatePaths emit t s = ((path (storageSettings s), ''''), r)"
    unfolding r_def by (rule generatePaths_unknown [OF u])
  have e: "logToFile emit t fd m l d x s =
     (let s1 = ensureDir (path (storageSettings s)) r;
          s2 = (if txt (storageSettings s1)
                then emitEvent (FileAppend ('''' @ ''txt.log'') (x @ nl)) s1 else s1)
      in (if json (storageSettings s2)
          then emitEvent (FileAppend ('''' @ ''json.log'')
                 (jsonLine s t fd m l d @ nl)) s2 else s2))"
    using b
    by (cases "stratagy (storageSettings s) = ''batch''")
       (simp_all add: logToFile_def JSON_stringify_logJSON Let_def g)
  show "posts (logToFile emit t fd m l d x s) = posts r"
    unfolding e by (simp add: Let_def)
  show "webhookBuffer (logToFile emit t fd m l d x s) = webhookBuffer r"
    unfolding e by (simp add: Let_def)
qed

lemma eight_step:
  fixes a :: nat
  shows "(Suc a) div 8 = a div 8 + (if a mod 8 = 7 then 1 else 0)"
    and "(Suc a) mod 8 = (if a mod 8 = 7 then 0 else Suc (a mod 8))"
  by (simp_all add: div_Suc mod_Suc)

lemma error_record_loop:
  assumes "splitUnknown s" "length (webhookBuffer s) < 8"
  shows "posts (sendLog k ERROR (JString m) (JString d) s)
           = posts s + (length (webhookBuffer s) + k) div 8 \<and>
         length (webhookBuffer (sendLog k ERROR (JString m) (JString d) s))
           = (length (webhookBuffer s) + k) mod 8"
  using assms
proof (induction k arbitrary: s m d)
  case 0
  then show ?case by simp
next
  case (Suc k)
  let ?w = "length (webhookBuffer s)"
  define t where "t = clock s (ticks s)"
  define s1 where "s1 = s\<lparr>ticks := Suc (ticks s)\<rparr>"
  define fd where "fd = dateFormat t (dateformat (formatSettings s1))"
  define x where "x = formTxtLog (formatSettings s1) (mainProcess s1) (subProcess s1) fd
               (valueText (JString m)) (levelName ERROR) (valueText (JString d))"
  define s2 where "s2 = (if stdoutEnable (formatSettings s1)
                  \<and> ERROR \<notin> set (show_ignoreLevels (formatSettings s1))
               then emitEvent (ConsoleLog ERROR x) s1 else s1)"
  define s3 where "s3 = logToFile (sendLog k) t fd (valueText (JString m)) (levelName ERROR)
                           (valueText (JString d)) x s2"
  define r where "r = sendLog k ERROR (JString ''Logger split by value is invalid'')
                        (JString (splitBy (storageSettings s2))) s2"
  have c2: "config s2 = config s" by (simp add: s2_def s1_def)
  have u2: "splitUnknown s2" using Suc.prems(1) splitUnknown_config [OF c2] by simp
  have w2: "webhookBuffer s2 = webhookBuffer s" "posts s2 = posts s"
    by (simp_all add: s2_def s1_def)
  have fa: "(json (storageSettings s2) \<or> txt (storageSettings s2))
                  \<and> ERROR \<notin> set (storage_ignoreLevels (storageSettings s2))"
    using u2 by (simp add: splitUnknown_def fileActive_def)
  have c3: "config s3 = config s"
    unfolding s3_def using logToFile_config [OF sendLog_keepsConfig] c2 by simp
  have u3: "splitUnknown s3" using Suc.prems(1) splitUnknown_config [OF c3] by simp
  have en: "enable (webhookSettings s3)" using u3 by (simp add: splitUnknown_def)
  define s3c where "s3c = (if (json (storageSettings s2) \<or> txt (storageSettings s2))
                  \<and> ERROR \<notin> set (storage_ignoreLevels (storageSettings s2))
               then logToFile (sendLog k) t fd (valueText (JString m)) (levelName ERROR)
                      (valueText (JString d)) x s2
               else s2)"
  have cv: "convertible (JString m)" "convertible (JString d)"
    by (simp_all add: convertible_def)
  have body: "sendLog (Suc k) ERROR (JString m) (JString d) s =
       (if enable (webhookSettings s3c)
        then sendWebhook (sendLog k) t fd (valueText (JString m)) ERROR
               (valueText (JString d)) x s3c
        else s3c)"
    by (simp only: sendLog.simps sendLogBody_steps [OF cv] Let_def s3c_def s2_def x_def
        fd_def s1_def t_def)
  have s3c: "s3c = s3" using fa by (simp add: s3c_def s3_def)
  have run: "sendLog (Suc k) ERROR (JString m) (JString d) s =
       sendWebhook (sendLog k) t fd (valueText (JString m)) ERROR (valueText (JString d)) x s3"
    unfolding body s3c using en by simp
  have p3: "posts s3 = posts r" "webhookBuffer s3 = webhookBuffer r"
    unfolding s3_def r_def using u2
    by (simp_all add: logToFile_unknown [OF sendLog_keepsConfig] splitUnknown_def)
  have ih: "posts r = posts s + (?w + k) div 8" "length (webhookBuffer r) = (?w + k) mod 8"
    unfolding r_def using Suc.IH [OF u2, of _ "splitBy (storageSettings s2)"] Suc.prems(2) w2
    by simp_all
  obtain u where u: "url (webhookSettings s3) = Some u"
    using u3 by (auto simp: splitUnknown_def)
  have f: "form (webhookSettings s3) = ''discord''" using u3 by (simp add: splitUnknown_def)
  define b where "b = webhookBuffer s3 @ [newEmbed s3 fd (valueText (JString m)) ERROR
                         (valueText (JString d))]"
  have lb: "length b = Suc ((?w + k) mod 8)" by (simp add: b_def p3 ih)
  show ?case
  proof (cases "(?w + k) mod 8 = 7")
    case True
    then have "length b = 8" using lb by simp
    then have "sendWebhook (sendLog k) t fd (valueText (JString m)) ERROR
                 (valueText (JString d)) x s3 =
           (emitEvent (HttpPost u (mainProcess s3 @ ''.'' @ subProcess s3) b) s3)
             \<lparr>webhookBuffer := []\<rparr>"
      unfolding b_def using sendWebhook_cases(2) [OF _ u f] by simp
    then show ?thesis
      unfolding run using True by (simp add: p3 ih eight_step)
  next
    case False
    then have "length b < 8" using lb by simp
    then have "sendWebhook (sendLog k) t fd (valueText (JString m)) ERROR
                 (valueText (JString d)) x s3 = s3\<lparr>webhookBuffer := b\<rparr>"
      unfolding b_def using sendWebhook_cases(1) [OF _ u f] by simp
    then show ?thesis
      unfolding run using False lb by (simp add: p3 ih eight_step)
  qed
qed

lemma fatalRate_record_loop:
  assumes su: "splitUnknown s" and lw: "length (webhookBuffer s) < 8"
    and cv: "convertible msg" "convertible data"
  shows "posts (sendLog (Suc n) FATALRATE msg data s)
           = posts s + (length (webhookBuffer s) + n) div 8"
    and "length (webhookBuffer (sendLog (Suc n) FATALRATE msg data s))
           = (length (webhookBuffer s) + n) mod 8"
proof -
  define t where "t = clock s (ticks s)"
  define s1 where "s1 = s\<lparr>ticks := Suc (ticks s)\<rparr>"
  define fd where "fd = dateFormat t (dateformat (formatSettings s1))"
  define x where "x = formTxtLog (formatSettings s1) (mainProcess s1) (subProcess s1) fd
               (valueText msg) (levelName FATALRATE) (valueText data)"
  define s2 where "s2 = (if stdoutEnable (formatSettings s1)
                  \<and> FATALRATE \<notin> set (show_ignoreLevels (formatSettings s1))
               then emitEvent (ConsoleLog FATALRATE x) s1 else s1)"
  define s3 where "s3 = logToFile (sendLog n) t fd (valueText msg) (levelName FATALRATE)
                           (valueText data) x s2"
  define s3c where "s3c = (if (json (storageSettings s2) \<or> txt (storageSettings s2))
                  \<and> FATALRATE \<notin> set (storage_ignoreLevels (storageSettings s2))
               then logToFile (sendLog n) t fd (valueText msg) (levelName FATALRATE)
                      (valueText data) x s2
               else s2)"
  define r where "r = sendLog n ERROR (JString ''Logger split by value is invalid'')
                        (JString (splitBy (storageSettings s2))) s2"
  have c2: "config s2 = config s" by (simp add: s2_def s1_def)
  have u2: "splitUnknown s2" using su splitUnknown_config [OF c2] by simp
  have w2: "webhookBuffer s2 = webhookBuffer s" "posts s2 = posts s"
    by (simp_all add: s2_def s1_def)
  have fa: "(json (storageSettings s2) \<or> txt (storageSettings s2))
                  \<and> FATALRATE \<notin> set (storage_ignoreLevels (storageSettings s2))"
    using u2 by (simp add: splitUnknown_def fileActive_def)
  have body: "sendLog (Suc n) FATALRATE msg data s =
       (if enable (webhookSettings s3c)
        then sendWebhook (sendLog n) t fd (valueText msg) FATALRATE (valueText data) x s3c
        else s3c)"
    by (simp only: sendLog.simps sendLogBody_steps [OF cv] Let_def s3c_def s2_def x_def
        fd_def s1_def t_def)
  have s3c: "s3c = s3" using fa by (simp add: s3c_def s3_def)
  have run: "sendLog (Suc n) FATALRATE msg data s = s3"
    unfolding body s3c by (simp add: sendWebhook_def)
  have p3: "posts s3 = posts r" "webhookBuffer s3 = webhookBuffer r"
    unfolding s3_def r_def using u2
    by (simp_all add: logToFile_unknown [OF sendLog_keepsConfig] splitUnknown_def)
  have lw2: "length (webhookBuffer s2) < 8" using lw by (simp add: w2)
  note ih = error_record_loop [OF u2 lw2, of n "''Logger split by value is invalid''"
      "splitBy (storageSettings s2)"]
  show "posts (sendLog (Suc n) FATALRATE msg data s)
           = posts s + (length (webhookBuffer s) + n) div 8"
    unfolding run p3 r_def using ih by (simp add: w2)
  show "length (webhookBuffer (sendLog (Suc n) FATALRATE msg data s))
           = (length (webhookBuffer s) + n) mod 8"
    unfolding run p3 r_def using ih by (simp add: w2)
qed

lemma demoWeek_fields:
  "splitUnknown demoWeek" "webhookBuffer demoWeek = []" "events demoWeek = []"
  by (simp_all add: splitUnknown_def demoWeek_def demoWebhook_def demoLogger_def
      default_logStorage_def recognisedSplit_def fileActive_def)

lemma convertible_transport_error: "convertible (JObject [(''error'', JObject [])])"
  by (simp add: convertible_def JSON_stringify_def)

lemma printCall_sendLog: "printCall lvl stack = sendLog stack lvl"
  by (cases lvl)
     (simp_all add: printCall_def fun_eq_iff fatal_def fatalRate_def error_def warn_def
        success_def info_def debug_def)

lemma handleLogDatatype_null:
  "handleLogDatatype emit JNull s = ('''', s)"
  "handleLogDatatype emit JUndefined s = ('''', s)"
  by (simp_all add: handleLogDatatype_def)

lemma written_fileOps: "written ext (filter isFileOp es) = written ext es"
proof (induction es)
  case Nil
  show ?case by simp
next
  case (Cons e es)
  then show ?case by (cases e) simp_all
qed

lemma sendLog_quiet_file_sink:
  fixes n :: nat and s' t fd x s2 s3
  assumes q: "quietDispatch lvl msg data s"
    and fa: "fileActive lvl s"
  defines "s' \<equiv> sendLog (Suc n) lvl msg data s"
    and "t \<equiv> clock s (ticks s)"
    and "fd \<equiv> dateFormat (clock s (ticks s)) (dateformat (formatSettings s))"
    and "x \<equiv> formTxtLog (formatSettings s) (mainProcess s) (subProcess s)
               (dateFormat (clock s (ticks s)) (dateformat (formatSettings s)))
               (valueText msg) (levelName lvl) (valueText data)"
    and "s2 \<equiv> (if stdoutEnable (formatSettings s) \<and> lvl \<notin> set (show_ignoreLevels (formatSettings s))
               then emitEvent (ConsoleLog lvl x) (s\<lparr>ticks := Suc (ticks s)\<rparr>)
               else s\<lparr>ticks := Suc (ticks s)\<rparr>)"
    and "s3 \<equiv> logToFile (sendLog n) t fd (valueText msg) (levelName lvl) (valueText data) x s2"
  shows "written ext (events s') = written ext (events s3)"
    and "logBuffer s' = logBuffer s3"
proof -
  have cm: "convertible msg" and cd: "convertible data"
    and fq: "recognisedSplit (splitBy (storageSettings s))"
    and wq: "webhookActive lvl s \<Longrightarrow>
               form (webhookSettings s) = ''discord'' \<and> length (webhookBuffer s) < 8"
    using q fa by (simp_all add: quietDispatch_def)
  define s1 where "s1 = s\<lparr>ticks := Suc (ticks s)\<rparr>"
  define t' where "t' = clock s (ticks s)"
  define fd' where "fd' = dateFormat t' (dateformat (formatSettings s1))"
  define x' where "x' = formTxtLog (formatSettings s1) (mainProcess s1) (subProcess s1) fd'
                        (valueText msg) (levelName lvl) (valueText data)"
  define s2' where "s2' = (if stdoutEnable (formatSettings s1)
                           \<and> lvl \<notin> set (show_ignoreLevels (formatSettings s1))
                         then emitEvent (ConsoleLog lvl x') s1 else s1)"
  define s3' where "s3' = (if (json (storageSettings s2') \<or> txt (storageSettings s2'))
                           \<and> lvl \<notin> set (storage_ignoreLevels (storageSettings s2'))
                         then logToFile (sendLog n) t' fd' (valueText msg) (levelName lvl)
                                (valueText data) x' s2'
                         else s2')"
  define s4 where "s4 = (if enable (webhookSettings s3')
                         then sendWebhook (sendLog n) t' fd' (valueText msg) lvl (valueText data) x' s3'
                         else s3')"
  have run: "s' = s4"
    unfolding s'_def sendLog.simps sendLogBody_steps [OF cm cd]
    by (simp only: Let_def s4_def s3'_def s2'_def x'_def fd'_def t'_def s1_def)
  have names: "t' = t" "fd' = fd" "x' = x"
    by (simp_all add: t'_def t_def fd'_def fd_def x'_def x_def s1_def)
  have s2: "s2' = s2" by (simp add: s2'_def s2_def s1_def names)
  have f2: "storageSettings s2 = storageSettings s" "webhookSettings s2 = webhookSettings s"
    "webhookBuffer s2 = webhookBuffer s"
    by (simp_all add: s2_def)
  have fa2: "(json (storageSettings s2) \<or> txt (storageSettings s2))
              \<and> lvl \<notin> set (storage_ignoreLevels (storageSettings s2))"
    using fa by (simp add: f2 fileActive_def)
  have r2: "recognisedSplit (splitBy (storageSettings s2))" using fq by (simp add: f2)
  have s3: "s3' = s3"
    unfolding s3'_def s3_def s2 names using fa2 by simp
  have w3: "webhookBuffer s3 = webhookBuffer s" "webhookSettings s3 = webhookSettings s"
    unfolding s3_def using logToFile_observe(3,4) [OF r2] f2 by simp_all
  have q3: "webhookActive lvl s3 \<longrightarrow>
              form (webhookSettings s3) = ''discord'' \<and> length (webhookBuffer s3) < 8"
    using wq by (simp add: webhookActive_def w3)
  have f4: "filter isFileOp (events s4) = filter isFileOp (events s3)"
    and l4: "logBuffer s4 = logBuffer s3"
    unfolding s4_def s3 using sendWebhook_observe(2,3) [OF q3] by (simp_all split: if_splits)
  show "written ext (events s') = written ext (events s3)"
    unfolding run
    using written_fileOps [of ext "events s4"] written_fileOps [of ext "events s3"] f4 by simp
  show "logBuffer s' = logBuffer s3"
    unfolding run by (rule l4)
qed

lemma demoDate_stamp:
  "dateFormat demoDate ''yyyy-mm-dd HH:MM:ss:l Z'' = ''2024-06-20 17:39:05:514 GMT+0100''"
  by (simp add: dateFormat.simps pad_def demoDate_def showNat.simps)

lemma demoDay_show:
  "formatSettings demoDay = default_show None" "mainProcess demoDay = ''Testing''"
  "subProcess demoDay = ''sub''" "clock demoDay = constClock demoDate"
  "webhookSettings demoDay = default_logWebook"
  "storage_ignoreLevels (storageSettings demoDay) = [DEBUG]"
  by (simp_all add: demoDay_def demoLogger_def default_logStorage_def)

lemma demoDay_quiet_null: "quietDispatch INFO (JString ''m'') JNull demoDay"
  by (simp add: quietDispatch_def fileActive_def webhookActive_def demoDay_fields demoDay_show
      default_logWebook_def recognisedSplit_def)

lemma demoLogger_quiet_null: "quietDispatch INFO (JString ''m'') JNull demoLogger"
  by (simp add: quietDispatch_def fileActive_def webhookActive_def demoLogger_def
      default_logStorage_def default_logWebook_def recognisedSplit_def)

lemma demoLogger_batch:
  "fileActive INFO demoLogger" "stratagy (storageSettings demoLogger) = ''batch''"
  "int (length (logBuffer demoLogger)) + 1 < batch (storageSettings demoLogger)"
  "logBuffer demoLogger = []"
  by (simp_all add: fileActive_def demoLogger_def default_logStorage_def)

lemma demo_null_lines:
  "stamp demoDay = ''2024-06-20 17:39:05:514 GMT+0100''"
  "stamp demoLogger = ''2024-06-20 17:39:05:514 GMT+0100''"
  "plainLine demoDay INFO ''m'' = ''[2024-06-20 17:39:05:514 GMT+0100] <Testing.sub> [INFO] m''"
  "plainLine demoLogger INFO ''m'' = ''[2024-06-20 17:39:05:514 GMT+0100] <Testing.sub> [INFO] m''"
  by (simp_all add: plainLine_def stamp_def formTxtLog_def demoDay_show demoLogger_def
      default_show_def constClock_def demoDate_stamp)

lemma demo_null_json:
  "jsonLine demoDay demoDate ''2024-06-20 17:39:05:514 GMT+0100'' ''m'' ''INFO'' '''' =
      ''{'' @ dq @ ''date'' @ dq @ '':'' @ dq @ ''2024-06-20T16:39:05.514Z'' @ dq @ '','' @
      dq @ ''formattedDate'' @ dq @ '':'' @ dq @ ''2024-06-20 17:39:05:514 GMT+0100'' @ dq @ '','' @
      dq @ ''mainProcess'' @ dq @ '':'' @ dq @ ''Testing'' @ dq @ '','' @
      dq @ ''subProcess'' @ dq @ '':'' @ dq @ ''sub'' @ dq @ '','' @
      dq @ ''logLevel'' @ dq @ '':'' @ dq @ ''INFO'' @ dq @ '','' @
      dq @ ''logMessage'' @ dq @ '':'' @ dq @ ''m'' @ dq @ '','' @
      dq @ ''logData'' @ dq @ '':'' @ dq @ dq @ ''}''"
  "jsonLine demoLogger t fd m l d = jsonLine demoDay t fd m l d"
  by (simp_all add: jsonLine_def quoteJSON_def quoteChar_def demoDay_show demoDate_def
      demoLogger_def)

section \<open>The claims\<close>

subsection \<open>C1: flushes of the file buffer\<close>

text \<open>
  C1, as the program has it. Let \<open>N\<close> records be handed to the file sink one
  after the other, with strategy batch, batch size \<open>B > 1\<close>, both formats
  written, a known \<open>splitBy\<close> value and an empty buffer at the start. While the
  records are dispatched the sink performs exactly \<open>N div B\<close> flushes, each
  writing at least one line. The shutdown routine then performs exactly one
  more flush, whatever the buffer holds: it writes the \<open>N mod B\<close> remaining
  lines, and the empty string when \<open>B\<close> divides \<open>N\<close>. So \<open>N div B + 1\<close> writes
  reach each file, of which \<open>\<lceil>N/B\<rceil>\<close> carry records. The concatenation of
  everything written to the text files is the concatenation of the submitted
  text lines in submission order, each followed by a newline, and likewise for
  the JSON lines. Every flush leaves the buffer empty.
\<close>

theorem batch_file_sink_flushes:
  assumes "batchMode B s" and "logBuffer s = []"
  shows "(\<forall>b t. logBuffer (extractBuffer emit t (s\<lparr>logBuffer := b\<rparr>)) = []) \<and>
   (\<exists>ft fj rt rj.
     written ''txt.log'' (events (logAllToFile emit rs s)) = written ''txt.log'' (events s) @ ft \<and>
     written ''json.log'' (events (logAllToFile emit rs s)) = written ''json.log'' (events s) @ fj \<and>
     length ft = length rs div B \<and> length fj = length rs div B \<and>
     [] \<notin> set ft \<and> [] \<notin> set fj \<and>
     written ''txt.log'' (events (exit stack reason outcome (logAllToFile emit rs s)))
       = written ''txt.log'' (events s) @ ft @ [rt] \<and>
     written ''json.log'' (events (exit stack reason outcome (logAllToFile emit rs s)))
       = written ''json.log'' (events s) @ fj @ [rj] \<and>
     (rt = [] \<longleftrightarrow> length rs mod B = 0) \<and> (rj = [] \<longleftrightarrow> length rs mod B = 0) \<and>
     concat (ft @ [rt]) = concat (map txtLineOf rs) \<and>
     concat (fj @ [rj]) = concat (map (jsonLineOf s) rs) \<and>
     logBuffer (exit stack reason outcome (logAllToFile emit rs s)) = [])"
proof (rule conjI)
  have r: "recognisedSplit (splitBy (storageSettings (s\<lparr>logBuffer := b\<rparr>)))" for b
    using assms(1) by (simp add: batchMode_def)
  show "\<forall>b t. logBuffer (extractBuffer emit t (s\<lparr>logBuffer := b\<rparr>)) = []"
    by (simp add: extractBuffer_exact [OF r])
  show "\<exists>ft fj rt rj.
     written ''txt.log'' (events (logAllToFile emit rs s)) = written ''txt.log'' (events s) @ ft \<and>
     written ''json.log'' (events (logAllToFile emit rs s)) = written ''json.log'' (events s) @ fj \<and>
     length ft = length rs div B \<and> length fj = length rs div B \<and>
     [] \<notin> set ft \<and> [] \<notin> set fj \<and>
     written ''txt.log'' (events (exit stack reason outcome (logAllToFile emit rs s)))
       = written ''txt.log'' (events s) @ ft @ [rt] \<and>
     written ''json.log'' (events (exit stack reason outcome (logAllToFile emit rs s)))
       = written ''json.log'' (events s) @ fj @ [rj] \<and>
     (rt = [] \<longleftrightarrow> length rs mod B = 0) \<and> (rj = [] \<longleftrightarrow> length rs mod B = 0) \<and>
     concat (ft @ [rt]) = concat (map txtLineOf rs) \<and>
     concat (fj @ [rj]) = concat (map (jsonLineOf s) rs) \<and>
     logBuffer (exit stack reason outcome (logAllToFile emit rs s)) = []"
    by (rule batch_flushes_lemma [OF assms])
qed

text \<open>Three records with batches of two: two writes, three lines in order.\<close>

theorem batch_file_sink_flushes_witness:
  "batchMode 2 (demoBatch 2) \<and> logBuffer (demoBatch 2) = [] \<and>
   length (written ''txt.log'' (events (exit 1 JUndefined (Responded 204 '''')
      (logAllToFile (sendLog 1) [demoSubmission ''a'', demoSubmission ''b'', demoSubmission ''c'']
         (demoBatch 2))))) = 2 \<and>
   concat (written ''txt.log'' (events (exit 1 JUndefined (Responded 204 '''')
      (logAllToFile (sendLog 1) [demoSubmission ''a'', demoSubmission ''b'', demoSubmission ''c'']
         (demoBatch 2))))) = ''a'' @ nl @ ''b'' @ nl @ ''c'' @ nl \<and>
   logBuffer (exit 1 JUndefined (Responded 204 '''')
      (logAllToFile (sendLog 1) [demoSubmission ''a'', demoSubmission ''b'', demoSubmission ''c'']
         (demoBatch 2))) = []"
proof -
  let ?rs = "[demoSubmission ''a'', demoSubmission ''b'', demoSubmission ''c'']"
  let ?x = "exit 1 JUndefined (Responded 204 '''') (logAllToFile (sendLog 1) ?rs (demoBatch 2))"
  from batch_file_sink_flushes [OF demoBatch_two(1,2), of "sendLog 1" ?rs 1 JUndefined
      "Responded 204 ''''"]
  obtain ft fj rt rj where
    "written ''txt.log'' (events (logAllToFile (sendLog 1) ?rs (demoBatch 2)))
       = written ''txt.log'' (events (demoBatch 2)) @ ft"
    "written ''json.log'' (events (logAllToFile (sendLog 1) ?rs (demoBatch 2)))
       = written ''json.log'' (events (demoBatch 2)) @ fj"
    and f1: "length ft = length ?rs div 2" and "length fj = length ?rs div 2"
    and "[] \<notin> set ft" "[] \<notin> set fj"
    and f2: "written ''txt.log'' (events ?x) = written ''txt.log'' (events (demoBatch 2)) @ ft @ [rt]"
    and "written ''json.log'' (events ?x) = written ''json.log'' (events (demoBatch 2)) @ fj @ [rj]"
    and "(rt = []) = (length ?rs mod 2 = 0)" and "(rj = []) = (length ?rs mod 2 = 0)"
    and f4: "concat (ft @ [rt]) = concat (map txtLineOf ?rs)"
    and "concat (fj @ [rj]) = concat (map (jsonLineOf (demoBatch 2)) ?rs)"
    and f5: "logBuffer ?x = []"
    by (elim exE conjE)
  have "length (written ''txt.log'' (events ?x)) = 2"
    unfolding f2 using f1 by (simp add: demoBatch_two(3))
  moreover have "concat (written ''txt.log'' (events ?x)) = ''a'' @ nl @ ''b'' @ nl @ ''c'' @ nl"
    unfolding f2 using f4 by (simp add: demoBatch_two(3) txtLineOf_def demoSubmission_def)
  ultimately show ?thesis using demoBatch_two f5 by simp
qed

text \<open>
  The claim as stated fails where \<open>B\<close> divides \<open>N\<close>: two records with batches of
  two are flushed by the second dispatch, and shutdown still performs a flush,
  of the empty string; there are 2 flushes, not \<open>\<lceil>2/2\<rceil> = 1\<close>.
\<close>

theorem batch_flush_count_counterexample:
  "written ''txt.log'' (events (exit 1 JUndefined (Responded 204 '''')
      (logAllToFile (sendLog 1) [demoSubmission ''a'', demoSubmission ''b''] (demoBatch 2))))
     = [''a'' @ nl @ ''b'' @ nl, ''''] \<and>
   length (written ''txt.log'' (events (exit 1 JUndefined (Responded 204 '''')
      (logAllToFile (sendLog 1) [demoSubmission ''a'', demoSubmission ''b''] (demoBatch 2)))))
     \<noteq> (length [demoSubmission ''a'', demoSubmission ''b''] + 2 - 1) div 2"
proof -
  let ?rs = "[demoSubmission ''a'', demoSubmission ''b'']"
  from batch_flushes_lemma [OF demoBatch_two(1,2), of "sendLog 1" ?rs 1 JUndefined
      "Responded 204 ''''"]
  obtain ft fj rt rj where
    "written ''txt.log'' (events (logAllToFile (sendLog 1) ?rs (demoBatch 2)))
       = written ''txt.log'' (events (demoBatch 2)) @ ft"
    "written ''json.log'' (events (logAllToFile (sendLog 1) ?rs (demoBatch 2)))
       = written ''json.log'' (events (demoBatch 2)) @ fj"
    and f1: "length ft = length ?rs div 2" and "length fj = length ?rs div 2"
    and "[] \<notin> set ft" "[] \<notin> set fj"
    and f2: "written ''txt.log'' (events (exit 1 JUndefined (Responded 204 '''')
        (logAllToFile (sendLog 1) ?rs (demoBatch 2)))) = written ''txt.log'' (events (demoBatch 2)) @ ft @ [rt]"
    and "written ''json.log'' (events (exit 1 JUndefined (Responded 204 '''')
        (logAllToFile (sendLog 1) ?rs (demoBatch 2)))) = written ''json.log'' (events (demoBatch 2)) @ fj @ [rj]"
    and f3: "(rt = []) = (length ?rs mod 2 = 0)" and "(rj = []) = (length ?rs mod 2 = 0)"
    and f4: "concat (ft @ [rt]) = concat (map txtLineOf ?rs)"
    and "concat (fj @ [rj]) = concat (map (jsonLineOf (demoBatch 2)) ?rs)"
    and "logBuffer (exit 1 JUndefined (Responded 204 '''')
        (logAllToFile (sendLog 1) ?rs (demoBatch 2))) = []"
    by (elim exE conjE)
  note f = f1 f2 f3 f4
  have rt: "rt = []" using f(3) by simp
  obtain c where ft: "ft = [c]" using f(1) by (cases ft) simp_all
  have c: "c = ''a'' @ nl @ ''b'' @ nl"
    using f(4) by (simp add: rt ft txtLineOf_def demoSubmission_def)
  show ?thesis
    unfolding f(2) by (simp add: rt ft c demoBatch_two(3))
qed

subsection \<open>C2: the webhook batch\<close>

text \<open>
  C2. Take a call of \<open>sendWebhook\<close> that passes its guards (the level is not
  \<open>FATALRATE\<close>, a URL is set, the provider is discord), so that one embed is
  appended. If the batch then holds fewer than 8 items nothing is sent and the
  batch keeps them. If it holds exactly 8, exactly one request is made, carrying
  all 8 items, and the batch is empty afterwards. If it holds more than 8, no
  request is made, one \<open>FATALRATE\<close> record reporting the size is dispatched (it
  is the one line added to the console when the console shows that level) and
  the batch is empty afterwards. A batch that held fewer than 8 items before the
  call holds fewer than 8 after it, so a request never carries more than 8.
  The overflow record goes through the file sink, hence the side condition that
  the file sink knows the \<open>splitBy\<close> value. The callbacks of the request run
  later; the batch is cleared in the same turn as the request, whatever its
  outcome will be.
\<close>

theorem webhook_batch_of_eight:
  assumes "lvl \<noteq> FATALRATE" and "url (webhookSettings s) = Some u"
    and "form (webhookSettings s) = ''discord''"
  shows
    "(length (webhookBuffer s) + 1 < 8 \<longrightarrow>
        events (sendWebhook (sendLog (Suc n)) t fd m lvl d x s) = events s \<and>
        webhookBuffer (sendWebhook (sendLog (Suc n)) t fd m lvl d x s)
          = webhookBuffer s @ [newEmbed s fd m lvl d]) \<and>
     (length (webhookBuffer s) + 1 = 8 \<longrightarrow>
        events (sendWebhook (sendLog (Suc n)) t fd m lvl d x s)
          = events s @ [HttpPost u (mainProcess s @ ''.'' @ subProcess s)
                          (webhookBuffer s @ [newEmbed s fd m lvl d])] \<and>
        webhookBuffer (sendWebhook (sendLog (Suc n)) t fd m lvl d x s) = []) \<and>
     (8 < length (webhookBuffer s) + 1 \<and>
      (fileActive FATALRATE s \<longrightarrow> recognisedSplit (splitBy (storageSettings s))) \<longrightarrow>
        filter isPost (events (sendWebhook (sendLog (Suc n)) t fd m lvl d x s))
          = filter isPost (events s) \<and>
        filter isConsoleLog (events (sendWebhook (sendLog (Suc n)) t fd m lvl d x s))
          = filter isConsoleLog (events s) @
            (if stdoutEnable (formatSettings s)
                \<and> FATALRATE \<notin> set (show_ignoreLevels (formatSettings s))
             then [ConsoleLog FATALRATE
                     (formTxtLog (formatSettings s) (mainProcess s) (subProcess s)
                        (dateFormat (clock s (ticks s)) (dateformat (formatSettings s)))
                        ''Webhook Buffer too large to send in one message!'' ''FATALRATE''
                        (showInt (int (length (webhookBuffer s)) + 1)))]
             else []) \<and>
        webhookBuffer (sendWebhook (sendLog (Suc n)) t fd m lvl d x s) = []) \<and>
     (length (webhookBuffer s) < 8 \<longrightarrow>
        length (webhookBuffer (sendWebhook (sendLog (Suc n)) t fd m lvl d x s)) < 8)"
proof (intro conjI impI)
  let ?b = "webhookBuffer s @ [newEmbed s fd m lvl d]"
  let ?r = "sendWebhook (sendLog (Suc n)) t fd m lvl d x s"
  {
    assume "length (webhookBuffer s) + 1 < 8"
    then have l: "length ?b < 8" by simp
    show "events ?r = events s" "webhookBuffer ?r = ?b"
      unfolding sendWebhook_cases(1) [OF assms l] by simp_all
  }
  {
    assume "length (webhookBuffer s) + 1 = 8"
    then have l: "length ?b = 8" by simp
    show "events ?r = events s @ [HttpPost u (mainProcess s @ ''.'' @ subProcess s) ?b]"
      "webhookBuffer ?r = []"
      unfolding sendWebhook_cases(2) [OF assms l] by simp_all
  }
  {
    assume a: "8 < length (webhookBuffer s) + 1 \<and>
      (fileActive FATALRATE s \<longrightarrow> recognisedSplit (splitBy (storageSettings s)))"
    then have l: "8 < length ?b" by simp
    let ?sb = "s\<lparr>webhookBuffer := ?b\<rparr>"
    have q: "quietDispatch FATALRATE (JString ''Webhook Buffer too large to send in one message!'')
               (JNumber (int (length ?b))) ?sb"
      using a by (simp add: quietDispatch_def webhookActive_def)
    have n: "\<not> webhookActive FATALRATE ?sb" by (simp add: webhookActive_def)
    note e = sendWebhook_cases(3) [OF assms l, of "sendLog (Suc n)" t x]
    show "filter isPost (events ?r) = filter isPost (events s)"
      unfolding e using sendLog_quiet(3) [OF q n, of n] by simp
    show "webhookBuffer ?r = []"
      unfolding e by simp
    show "filter isConsoleLog (events ?r)
          = filter isConsoleLog (events s) @
            (if stdoutEnable (formatSettings s)
                \<and> FATALRATE \<notin> set (show_ignoreLevels (formatSettings s))
             then [ConsoleLog FATALRATE
                     (formTxtLog (formatSettings s) (mainProcess s) (subProcess s)
                        (dateFormat (clock s (ticks s)) (dateformat (formatSettings s)))
                        ''Webhook Buffer too large to send in one message!'' ''FATALRATE''
                        (showInt (int (length (webhookBuffer s)) + 1)))]
             else [])"
      unfolding e using sendLog_quiet(1) [OF q, of n]
      by (simp add: valueText_def add.commute)
  }
  {
    assume "length (webhookBuffer s) < 8"
    then consider "length ?b < 8" | "length ?b = 8" by fastforce
    then show "length (webhookBuffer ?r) < 8"
    proof cases
      case 1
      show ?thesis unfolding sendWebhook_cases(1) [OF assms 1] using 1 by simp
    next
      case 2
      show ?thesis unfolding sendWebhook_cases(2) [OF assms 2] by simp
    qed
  }
qed

text \<open>The three cases at batches of 3, 7 and 8 waiting items.\<close>

theorem webhook_batch_of_eight_witness:
  "INFO \<noteq> FATALRATE \<and>
   url (webhookSettings (demoFull 7)) = Some ''https://discord.invalid/api/webhooks/1'' \<and>
   form (webhookSettings (demoFull 7)) = ''discord'' \<and>
   length (webhookBuffer (demoFull 3)) + 1 < 8 \<and>
   events (sendWebhook (sendLog (Suc 0)) demoDate ''d'' ''m'' INFO '''' ''x'' (demoFull 3)) = [] \<and>
   length (webhookBuffer (demoFull 7)) + 1 = 8 \<and>
   events (sendWebhook (sendLog (Suc 0)) demoDate ''d'' ''m'' INFO '''' ''x'' (demoFull 7))
     = [HttpPost ''https://discord.invalid/api/webhooks/1'' ''Testing.sub''
          (webhookBuffer (demoFull 7) @ [newEmbed (demoFull 7) ''d'' ''m'' INFO ''''])] \<and>
   webhookBuffer (sendWebhook (sendLog (Suc 0)) demoDate ''d'' ''m'' INFO '''' ''x'' (demoFull 7)) = [] \<and>
   8 < length (webhookBuffer (demoFull 8)) + 1 \<and>
   fileActive FATALRATE (demoFull 8) \<and>
   recognisedSplit (splitBy (storageSettings (demoFull 8))) \<and>
   filter isPost (events (sendWebhook (sendLog (Suc 0)) demoDate ''d'' ''m'' INFO '''' ''x'' (demoFull 8))) = [] \<and>
   webhookBuffer (sendWebhook (sendLog (Suc 0)) demoDate ''d'' ''m'' INFO '''' ''x'' (demoFull 8)) = []"
  using webhook_batch_of_eight [of INFO "demoFull 3" _ 0 demoDate "''d''" "''m''" "''''" "''x''"]
    webhook_batch_of_eight [of INFO "demoFull 7" _ 0 demoDate "''d''" "''m''" "''''" "''x''"]
    webhook_batch_of_eight [of INFO "demoFull 8" _ 0 demoDate "''d''" "''m''" "''''" "''x''"]
  by (simp add: demoFull_fields)

subsection \<open>C3: a failed delivery and the webhook\<close>

text \<open>
  C3 on the program. The guard of \<open>sendWebhook\<close> keeps the \<open>FATALRATE\<close> record
  itself out of the webhook, but that record is written by the file sink, and
  when \<open>splitBy\<close> has no \<open>case\<close> in \<open>generatePaths\<close> (strategy single) the file
  sink reports it with \<open>this.error\<close>: an \<open>ERROR\<close> record, dispatched like any
  other, which is written in turn and reports again, down to the end of the call
  stack. Every one of these \<open>ERROR\<close> records is appended to the webhook batch
  and every eighth makes a request. So with \<open>n\<close> nested activations left, a
  \<open>FATALRATE\<close> dispatch, and with it either callback of a failed delivery,
  appends \<open>n\<close> items to the batch: \<open>(w + n) div 8\<close> requests are made and
  \<open>(w + n) mod 8\<close> items stay, where \<open>w < 8\<close> items were waiting. A delivery
  failure does trigger further deliveries.
\<close>

theorem delivery_failure_reaches_webhook:
  assumes "splitUnknown s" and "length (webhookBuffer s) < 8"
    and "convertible msg" and "convertible data"
    and "convertible (JObject [(''error'', err)])" and "status \<noteq> 204"
  shows "posts (fatalRate (Suc n) msg data s) = posts s + (length (webhookBuffer s) + n) div 8 \<and>
         length (webhookBuffer (fatalRate (Suc n) msg data s))
           = (length (webhookBuffer s) + n) mod 8 \<and>
         posts (webhookCatch (Suc n) err s) = posts s + (length (webhookBuffer s) + n) div 8 \<and>
         length (webhookBuffer (webhookCatch (Suc n) err s))
           = (length (webhookBuffer s) + n) mod 8 \<and>
         posts (webhookThen (Suc n) status statusText s)
           = posts s + (length (webhookBuffer s) + n) div 8"
proof -
  have cs: "convertible (JString ''Unexpected response from webhook'')"
    "convertible (JString ''Webhook failed to send'')"
    "convertible (JObject [(''status'', JNumber status), (''message'', JString statusText)])"
    by (simp_all add: convertible_status)
  show ?thesis
    unfolding fatalRate_def webhookCatch_def webhookThen_def Let_def
    using fatalRate_record_loop [OF assms(1,2,3,4), of n]
      fatalRate_record_loop [OF assms(1,2) cs(2) assms(5), of n]
      fatalRate_record_loop [OF assms(1,2) cs(1,3), of n] assms(6)
    by simp
qed

text \<open>
  With \<open>splitBy: "week"\<close> and nine nested activations: one request, and one item
  left in the batch.
\<close>

theorem delivery_failure_reaches_webhook_witness:
  "splitUnknown demoWeek \<and> length (webhookBuffer demoWeek) < 8 \<and>
   convertible (JString ''m'') \<and> convertible JUndefined \<and>
   convertible (JObject [(''error'', JObject [])]) \<and> (429 :: int) \<noteq> 204 \<and>
   posts (fatalRate 10 (JString ''m'') JUndefined demoWeek) = 1 \<and>
   length (webhookBuffer (fatalRate 10 (JString ''m'') JUndefined demoWeek)) = 1 \<and>
   posts (webhookCatch 10 (JObject []) demoWeek) = 1 \<and>
   length (webhookBuffer (webhookCatch 10 (JObject []) demoWeek)) = 1 \<and>
   posts (webhookThen 10 429 ''Too Many Requests'' demoWeek) = 1"
proof -
  have l: "length (webhookBuffer demoWeek) < 8" by (simp add: demoWeek_fields)
  have p: "posts demoWeek = 0" by (simp add: posts_def demoWeek_fields)
  have n: "(429 :: int) \<noteq> 204" by simp
  show ?thesis
    using delivery_failure_reaches_webhook [OF demoWeek_fields(1) l convertible_primitive(1)
        convertible_primitive(3) convertible_transport_error n, where n = 9]
      demoWeek_fields(1) convertible_transport_error
    by (simp add: p demoWeek_fields(2))
qed

subsection \<open>C4: calling the shutdown routine twice\<close>

text \<open>
  C4 on the program. Take a logger with a webhook URL and a non-empty webhook
  batch. When the first \<open>exit\<close> gets a response (whatever its status) the second
  \<open>exit\<close> makes no request: one request in all. When the request of the first
  \<open>exit\<close> is rejected (a transport error) the \<open>catch\<close> callback does not clear
  the batch, and the second \<open>exit\<close> sends the same batch again: two requests.
  In batch mode the second \<open>exit\<close> adds no record to the files (it writes the
  empty string).
\<close>

theorem exit_twice:
  assumes u: "url (webhookSettings s) = Some u" and b: "webhookBuffer s \<noteq> []"
    and r: "stratagy (storageSettings s) = ''batch'' \<longrightarrow>
            recognisedSplit (splitBy (storageSettings s))"
  shows
    "filter isPost (events (exit stack r2 o2 (exit stack r1 (Responded st tx) s)))
       = filter isPost (events s) @
         [HttpPost u (mainProcess s @ ''.'' @ subProcess s) (webhookBuffer s)] \<and>
     filter isPost (events (exit stack r2 (Rejected e2) (exit stack r1 (Rejected e1) s)))
       = filter isPost (events s) @
         [HttpPost u (mainProcess s @ ''.'' @ subProcess s) (webhookBuffer s),
          HttpPost u (mainProcess s @ ''.'' @ subProcess s) (webhookBuffer s)] \<and>
     (stratagy (storageSettings s) = ''batch'' \<longrightarrow>
        concat (written ext (events (exit stack r2 o2 (exit stack r1 o1 s))))
          = concat (written ext (events (exit stack r1 o1 s))))"
proof (intro conjI impI)
  have c: "config (exit stack r1 oc s) = config s" for oc
    using exit_webhook(4) [OF r] .
  have r': "stratagy (storageSettings (exit stack r1 oc s)) = ''batch'' \<longrightarrow>
            recognisedSplit (splitBy (storageSettings (exit stack r1 oc s)))" for oc
    using r c [of oc] by (simp add: config_def)
  have f: "url (webhookSettings (exit stack r1 oc s)) = Some u"
    "mainProcess (exit stack r1 oc s) = mainProcess s"
    "subProcess (exit stack r1 oc s) = subProcess s" for oc
    using u c [of oc] by (simp_all add: config_def)
  {
    let ?s1 = "exit stack r1 (Responded st tx) s"
    have 1: "filter isPost (events ?s1) = filter isPost (events s) @
               [HttpPost u (mainProcess s @ ''.'' @ subProcess s) (webhookBuffer s)]"
      and e: "webhookBuffer ?s1 = []"
      using exit_webhook(2) [OF r u b] by simp_all
    show "filter isPost (events (exit stack r2 o2 ?s1))
       = filter isPost (events s) @
         [HttpPost u (mainProcess s @ ''.'' @ subProcess s) (webhookBuffer s)]"
      using exit_webhook(3) [OF r', of "Responded st tx" stack r2 o2] e 1 by simp
  }
  {
    let ?s1 = "exit stack r1 (Rejected e1) s"
    have 1: "filter isPost (events ?s1) = filter isPost (events s) @
               [HttpPost u (mainProcess s @ ''.'' @ subProcess s) (webhookBuffer s)]"
      and k: "webhookBuffer ?s1 = webhookBuffer s"
      using exit_webhook(1) [OF r u b] by simp_all
    have b': "webhookBuffer ?s1 \<noteq> []" using k b by simp
    show "filter isPost (events (exit stack r2 (Rejected e2) ?s1))
       = filter isPost (events s) @
         [HttpPost u (mainProcess s @ ''.'' @ subProcess s) (webhookBuffer s),
          HttpPost u (mainProcess s @ ''.'' @ subProcess s) (webhookBuffer s)]"
      using exit_webhook(1) [OF r' f(1) b', of stack r2 e2] 1 k f(2,3) by simp
  }
  {
    assume bt: "stratagy (storageSettings s) = ''batch''"
    let ?s1 = "exit stack r1 o1 s"
    have rs: "recognisedSplit (splitBy (storageSettings s))" using r bt by simp
    have bt1: "stratagy (storageSettings ?s1) = ''batch''"
      and rs1: "recognisedSplit (splitBy (storageSettings ?s1))"
      using bt rs c [of o1] by (simp_all add: config_def)
    have e: "logBuffer ?s1 = []" using exit_batch_files(2) [OF bt rs] .
    show "concat (written ext (events (exit stack r2 o2 ?s1))) = concat (written ext (events ?s1))"
      unfolding exit_batch_files(1) [OF bt1 rs1, where emit = "sendLog 0"]
      by (simp add: e bufferTxt_def bufferJson_def written_empty_flush)
  }
qed

text \<open>Three waiting embeds, the transport failing both times.\<close>

theorem exit_twice_witness:
  "url (webhookSettings (demoFull 3)) = Some ''https://discord.invalid/api/webhooks/1'' \<and>
   webhookBuffer (demoFull 3) \<noteq> [] \<and>
   stratagy (storageSettings (demoFull 3)) = ''batch'' \<and>
   recognisedSplit (splitBy (storageSettings (demoFull 3))) \<and>
   filter isPost (events (exit 1 (JString ''Process exit'') (Rejected JNull)
      (exit 1 (JString ''SIGINT'') (Rejected JNull) (demoFull 3))))
     = [HttpPost ''https://discord.invalid/api/webhooks/1'' ''Testing.sub'' (webhookBuffer (demoFull 3)),
        HttpPost ''https://discord.invalid/api/webhooks/1'' ''Testing.sub'' (webhookBuffer (demoFull 3))]"
proof -
  have b: "webhookBuffer (demoFull 3) \<noteq> []"
    using demoFull_fields(3) [of 3] by auto
  have s: "stratagy (storageSettings (demoFull 3)) = ''batch''"
    by (simp add: demoFull_def demoWebhook_def demoLogger_def default_logStorage_def)
  show ?thesis
    using exit_twice [OF demoFull_fields(1) b, of 1 "JString ''Process exit''" _
        "JString ''SIGINT''" _ _ JNull JNull]
      b s
    by (simp add: demoFull_fields)
qed

subsection \<open>C5: bucket paths\<close>

text \<open>
  C5 at \<open>splitBy = year\<close>. With base \<open>./logs\<close> on 2024-06-20 the program creates
  the directory \<open>./logs/\<close> and then appends to \<open>2024.txt.log\<close> and
  \<open>2024.json.log\<close>, relative to the working directory: the \<open>year\<close> case of
  \<open>generatePaths\<close> leaves the directory out of \<open>logLocation\<close>, which the six
  other cases put in front (lemma \<open>generatePaths_table\<close>). The table asks for
  \<open>./logs/2024.txt.log\<close> and \<open>./logs/2024.json.log\<close>.
\<close>

theorem year_bucket_leaves_base:
  "events (logToFile emit demoDate ''d'' ''m'' ''INFO'' '''' ''x'' demoYear)
     = [MkDir ''./logs/'',
        FileAppend ''2024.txt.log'' (''x'' @ nl),
        FileAppend ''2024.json.log'' (jsonLine demoYear demoDate ''d'' ''m'' ''INFO'' '''' @ nl)] \<and>
   files_spec ''./logs'' demoDate SplitYear = (''./logs/2024.txt.log'', ''./logs/2024.json.log'')"
  unfolding logToFile_single [OF demoYear_fields(4,3)]
    generatePaths_year [OF demoYear_fields(1)]
  by (simp add: writeEvents_def demoYear_fields pad_2024 files_spec_def)

subsection \<open>C6: construction with a batch size of one\<close>

text \<open>
  C6, as the program has it. The constructor validates nothing: for all
  arguments it returns an instance whose storage settings are the defaults
  overridden by the user's, whatever the strategy and the batch size. With
  strategy batch and a batch size of at most 1 the file sink is a pass-through:
  \<open>logToFile\<close> writes the record at once, as with strategy single, and leaves
  the buffer as it is.
\<close>

theorem constructor_accepts_without_validation:
  "(\<exists>s. constructor stack mainP subP userSettings env clk existing = Inr s \<and>
        storageSettings s = mergeStorage (default_logStorage env) (u_logStorage userSettings)) \<and>
   (stratagy (storageSettings s) = ''batch'' \<and> batch (storageSettings s) \<le> 1 \<and>
    recognisedSplit (splitBy (storageSettings s)) \<longrightarrow>
      logToFile emit t fd m l d x s =
        s\<lparr>dirs := insert (fst (fst (generatePaths emit t s))) (dirs s),
          events := events s @
            writeEvents s (fst (generatePaths emit t s)) (x @ nl) (jsonLine s t fd m l d @ nl)\<rparr>)"
proof (intro conjI impI)
  show "\<exists>s. constructor stack mainP subP userSettings env clk existing = Inr s \<and>
        storageSettings s = mergeStorage (default_logStorage env) (u_logStorage userSettings)"
    using constructor_completes [of stack mainP subP userSettings env clk existing] by blast
next
  assume a: "stratagy (storageSettings s) = ''batch'' \<and> batch (storageSettings s) \<le> 1 \<and>
    recognisedSplit (splitBy (storageSettings s))"
  then have n: "\<not> (stratagy (storageSettings s) = ''batch'' \<and> 1 < batch (storageSettings s))"
    by simp
  show "logToFile emit t fd m l d x s =
        s\<lparr>dirs := insert (fst (fst (generatePaths emit t s))) (dirs s),
          events := events s @
            writeEvents s (fst (generatePaths emit t s)) (x @ nl) (jsonLine s t fd m l d @ nl)\<rparr>"
    using logToFile_single [OF n] a by simp
qed

text \<open>The pass-through on a logger with strategy batch and batch size 1.\<close>

theorem constructor_accepts_without_validation_witness:
  "stratagy (storageSettings demoPassThrough) = ''batch'' \<and>
   batch (storageSettings demoPassThrough) \<le> 1 \<and>
   recognisedSplit (splitBy (storageSettings demoPassThrough)) \<and>
   logBuffer (logToFile (sendLog 1) demoDate ''d'' ''m'' ''INFO'' '''' ''x'' demoPassThrough) = []"
  using constructor_accepts_without_validation [of _ _ _ _ _ _ _ demoPassThrough
      "sendLog 1" demoDate "''d''" "''m''" "''INFO''" "''''" "''x''"]
    demoPassThrough_fields
  by simp

text \<open>
  The claim as stated fails: constructing with strategy batch and batch size 1
  completes, and the instance holds exactly that combination.
\<close>

theorem constructor_validation_counterexample:
  "\<not> isl (constructor 1 ''Testing'' ''sub'' contradictory None (constClock demoDate) {}) \<and>
   stratagy (storageSettings
     (projr (constructor 1 ''Testing'' ''sub'' contradictory None (constClock demoDate) {})))
       = ''batch'' \<and>
   batch (storageSettings
     (projr (constructor 1 ''Testing'' ''sub'' contradictory None (constClock demoDate) {}))) = 1"
proof -
  obtain s where s: "constructor 1 ''Testing'' ''sub'' contradictory None (constClock demoDate) {}
      = Inr s"
    and st: "storageSettings s = mergeStorage (default_logStorage None) (u_logStorage contradictory)"
    using constructor_completes [of 1 "''Testing''" "''sub''" contradictory None
        "constClock demoDate" "{}"] by blast
  show ?thesis
    unfolding s by (simp add: st contradictory_storage)
qed

subsection \<open>C7: the text line\<close>

text \<open>
  C7. The text line is the date segment, then the process segment, then the
  level segment, then the message, then the data suffix, in this order. The
  date segment \<open>[date] \<close> is present iff \<open>date\<close> is set; the process segment is
  \<open><main.sub> \<close> when both process flags are set (the dot only then),
  \<open><main> \<close> or \<open><sub> \<close> when one is, and absent when neither is; the level
  segment \<open>[LEVEL] \<close> is present iff \<open>level\<close> is set; the message is always
  present; the suffix (newline, \<open>Log Data:\<close>, newline, data string) is present
  iff the data string is not empty.
\<close>

theorem formTxtLog_segments:
  "formTxtLog fs mainP subP fd msg lvl dataStr =
     (if date fs then ''['' @ fd @ ''] '' else '''') @
     (if mainProgram fs \<and> subProgram fs then ''<'' @ mainP @ ''.'' @ subP @ ''> ''
      else if mainProgram fs then ''<'' @ mainP @ ''> ''
      else if subProgram fs then ''<'' @ subP @ ''> ''
      else '''') @
     (if level fs then ''['' @ lvl @ ''] '' else '''') @
     msg @
     (if dataStr = '''' then '''' else nl @ ''Log Data:'' @ nl @ dataStr)"
  by (simp add: formTxtLog_def)

subsection \<open>C8: a value that does not serialise\<close>

text \<open>
  C8 at an object that \<open>JSON.stringify\<close> rejects (one holding a BigInt). The
  conversion returns the empty string, but the error record it dispatches
  carries the same object as its data, so converting that record's data fails
  again, and so on until the call stack is used up. On a logger that prints
  \<open>ERROR\<close> records, with \<open>n\<close> nested \<open>sendLog\<close> activations available, \<open>n\<close>
  console lines are added, not one.
\<close>

theorem serialization_failure_repeats_error:
  assumes "errorShown s" and "\<not> convertible v"
  shows "fst (handleLogDatatype (sendLog n) v s) = '''' \<and>
         length (filter isConsoleLog (events (snd (handleLogDatatype (sendLog n) v s))))
           = length (filter isConsoleLog (events s)) + n"
  unfolding handleLogDatatype_fails [OF assms(2)]
  using error_report_chain [OF assms(1) errorReport_not_convertible [OF assms(2)], of _ n]
  by simp

text \<open>The object \<open>{a: 1n}\<close> on the default logger with room for three activations.\<close>

theorem serialization_failure_repeats_error_witness:
  "errorShown demoLogger \<and> \<not> convertible (JObject [(''a'', JBigInt 1)]) \<and>
   fst (handleLogDatatype (sendLog 3) (JObject [(''a'', JBigInt 1)]) demoLogger) = '''' \<and>
   length (filter isConsoleLog
     (events (snd (handleLogDatatype (sendLog 3) (JObject [(''a'', JBigInt 1)]) demoLogger)))) = 3"
  using serialization_failure_repeats_error [OF demo_errorShown bigint_not_convertible, of 3]
    demo_errorShown bigint_not_convertible
  by (simp add: demoLogger_def)

subsection \<open>C9: ignored levels\<close>



subsection \<open>C10: null data\<close>

text \<open>
  C10. Take a print call of any level whose data argument is \<open>null\<close> or
  \<open>undefined\<close> (an omitted argument is \<open>undefined\<close>). The data converts to the
  empty string without any other effect, and the call is the dispatch in which
  the text line is formed with the empty data string and the file and webhook
  sinks are handed the empty data string, whatever the message. When the call
  raises no error record of its own, the console line is the line without data;
  with strategy single that line and the JSON line with the empty data string are
  what is appended to the files, and in batch mode (below the batch size) they
  are the item added to the buffer. The line without data is the date, the
  process tag and the level (each if switched on) followed by the message, and
  nothing after it: it has no \<open>Log Data:\<close> section. The JSON line with the empty data string ends
  with the field \<open>"logData":""\<close>. A call with \<open>null\<close> is the call with
  \<open>undefined\<close>.
\<close>

theorem null_data_is_absent_data:
  assumes "data = JNull \<or> data = JUndefined"
  shows "handleLogDatatype emit data s = ('''', s) \<and>
   printCall lvl (Suc n) msg data s =
     (let (t, s) = newDate s;
          fd = dateFormat t (dateformat (formatSettings s));
          (m, s) = handleLogDatatype (sendLog n) msg s;
          x = formTxtLog (formatSettings s) (mainProcess s) (subProcess s) fd m (levelName lvl) '''';
          s = (if stdoutEnable (formatSettings s) \<and> lvl \<notin> set (show_ignoreLevels (formatSettings s))
               then emitEvent (ConsoleLog lvl x) s else s);
          s = (if (json (storageSettings s) \<or> txt (storageSettings s))
                  \<and> lvl \<notin> set (storage_ignoreLevels (storageSettings s))
               then logToFile (sendLog n) t fd m (levelName lvl) '''' x s else s)
      in if enable (webhookSettings s)
         then sendWebhook (sendLog n) t fd m lvl '''' x s else s) \<and>
   (quietDispatch lvl msg data s \<longrightarrow>
      filter isConsoleLog (events (printCall lvl (Suc n) msg data s)) =
        filter isConsoleLog (events s) @
        (if stdoutEnable (formatSettings s) \<and> lvl \<notin> set (show_ignoreLevels (formatSettings s))
         then [ConsoleLog lvl (plainLine s lvl (valueText msg))] else [])) \<and>
   (quietDispatch lvl msg data s \<and> fileActive lvl s \<and>
    \<not> (stratagy (storageSettings s) = ''batch'' \<and> 1 < batch (storageSettings s)) \<longrightarrow>
      written ''txt.log'' (events (printCall lvl (Suc n) msg data s)) =
        written ''txt.log'' (events s) @
        (if txt (storageSettings s) then [plainLine s lvl (valueText msg) @ nl] else []) \<and>
      written ''json.log'' (events (printCall lvl (Suc n) msg data s)) =
        written ''json.log'' (events s) @
        (if json (storageSettings s)
         then [jsonLine s (clock s (ticks s)) (stamp s) (valueText msg) (levelName lvl) '''' @ nl]
         else [])) \<and>
   (quietDispatch lvl msg data s \<and> fileActive lvl s \<and>
    stratagy (storageSettings s) = ''batch'' \<and>
    int (length (logBuffer s)) + 1 < batch (storageSettings s) \<longrightarrow>
      logBuffer (printCall lvl (Suc n) msg data s) =
        logBuffer s @
        [\<lparr>logTXT = plainLine s lvl (valueText msg),
          logJSONString =
            jsonLine s (clock s (ticks s)) (stamp s) (valueText msg) (levelName lvl) ''''\<rparr>]) \<and>
   plainLine s lvl m =
     (if date (formatSettings s) then ''['' @ stamp s @ ''] '' else '''') @
     (if mainProgram (formatSettings s) \<and> subProgram (formatSettings s)
        then ''<'' @ mainProcess s @ ''.'' @ subProcess s @ ''> ''
      else if mainProgram (formatSettings s) then ''<'' @ mainProcess s @ ''> ''
      else if subProgram (formatSettings s) then ''<'' @ subProcess s @ ''> ''
      else '''') @
     (if level (formatSettings s) then ''['' @ levelName lvl @ ''] '' else '''') @
     m \<and>
   jsonLine s t fd m l '''' =
     ''{'' @ quoteJSON ''date'' @ '':'' @ quoteJSON (isoString t) @ '','' @
     quoteJSON ''formattedDate'' @ '':'' @ quoteJSON fd @ '','' @
     quoteJSON ''mainProcess'' @ '':'' @ quoteJSON (mainProcess s) @ '','' @
     quoteJSON ''subProcess'' @ '':'' @ quoteJSON (subProcess s) @ '','' @
     quoteJSON ''logLevel'' @ '':'' @ quoteJSON l @ '','' @
     quoteJSON ''logMessage'' @ '':'' @ quoteJSON m @ '','' @
     dq @ ''logData'' @ dq @ '':'' @ dq @ dq @ ''}'' \<and>
   printCall lvl stack msg JNull s = printCall lvl stack msg JUndefined s"
proof -
  have v: "valueText data = ''''" using assms by (auto simp: valueText_def)
  have h: "handleLogDatatype e data z = ('''', z)" for e z
    using assms by (auto simp: handleLogDatatype_null)
  have c1: "handleLogDatatype emit data s = ('''', s)" by (rule h)
  have c2: "printCall lvl (Suc n) msg data s =
     (let (t, s) = newDate s;
          fd = dateFormat t (dateformat (formatSettings s));
          (m, s) = handleLogDatatype (sendLog n) msg s;
          x = formTxtLog (formatSettings s) (mainProcess s) (subProcess s) fd m (levelName lvl) '''';
          s = (if stdoutEnable (formatSettings s) \<and> lvl \<notin> set (show_ignoreLevels (formatSettings s))
               then emitEvent (ConsoleLog lvl x) s else s);
          s = (if (json (storageSettings s) \<or> txt (storageSettings s))
                  \<and> lvl \<notin> set (storage_ignoreLevels (storageSettings s))
               then logToFile (sendLog n) t fd m (levelName lvl) '''' x s else s)
      in if enable (webhookSettings s)
         then sendWebhook (sendLog n) t fd m lvl '''' x s else s)"
    by (simp add: printCall_sendLog sendLogBody_def h Let_def split: prod.splits)
  have c3: "filter isConsoleLog (events (printCall lvl (Suc n) msg data s)) =
        filter isConsoleLog (events s) @
        (if stdoutEnable (formatSettings s) \<and> lvl \<notin> set (show_ignoreLevels (formatSettings s))
         then [ConsoleLog lvl (plainLine s lvl (valueText msg))] else [])"
    if "quietDispatch lvl msg data s"
    unfolding printCall_sendLog sendLog_quiet(1) [OF that] by (simp add: plainLine_def stamp_def v)
  have c4: "written ''txt.log'' (events (printCall lvl (Suc n) msg data s)) =
        written ''txt.log'' (events s) @
        (if txt (storageSettings s) then [plainLine s lvl (valueText msg) @ nl] else []) \<and>
      written ''json.log'' (events (printCall lvl (Suc n) msg data s)) =
        written ''json.log'' (events s) @
        (if json (storageSettings s)
         then [jsonLine s (clock s (ticks s)) (stamp s) (valueText msg) (levelName lvl) '''' @ nl]
         else [])"
    if "quietDispatch lvl msg data s \<and> fileActive lvl s \<and>
        \<not> (stratagy (storageSettings s) = ''batch'' \<and> 1 < batch (storageSettings s))"
  proof -
    have q: "quietDispatch lvl msg data s" and fa: "fileActive lvl s"
      and nb: "\<not> (stratagy (storageSettings s) = ''batch'' \<and> 1 < batch (storageSettings s))"
      using that by simp_all
    have r: "recognisedSplit (splitBy (storageSettings s))"
      using q fa by (simp add: quietDispatch_def)
    show ?thesis
      unfolding printCall_sendLog sendLog_quiet_file_sink(1) [OF q fa]
      using nb r
      by (simp add: logToFile_single written_writeEvents_txt written_writeEvents_json
          plainLine_def stamp_def v jsonLine_def)
  qed
  have c4b: "logBuffer (printCall lvl (Suc n) msg data s) =
        logBuffer s @
        [\<lparr>logTXT = plainLine s lvl (valueText msg),
          logJSONString =
            jsonLine s (clock s (ticks s)) (stamp s) (valueText msg) (levelName lvl) ''''\<rparr>]"
    if "quietDispatch lvl msg data s \<and> fileActive lvl s \<and>
        stratagy (storageSettings s) = ''batch'' \<and>
        int (length (logBuffer s)) + 1 < batch (storageSettings s)"
  proof -
    have q: "quietDispatch lvl msg data s" and fa: "fileActive lvl s"
      and b: "stratagy (storageSettings s) = ''batch''"
      and l: "int (length (logBuffer s)) + 1 < batch (storageSettings s)"
      using that by simp_all
    have r: "recognisedSplit (splitBy (storageSettings s))"
      using q fa by (simp add: quietDispatch_def)
    have b1: "1 < batch (storageSettings s)" using l by simp
    show ?thesis
      unfolding printCall_sendLog sendLog_quiet_file_sink(2) [OF q fa]
      using b b1 r l
      by (simp add: logToFile_batch Let_def plainLine_def stamp_def v jsonLine_def)
  qed
  have c5: "plainLine s lvl m =
     (if date (formatSettings s) then ''['' @ stamp s @ ''] '' else '''') @
     (if mainProgram (formatSettings s) \<and> subProgram (formatSettings s)
        then ''<'' @ mainProcess s @ ''.'' @ subProcess s @ ''> ''
      else if mainProgram (formatSettings s) then ''<'' @ mainProcess s @ ''> ''
      else if subProgram (formatSettings s) then ''<'' @ subProcess s @ ''> ''
      else '''') @
     (if level (formatSettings s) then ''['' @ levelName lvl @ ''] '' else '''') @
     m"
    by (simp add: plainLine_def formTxtLog_def)
  have c6: "jsonLine s t fd m l '''' =
     ''{'' @ quoteJSON ''date'' @ '':'' @ quoteJSON (isoString t) @ '','' @
     quoteJSON ''formattedDate'' @ '':'' @ quoteJSON fd @ '','' @
     quoteJSON ''mainProcess'' @ '':'' @ quoteJSON (mainProcess s) @ '','' @
     quoteJSON ''subProcess'' @ '':'' @ quoteJSON (subProcess s) @ '','' @
     quoteJSON ''logLevel'' @ '':'' @ quoteJSON l @ '','' @
     quoteJSON ''logMessage'' @ '':'' @ quoteJSON m @ '','' @
     dq @ ''logData'' @ dq @ '':'' @ dq @ dq @ ''}''"
    by (simp add: jsonLine_def quoteJSON_def quoteChar_def)
  have c7: "printCall lvl stack msg JNull s = printCall lvl stack msg JUndefined s"
    unfolding printCall_sendLog
    by (cases stack) (simp_all add: sendLogBody_def handleLogDatatype_null)
  from c1 c2 c3 c4 c4b c5 c6 c7 show ?thesis by blast
qed

text \<open>
  \<open>logger.info("m", null)\<close> on the default logger with strategy single, and on
  the default logger (batches of six).
\<close>

theorem null_data_is_absent_data_witness:
  "quietDispatch INFO (JString ''m'') JNull demoDay \<and> fileActive INFO demoDay \<and>
   \<not> (stratagy (storageSettings demoDay) = ''batch'' \<and> 1 < batch (storageSettings demoDay)) \<and>
   filter isConsoleLog (events (info 1 (JString ''m'') JNull demoDay)) =
     [ConsoleLog INFO ''[2024-06-20 17:39:05:514 GMT+0100] <Testing.sub> [INFO] m''] \<and>
   written ''txt.log'' (events (info 1 (JString ''m'') JNull demoDay)) =
     [''[2024-06-20 17:39:05:514 GMT+0100] <Testing.sub> [INFO] m'' @ nl] \<and>
   written ''json.log'' (events (info 1 (JString ''m'') JNull demoDay)) =
     [''{'' @ dq @ ''date'' @ dq @ '':'' @ dq @ ''2024-06-20T16:39:05.514Z'' @ dq @ '','' @
      dq @ ''formattedDate'' @ dq @ '':'' @ dq @ ''2024-06-20 17:39:05:514 GMT+0100'' @ dq @ '','' @
      dq @ ''mainProcess'' @ dq @ '':'' @ dq @ ''Testing'' @ dq @ '','' @
      dq @ ''subProcess'' @ dq @ '':'' @ dq @ ''sub'' @ dq @ '','' @
      dq @ ''logLevel'' @ dq @ '':'' @ dq @ ''INFO'' @ dq @ '','' @
      dq @ ''logMessage'' @ dq @ '':'' @ dq @ ''m'' @ dq @ '','' @
      dq @ ''logData'' @ dq @ '':'' @ dq @ dq @ ''}'' @ nl] \<and>
   quietDispatch INFO (JString ''m'') JNull demoLogger \<and> fileActive INFO demoLogger \<and>
   stratagy (storageSettings demoLogger) = ''batch'' \<and>
   int (length (logBuffer demoLogger)) + 1 < batch (storageSettings demoLogger) \<and>
   logBuffer (info 1 (JString ''m'') JNull demoLogger) =
     [\<lparr>logTXT = ''[2024-06-20 17:39:05:514 GMT+0100] <Testing.sub> [INFO] m'',
       logJSONString =
         jsonLine demoDay demoDate ''2024-06-20 17:39:05:514 GMT+0100'' ''m'' ''INFO'' ''''\<rparr>]"
proof -
  have fa: "fileActive INFO demoDay"
    by (simp add: fileActive_def demoDay_fields demoDay_show)
  have vt: "valueText (JString ''m'') = ''m''" by (simp add: valueText_def)
  have pc: "printCall INFO = info" by (simp add: printCall_def)
  have d: "JNull = JNull \<or> JNull = JUndefined" by simp
  note T = null_data_is_absent_data [OF d, where s = demoDay and lvl = INFO and n = 0
      and msg = "JString ''m''"]
  note c = T [THEN conjunct2, THEN conjunct2, THEN conjunct1, THEN mp, OF demoDay_quiet_null]
  note f = T [THEN conjunct2, THEN conjunct2, THEN conjunct2, THEN conjunct1, THEN mp,
      OF conjI [OF demoDay_quiet_null conjI [OF fa demoDay_fields(2)]]]
  note b = null_data_is_absent_data [OF d, where s = demoLogger and lvl = INFO and n = 0
      and msg = "JString ''m''", THEN conjunct2, THEN conjunct2, THEN conjunct2, THEN conjunct2,
      THEN conjunct1, THEN mp,
      OF conjI [OF demoLogger_quiet_null conjI [OF demoLogger_batch(1)
        conjI [OF demoLogger_batch(2) demoLogger_batch(3)]]]]
  have "filter isConsoleLog (events (info 1 (JString ''m'') JNull demoDay)) =
     [ConsoleLog INFO ''[2024-06-20 17:39:05:514 GMT+0100] <Testing.sub> [INFO] m'']"
    using c by (simp add: pc vt demo_null_lines demoDay_fields demoDay_show default_show_def)
  moreover have "written ''txt.log'' (events (info 1 (JString ''m'') JNull demoDay)) =
     [''[2024-06-20 17:39:05:514 GMT+0100] <Testing.sub> [INFO] m'' @ nl]"
    using f [THEN conjunct1] by (simp add: pc vt demo_null_lines demoDay_fields)
  moreover have "written ''json.log'' (events (info 1 (JString ''m'') JNull demoDay)) =
     [''{'' @ dq @ ''date'' @ dq @ '':'' @ dq @ ''2024-06-20T16:39:05.514Z'' @ dq @ '','' @
      dq @ ''formattedDate'' @ dq @ '':'' @ dq @ ''2024-06-20 17:39:05:514 GMT+0100'' @ dq @ '','' @
      dq @ ''mainProcess'' @ dq @ '':'' @ dq @ ''Testing'' @ dq @ '','' @
      dq @ ''subProcess'' @ dq @ '':'' @ dq @ ''sub'' @ dq @ '','' @
      dq @ ''logLevel'' @ dq @ '':'' @ dq @ ''INFO'' @ dq @ '','' @
      dq @ ''logMessage'' @ dq @ '':'' @ dq @ ''m'' @ dq @ '','' @
      dq @ ''logData'' @ dq @ '':'' @ dq @ dq @ ''}'' @ nl]"
    using f [THEN conjunct2]
    by (simp add: pc vt demo_null_lines demo_null_json demoDay_fields demoDay_show constClock_def)
  moreover have "logBuffer (info 1 (JString ''m'') JNull demoLogger) =
     [\<lparr>logTXT = ''[2024-06-20 17:39:05:514 GMT+0100] <Testing.sub> [INFO] m'',
       logJSONString =
         jsonLine demoDay demoDate ''2024-06-20 17:39:05:514 GMT+0100'' ''m'' ''INFO'' ''''\<rparr>]"
    using b
    by (simp add: pc vt demo_null_lines demo_null_json(2) demoLogger_batch(4))
       (simp add: demoLogger_def constClock_def)
  ultimately show ?thesis
    using demoDay_quiet_null fa demoDay_fields(2) demoLogger_quiet_null demoLogger_batch(1,2,3)
    by simp
qed

section \<open>Further properties\<close>

text \<open>
  X1. No dispatch changes the settings or the process names, whatever it logs
  and however deep it recurses: they are fixed at construction.
\<close>

theorem dispatch_keeps_settings:
  "formatSettings (sendLog stack lvl msg data s) = formatSettings s \<and>
   storageSettings (sendLog stack lvl msg data s) = storageSettings s \<and>
   webhookSettings (sendLog stack lvl msg data s) = webhookSettings s \<and>
   mainProcess (sendLog stack lvl msg data s) = mainProcess s \<and>
   subProcess (sendLog stack lvl msg data s) = subProcess s"
  using sendLog_config [of stack lvl msg data s] by (simp add: config_def)

text \<open>
  X2. For the six \<open>splitBy\<close> values other than \<open>year\<close> the paths are those of
  the table of section 4.1: with strategy single and both formats written, one
  record creates the directory of the table when it is missing and appends one
  line to \<open>{dir}/{stem}txt.log\<close> and one to \<open>{dir}/{stem}json.log\<close>.
\<close>

theorem bucket_paths_follow_table:
  assumes "g \<noteq> SplitYear" and "splitBy (storageSettings s) = splitName g"
    and "\<not> (stratagy (storageSettings s) = ''batch'' \<and> 1 < batch (storageSettings s))"
    and "txt (storageSettings s)" and "json (storageSettings s)"
  shows "generatePaths emit t s =
           ((fst (bucketPaths_spec (path (storageSettings s)) t g) @ ''/'',
             fst (bucketPaths_spec (path (storageSettings s)) t g) @ ''/''
               @ snd (bucketPaths_spec (path (storageSettings s)) t g)), s) \<and>
         filter isFileOp (events (logToFile emit t fd m l d x s))
           = filter isFileOp (events s) @
             (if fst (bucketPaths_spec (path (storageSettings s)) t g) @ ''/'' \<in> dirs s then []
              else [MkDir (fst (bucketPaths_spec (path (storageSettings s)) t g) @ ''/'')]) @
             [FileAppend (fst (files_spec (path (storageSettings s)) t g)) (x @ nl),
              FileAppend (snd (files_spec (path (storageSettings s)) t g))
                (jsonLine s t fd m l d @ nl)]"
proof -
  have r: "recognisedSplit (splitBy (storageSettings s))"
    unfolding assms(2) by (cases g) (simp_all add: recognisedSplit_def)
  note g = generatePaths_table [OF assms(1,2), of emit t]
  show ?thesis
    unfolding logToFile_single [OF assms(3) r] g
    by (simp add: writeEvents_def files_spec_def assms(4,5))
qed

text \<open>Splitting by day on 2024-06-20: the files are \<open>./logs/2024/06/20.txt.log\<close> and \<open>./logs/2024/06/20.json.log\<close>.\<close>

theorem bucket_paths_follow_table_witness:
  "SplitDay \<noteq> SplitYear \<and> splitBy (storageSettings demoDay) = splitName SplitDay \<and>
   \<not> (stratagy (storageSettings demoDay) = ''batch'' \<and> 1 < batch (storageSettings demoDay)) \<and>
   txt (storageSettings demoDay) \<and> json (storageSettings demoDay) \<and>
   filter isFileOp (events (logToFile (sendLog 1) demoDate ''d'' ''m'' ''INFO'' '''' ''x'' demoDay))
     = [MkDir ''./logs/2024/06/'',
        FileAppend ''./logs/2024/06/20.txt.log'' (''x'' @ nl),
        FileAppend ''./logs/2024/06/20.json.log''
          (jsonLine demoDay demoDate ''d'' ''m'' ''INFO'' '''' @ nl)]"
  using bucket_paths_follow_table [OF _ demoDay_fields(1,2,3,4), of "sendLog 1" demoDate
      "''d''" "''m''" "''INFO''" "''''" "''x''"]
    demoDay_fields(1,2,3,4)
  by (simp add: demoDay_fields files_spec_def demoDate_pads)

text \<open>
  X3. The paths depend on the time and the storage settings only: two loggers
  with the same storage settings get the same directory and file prefix at the
  same time, whatever else differs.
\<close>

theorem bucket_paths_deterministic:
  "storageSettings s' = storageSettings s \<longrightarrow>
     fst (generatePaths emit' t s') = fst (generatePaths emit t s)"
  by (simp add: generatePaths_def Let_def)

text \<open>Two loggers that differ in their webhook settings and buffers.\<close>

theorem bucket_paths_deterministic_witness:
  "storageSettings (demoFull 3) = storageSettings demoLogger \<and>
   fst (generatePaths (sendLog 0) demoDate (demoFull 3))
     = fst (generatePaths (sendLog 1) demoDate demoLogger)"
  using bucket_paths_deterministic [of "demoFull 3" demoLogger "sendLog 0" demoDate "sendLog 1"]
  by (simp add: demoFull_def demoWebhook_def)

text \<open>
  X4. Outside batch mode (strategy single, or a batch size of at most 1) one
  record makes exactly one write to each enabled format, of its line followed
  by a newline, and nothing is buffered.
\<close>

theorem single_strategy_one_write_per_format:
  assumes "\<not> (stratagy (storageSettings s) = ''batch'' \<and> 1 < batch (storageSettings s))"
    and "recognisedSplit (splitBy (storageSettings s))"
  shows "written ''txt.log'' (events (logToFile emit t fd m l d x s))
           = written ''txt.log'' (events s) @ (if txt (storageSettings s) then [x @ nl] else []) \<and>
         written ''json.log'' (events (logToFile emit t fd m l d x s))
           = written ''json.log'' (events s) @
             (if json (storageSettings s) then [jsonLine s t fd m l d @ nl] else []) \<and>
         logBuffer (logToFile emit t fd m l d x s) = logBuffer s"
  unfolding logToFile_single [OF assms]
  by (simp add: written_writeEvents_txt written_writeEvents_json)

text \<open>One record on the default logger with strategy single.\<close>

theorem single_strategy_one_write_per_format_witness:
  "\<not> (stratagy (storageSettings demoDay) = ''batch'' \<and> 1 < batch (storageSettings demoDay)) \<and>
   recognisedSplit (splitBy (storageSettings demoDay)) \<and>
   written ''txt.log'' (events (logToFile (sendLog 1) demoDate ''d'' ''m'' ''INFO'' '''' ''x'' demoDay))
     = [''x'' @ nl] \<and>
   logBuffer (logToFile (sendLog 1) demoDate ''d'' ''m'' ''INFO'' '''' ''x'' demoDay) = []"
proof -
  have r: "recognisedSplit (splitBy (storageSettings demoDay))"
    by (simp add: demoDay_fields recognisedSplit_def)
  show ?thesis
    using single_strategy_one_write_per_format [OF demoDay_fields(2) r, of "sendLog 1" demoDate
        "''d''" "''m''" "''INFO''" "''''" "''x''"] r demoDay_fields(2)
    by (simp add: demoDay_fields) (simp add: demoDay_def demoLogger_def)
qed

text \<open>
  X5. What the conversion returns. A string is returned as it is; a number
  (here \<open>42\<close>), a boolean, a bigint, a symbol and a function are returned
  through \<open>toString\<close>;
  the object \<open>{a: 1}\<close> becomes the JSON text with four blanks of indentation.
  \<open>typeof\<close> has no result beyond the eight the function tests for, so its
  last branch, the one returning \<open>Datatype error\<close>, is never taken: the string
  returned is always \<open>valueText\<close> of the value.
\<close>

theorem conversions_of_values:
  "handleLogDatatype emit (JString x) s = (x, s) \<and>
   handleLogDatatype emit (JNumber 42) s = (''42'', s) \<and>
   handleLogDatatype emit (JBoolean True) s = (''true'', s) \<and>
   handleLogDatatype emit (JBoolean False) s = (''false'', s) \<and>
   handleLogDatatype emit (JBigInt i) s = (showInt i, s) \<and>
   handleLogDatatype emit (JSymbol d) s = (''Symbol('' @ d @ '')'', s) \<and>
   handleLogDatatype emit (JFunction src) s = (src, s) \<and>
   handleLogDatatype emit (JObject [(''a'', JNumber 1)]) s
     = (''{'' @ nl @ ''    '' @ dq @ ''a'' @ dq @ '': 1'' @ nl @ ''}'', s) \<and>
   typeof_js v \<in> set [''undefined'', ''object'', ''string'', ''number'', ''boolean'', ''bigint'',
     ''symbol'', ''function''] \<and>
   fst (handleLogDatatype emit v s) = valueText v"
proof (intro conjI)
  show "handleLogDatatype emit (JObject [(''a'', JNumber 1)]) s
     = (''{'' @ nl @ ''    '' @ dq @ ''a'' @ dq @ '': 1'' @ nl @ ''}'', s)"
    by (simp add: handleLogDatatype_def JSON_stringify_def showInt_def showNat.simps
        quoteJSON_def quoteChar_def eval_nat_numeral)
  show "typeof_js v \<in> set [''undefined'', ''object'', ''string'', ''number'', ''boolean'', ''bigint'',
     ''symbol'', ''function'']"
    by (rule typeof_js_cases)
  show "fst (handleLogDatatype emit v s) = valueText v"
    by (rule handleLogDatatype_text)
qed (simp_all add: handleLogDatatype_def showInt_def showNat.simps)

text \<open>
  X6. \<open>sendWebhook\<close> called for a \<open>FATALRATE\<close> record returns at once, whatever
  the webhook settings: no item is appended and no request is made. A
  \<open>FATALRATE\<close> dispatch that raises no error record of its own therefore leaves
  the webhook batch as it was and makes no request, and so do the two callbacks
  that report a failed delivery (\<open>webhookThen\<close> on an unexpected status,
  \<open>webhookCatch\<close> on a transport error).
\<close>

theorem quiet_failure_report_skips_webhook:
  "sendWebhook emit t fd m FATALRATE d x s = s \<and>
   (quietDispatch FATALRATE msg data s \<longrightarrow>
      filter isPost (events (fatalRate stack msg data s)) = filter isPost (events s) \<and>
      webhookBuffer (fatalRate stack msg data s) = webhookBuffer s) \<and>
   ((fileActive FATALRATE s \<longrightarrow> recognisedSplit (splitBy (storageSettings s))) \<longrightarrow>
      filter isPost (events (webhookThen stack status statusText s)) = filter isPost (events s)) \<and>
   (quietDispatch FATALRATE (JString ''Webhook failed to send'') (JObject [(''error'', err)]) s \<longrightarrow>
      filter isPost (events (webhookCatch stack err s)) = filter isPost (events s) \<and>
      webhookBuffer (webhookCatch stack err s) = webhookBuffer s)"
proof (intro conjI impI)
  show "sendWebhook emit t fd m FATALRATE d x s = s" by simp
next
  assume q: "quietDispatch FATALRATE msg data s"
  have n: "\<not> webhookActive FATALRATE s" by (simp add: webhookActive_def)
  show "filter isPost (events (fatalRate stack msg data s)) = filter isPost (events s)"
    "webhookBuffer (fatalRate stack msg data s) = webhookBuffer s"
    unfolding fatalRate_def using sendLog_quiet_any_stack(3) [OF q n] by simp_all
next
  assume f: "fileActive FATALRATE s \<longrightarrow> recognisedSplit (splitBy (storageSettings s))"
  have n: "\<not> webhookActive FATALRATE s" by (simp add: webhookActive_def)
  have q: "quietDispatch FATALRATE (JString ''Unexpected response from webhook'')
             (JObject [(''status'', JNumber status), (''message'', JString statusText)]) s"
    using f by (simp add: quietDispatch_def convertible_status webhookActive_def)
  show "filter isPost (events (webhookThen stack status statusText s)) = filter isPost (events s)"
    unfolding webhookThen_def fatalRate_def Let_def
    using sendLog_quiet_any_stack(3) [OF q n] by simp
next
  assume q: "quietDispatch FATALRATE (JString ''Webhook failed to send'')
               (JObject [(''error'', err)]) s"
  have n: "\<not> webhookActive FATALRATE s" by (simp add: webhookActive_def)
  show "filter isPost (events (webhookCatch stack err s)) = filter isPost (events s)"
    "webhookBuffer (webhookCatch stack err s) = webhookBuffer s"
    unfolding webhookCatch_def fatalRate_def using sendLog_quiet_any_stack(3) [OF q n] by simp_all
qed

text \<open>A \<open>FATALRATE\<close> record and both failure callbacks on a logger with a webhook.\<close>

theorem quiet_failure_report_skips_webhook_witness:
  "quietDispatch FATALRATE (JString ''m'') (JNumber 9) demoWebhook \<and>
   filter isPost (events (fatalRate 1 (JString ''m'') (JNumber 9) demoWebhook)) = [] \<and>
   webhookBuffer (fatalRate 1 (JString ''m'') (JNumber 9) demoWebhook) = [] \<and>
   fileActive FATALRATE demoWebhook \<and>
   recognisedSplit (splitBy (storageSettings demoWebhook)) \<and>
   filter isPost (events (webhookThen 1 429 ''Too Many Requests'' demoWebhook)) = [] \<and>
   quietDispatch FATALRATE (JString ''Webhook failed to send'')
     (JObject [(''error'', JObject [])]) demoWebhook \<and>
   filter isPost (events (webhookCatch 1 (JObject []) demoWebhook)) = [] \<and>
   webhookBuffer (webhookCatch 1 (JObject []) demoWebhook) = []"
  using quiet_failure_report_skips_webhook [of _ _ _ _ _ _ demoWebhook "JString ''m''" "JNumber 9" 1
      429 "''Too Many Requests''" "JObject []"]
    demo_quiet_fatalrate demo_quiet_failed demo_fileActive_fatalrate
  by (simp add: demoLogger_def demoWebhook_def)

end
